(* ===== verification/PyStr.thy ===== *)
theory PyStr
  imports Prelude
begin

text \<open>
  The Python string built-ins that \<^verbatim>\<open>main.py\<close> calls, on \<open>string\<close> (a list of
  8-bit characters, Python's code points below 256): \<^verbatim>\<open>s.split(sep)\<close>
  (\<open>split_on\<close>, \<open>py_split\<close>), \<^verbatim>\<open>sep.join(ws)\<close> (\<open>py_join\<close>),
  \<^verbatim>\<open>s.replace(old, new)\<close> (\<open>replace_all\<close>, \<open>py_replace\<close>), \<^verbatim>\<open>s.strip()\<close>
  (\<open>py_strip\<close>), \<^verbatim>\<open>x in s\<close> (\<open>sublist\<close>), \<^verbatim>\<open>s.startswith(p)\<close> (\<open>prefix\<close>)
  and \<^verbatim>\<open>int(s)\<close> (\<open>py_int\<close>). The lemmas give the facts the parsers of the
  program rest on: splitting is undone by joining, pieces hold no separator,
  splitting a text that contains the separator gives at least two pieces (so the
  \<^verbatim>\<open>[1]\<close> after it never raises), the scanning \<open>replace_all\<close> equals the
  reference "join of the split", and stripping removes exactly the outer
  whitespace.
\<close>

section \<open>Splitting and joining\<close>

text \<open>
  \<^verbatim>\<open>s.split(sep)\<close> for a non-empty separator: scan left to right, cut at each
  non-overlapping occurrence. An empty text gives one empty piece.
\<close>

fun split_on :: "'a list \<Rightarrow> 'a list \<Rightarrow> 'a list list" where
  "split_on sep [] = [[]]"
| "split_on sep (c # cs) =
     (if sep \<noteq> [] \<and> prefix sep (c # cs)
      then [] # split_on sep (drop (length sep) (c # cs))
      else (case split_on sep cs of [] \<Rightarrow> [[c]] | w # ws \<Rightarrow> (c # w) # ws))"

text \<open>An empty separator raises \<^verbatim>\<open>ValueError: empty separator\<close>.\<close>

definition py_split :: "'a list \<Rightarrow> 'a list \<Rightarrow> 'a list list result" where
  "py_split s sep =
     (if sep = [] then Inl (ValueError ''empty separator'') else Inr (split_on sep s))"

fun py_join :: "'a list \<Rightarrow> 'a list list \<Rightarrow> 'a list" where
  "py_join sep [] = []"
| "py_join sep [w] = w"
| "py_join sep (w # ws) = w @ sep @ py_join sep ws"

section \<open>Replacing\<close>

text \<open>\<^verbatim>\<open>s.replace(old, new)\<close>: CPython's scan, non-overlapping, left to right.\<close>

fun replace_all :: "'a list \<Rightarrow> 'a list \<Rightarrow> 'a list \<Rightarrow> 'a list" where
  "replace_all old new [] = []"
| "replace_all old new (c # cs) =
     (if old \<noteq> [] \<and> prefix old (c # cs)
      then new @ replace_all old new (drop (length old) (c # cs))
      else c # replace_all old new cs)"

text \<open>An empty \<open>old\<close> inserts \<open>new\<close> before every character and at the end.\<close>

definition py_replace :: "'a list \<Rightarrow> 'a list \<Rightarrow> 'a list \<Rightarrow> 'a list" where
  "py_replace s old new =
     (if old = [] then new @ concat (map (\<lambda>c. c # new) s) else replace_all old new s)"

section \<open>Whitespace and stripping\<close>

text \<open>
  \<^verbatim>\<open>str.isspace\<close> below code point 256: tab, line feed, vertical tab, form feed,
  carriage return, the separators 0x1C to 0x1F, space, 0x85 and no-break space 0xA0.
\<close>

definition py_isspace :: "char \<Rightarrow> bool" where
  "py_isspace c \<longleftrightarrow> (of_char c :: nat) \<in> {9, 10, 11, 12, 13, 28, 29, 30, 31, 32, 133, 160}"

definition py_strip :: "string \<Rightarrow> string" where
  "py_strip s = rev (dropWhile py_isspace (rev (dropWhile py_isspace s)))"

section \<open>Integer parsing\<close>

definition is_digit :: "char \<Rightarrow> bool" where
  "is_digit c \<longleftrightarrow> 48 \<le> (of_char c :: nat) \<and> (of_char c :: nat) \<le> 57"

definition digit_val :: "char \<Rightarrow> int" where
  "digit_val c = int (of_char c) - 48"

text \<open>
  The body of a base-10 literal: digits, with single underscores allowed between
  two digits (PEP 515), as \<^verbatim>\<open>int()\<close> accepts them.
\<close>

definition valid_int_body :: "string \<Rightarrow> bool" where
  "valid_int_body ds \<longleftrightarrow>
     ds \<noteq> [] \<and> is_digit (hd ds) \<and> is_digit (last ds)
     \<and> list_all (\<lambda>c. is_digit c \<or> c = CHR ''_'') ds \<and> \<not> sublist ''__'' ds"

definition digits_value :: "string \<Rightarrow> int" where
  "digits_value ds = foldl (\<lambda>n c. 10 * n + digit_val c) 0 (filter is_digit ds)"

text \<open>
  \<^verbatim>\<open>int(s)\<close>: surrounding whitespace is ignored, one optional sign, then the
  body; anything else raises \<^verbatim>\<open>ValueError\<close>.
\<close>

definition py_int :: "string \<Rightarrow> int result" where
  "py_int s =
     (let t = py_strip s;
          (neg, ds) = (case t of
                         [] \<Rightarrow> (False, [])
                       | c # r \<Rightarrow> if c = CHR ''-'' then (True, r)
                                  else if c = CHR ''+'' then (False, r) else (False, t))
      in if valid_int_body ds then Inr (if neg then - digits_value ds else digits_value ds)
         else Inl (ValueError ''invalid literal for int() with base 10''))"

section \<open>Printing integers\<close>

text \<open>\<^verbatim>\<open>str(n)\<close> for an integer: decimal digits, a minus sign when negative.\<close>

fun nat_to_str :: "nat \<Rightarrow> string" where
  "nat_to_str n =
     (if n < 10 then [char_of (48 + n)] else nat_to_str (n div 10) @ [char_of (48 + n mod 10)])"

declare nat_to_str.simps [simp del]

definition int_to_str :: "int \<Rightarrow> string" where
  "int_to_str i = (if i < 0 then CHR ''-'' # nat_to_str (nat (- i)) else nat_to_str (nat i))"

section \<open>Lemmas on splitting\<close>

lemma split_on_not_Nil [simp]: "split_on sep s \<noteq> []"
  by (induction sep s rule: split_on.induct) (auto split: list.split)

lemma py_join_Cons_Cons [simp]: "py_join sep ((c # w) # ws) = c # py_join sep (w # ws)"
  by (cases ws) simp_all

lemma py_join_Nil_Cons: "ws \<noteq> [] \<Longrightarrow> py_join sep ([] # ws) = sep @ py_join sep ws"
  by (cases ws) simp_all

lemma prefix_drop_length: "prefix sep s \<Longrightarrow> sep @ drop (length sep) s = s"
  by (auto simp: prefix_def)

text \<open>Round trip: joining the pieces with the separator gives the text back.\<close>

lemma join_split_on: "py_join sep (split_on sep s) = s"
proof (induction sep s rule: split_on.induct)
  case (1 sep)
  then show ?case by simp
next
  case (2 sep c cs)
  show ?case
  proof (cases "sep \<noteq> [] \<and> prefix sep (c # cs)")
    case True
    then have "py_join sep (split_on sep (c # cs))
        = sep @ drop (length sep) (c # cs)"
      using "2.IH"(1) by (simp add: py_join_Nil_Cons)
    with True show ?thesis by (simp add: prefix_drop_length)
  next
    case False
    then show ?thesis
      using "2.IH"(2) by (auto split: list.split)
  qed
qed

lemma split_on_no_sep:
  "\<not> sublist sep s \<Longrightarrow> split_on sep s = [s]"
proof (induction sep s rule: split_on.induct)
  case (1 sep)
  then show ?case by simp
next
  case (2 sep c cs)
  from "2.prems" have np: "\<not> prefix sep (c # cs)" and ns: "\<not> sublist sep cs"
    by (auto simp: sublist_Cons_right)
  with "2.IH"(2) show ?case by simp
qed

text \<open>The first piece is what precedes the first occurrence.\<close>

lemma hd_split_on_prefix: "prefix (hd (split_on sep s)) s"
proof (induction sep s rule: split_on.induct)
  case (1 sep)
  then show ?case by simp
next
  case (2 sep c cs)
  then show ?case
    by (auto split: list.split)
qed

lemma split_on_append:
  assumes "sep \<noteq> []" and "\<not> sublist sep (xs @ butlast sep)"
  shows "split_on sep (xs @ sep @ ys) = xs # split_on sep ys"
  using assms(2)
proof (induction xs)
  case Nil
  from assms(1) show ?case
    by (cases sep) simp_all
next
  case (Cons x xs)
  have np: "\<not> prefix sep (x # xs @ sep @ ys)"
  proof
    assume p: "prefix sep (x # xs @ sep @ ys)"
    have "prefix (butlast sep) (sep @ ys)"
      by (rule prefix_order.trans [OF prefixeq_butlast]) simp
    then have "prefix ((x # xs) @ butlast sep) (x # xs @ sep @ ys)"
      by simp
    moreover have "length sep \<le> length ((x # xs) @ butlast sep)"
      by simp
    ultimately have "prefix sep ((x # xs) @ butlast sep)"
      using p prefix_length_prefix by blast
    with Cons.prems show False by (auto dest: prefix_imp_sublist)
  qed
  have "\<not> sublist sep (xs @ butlast sep)"
    using Cons.prems by (auto simp: sublist_Cons_right)
  with Cons.IH have "split_on sep (xs @ sep @ ys) = xs # split_on sep ys" .
  with np show ?case by simp
qed

text \<open>A text that contains the separator splits into at least two pieces.\<close>

lemma split_on_length_ge2:
  "sep \<noteq> [] \<Longrightarrow> sublist sep s \<Longrightarrow> 2 \<le> length (split_on sep s)"
proof (induction sep s rule: split_on.induct)
  case (1 sep)
  then show ?case by simp
next
  case (2 sep c cs)
  show ?case
  proof (cases "prefix sep (c # cs)")
    case True
    with "2.prems"(1) show ?thesis
      by (simp add: Suc_le_eq length_greater_0_conv)
  next
    case False
    with "2.prems" have "sublist sep cs" by (simp add: sublist_Cons_right)
    with "2.prems"(1) False "2.IH"(2) show ?thesis
      by (auto split: list.split)
  qed
qed

text \<open>No piece contains the separator.\<close>

lemma split_on_pieces:
  "sep \<noteq> [] \<Longrightarrow> w \<in> set (split_on sep s) \<Longrightarrow> \<not> sublist sep w"
proof (induction sep s arbitrary: w rule: split_on.induct)
  case (1 sep)
  then show ?case by simp
next
  case (2 sep c cs)
  show ?case
  proof (cases "prefix sep (c # cs)")
    case True
    with "2.prems" "2.IH"(1) show ?thesis by auto
  next
    case False
    obtain w0 ws where sp: "split_on sep cs = w0 # ws"
      by (cases "split_on sep cs") simp_all
    have "prefix w0 cs"
      using hd_split_on_prefix [of sep cs] sp by simp
    then have "\<not> prefix sep (c # w0)"
      using False prefix_order.trans by (metis Cons_prefix_Cons)
    moreover have "\<not> sublist sep w0"
      using "2.IH"(2) "2.prems"(1) False sp by simp
    ultimately have "\<not> sublist sep (c # w0)"
      by (simp add: sublist_Cons_right)
    with "2.prems" False sp "2.IH"(2) show ?thesis by auto
  qed
qed

text \<open>
  Equivalence of the scanning \<^verbatim>\<open>replace\<close> with the reference definition
  \<^verbatim>\<open>new.join(s.split(old))\<close>.
\<close>

lemma replace_all_eq_join_split:
  "old \<noteq> [] \<Longrightarrow> replace_all old new s = py_join new (split_on old s)"
proof (induction old new s rule: replace_all.induct)
  case (1 old new)
  then show ?case by simp
next
  case (2 old new c cs)
  show ?case
  proof (cases "prefix old (c # cs)")
    case True
    with "2.prems" "2.IH"(1) show ?thesis
      by (simp add: py_join_Nil_Cons)
  next
    case False
    with "2.prems" "2.IH"(2) show ?thesis
      by (auto split: list.split)
  qed
qed

lemma py_replace_absent:
  "old \<noteq> [] \<Longrightarrow> \<not> sublist old s \<Longrightarrow> py_replace s old new = s"
  by (simp add: py_replace_def replace_all_eq_join_split split_on_no_sep)

section \<open>Occurrences across a delimiter\<close>

text \<open>
  An occurrence of \<open>w\<close> cannot straddle a character that \<open>w\<close> does not contain;
  the parsers use this to find the labels of a text only in its fields.
\<close>

lemma sublist_snoc_notin: "c \<notin> set w \<Longrightarrow> sublist w (u @ [c]) \<longleftrightarrow> sublist w u"
proof
  assume c: "c \<notin> set w" and "sublist w (u @ [c])"
  then have "suffix w (u @ [c]) \<or> sublist w u" by (simp add: sublist_snoc)
  then show "sublist w u"
  proof
    assume "suffix w (u @ [c])"
    with c show ?thesis
      by (cases w rule: rev_cases) (auto simp: suffix_def)
  qed
next
  assume "sublist w u"
  then show "sublist w (u @ [c])"
    by (rule sublist_order.order_trans) simp
qed

lemma sublist_split_at_char:
  assumes "c \<notin> set w"
  shows "sublist w (u @ c # v) \<longleftrightarrow> sublist w u \<or> sublist w v"
proof
  assume "sublist w (u @ c # v)"
  then have "sublist w ((u @ [c]) @ v)" by simp
  then have "sublist w (u @ [c]) \<or> sublist w v
      \<or> (\<exists>w1 w2. w = w1 @ w2 \<and> suffix w1 (u @ [c]) \<and> prefix w2 v)"
    by (rule iffD1 [OF sublist_append])
  then consider "sublist w (u @ [c])" | "sublist w v"
    | w1 w2 where "w = w1 @ w2" "suffix w1 (u @ [c])" "prefix w2 v"
    by blast
  then show "sublist w u \<or> sublist w v"
  proof cases
    case 1
    with assms show ?thesis by (simp add: sublist_snoc_notin)
  next
    case 2
    then show ?thesis ..
  next
    case 3
    show ?thesis
    proof (cases w1 rule: rev_cases)
      case Nil
      with 3 show ?thesis by (auto intro: prefix_imp_sublist)
    next
      case (snoc w1' x)
      with 3 assms show ?thesis by (auto simp: suffix_def)
    qed
  qed
next
  assume "sublist w u \<or> sublist w v"
  then show "sublist w (u @ c # v)"
  proof
    assume "sublist w u"
    then show ?thesis by (rule sublist_order.order_trans) simp
  next
    assume "sublist w v"
    moreover have "sublist v ((u @ [c]) @ v)" by (rule sublist_append_leftI)
    ultimately show ?thesis by (simp add: sublist_order.order_trans)
  qed
qed

lemma sublist_Cons_notin: "c \<notin> set w \<Longrightarrow> sublist w (c # v) \<longleftrightarrow> sublist w v"
  using sublist_split_at_char [of c w "[]" v] by (cases "w = []") auto

text \<open>An occurrence ends with the last character of \<open>w\<close>, so a tail without it adds none.\<close>

lemma sublist_append_last_notin:
  assumes "w \<noteq> []" and "last w \<notin> set v"
  shows "sublist w (u @ v) \<longleftrightarrow> sublist w u"
proof
  assume "sublist w (u @ v)"
  then consider "sublist w u" | "sublist w v"
    | w1 w2 where "w = w1 @ w2" "suffix w1 u" "prefix w2 v"
    by (auto simp: sublist_append)
  then show "sublist w u"
  proof cases
    case 1
    then show ?thesis .
  next
    case 2
    then have "last w \<in> set v"
      using assms(1) set_mono_sublist by fastforce
    with assms(2) show ?thesis ..
  next
    case 3
    show ?thesis
    proof (cases "w2 = []")
      case True
      with 3 show ?thesis by auto
    next
      case False
      with 3 have "last w \<in> set v"
        by (auto simp: prefix_def)
      with assms(2) show ?thesis ..
    qed
  qed
next
  assume "sublist w u"
  then show "sublist w (u @ v)"
    by (rule sublist_order.order_trans) simp
qed

text \<open>A text with exactly one occurrence splits into the two sides of it.\<close>

lemma split_on_two:
  assumes "sep \<noteq> []" and "last sep \<notin> set (butlast sep)"
    and "\<not> sublist sep xs" and "\<not> sublist sep ys"
  shows "split_on sep (xs @ sep @ ys) = [xs, ys]"
proof -
  have "\<not> sublist sep (xs @ butlast sep)"
    using assms(1-3) by (simp add: sublist_append_last_notin)
  with assms(1,4) show ?thesis
    by (simp add: split_on_append split_on_no_sep)
qed

section \<open>Lemmas on stripping\<close>

lemma dropWhile_all: "list_all P u \<Longrightarrow> dropWhile P u = []"
  by (induction u) simp_all

lemma dropWhile_all_append:
  "list_all P u \<Longrightarrow> dropWhile P (u @ x) = dropWhile P x"
  by (induction u) simp_all

lemma py_strip_pad:
  assumes "list_all py_isspace u" and "list_all py_isspace v"
  shows "py_strip (u @ x @ v) = py_strip x"
proof (cases "list_all py_isspace x")
  case True
  then show ?thesis
    using assms by (simp add: py_strip_def dropWhile_all_append dropWhile_all)
next
  case False
  then obtain y where y: "y \<in> set x" "\<not> py_isspace y"
    by (auto simp: list_all_iff)
  have "dropWhile py_isspace (u @ x @ v) = dropWhile py_isspace x @ v"
    using assms(1) y by (simp add: dropWhile_all_append dropWhile_append1)
  moreover have "rev (dropWhile py_isspace x @ v) = rev v @ rev (dropWhile py_isspace x)"
    by simp
  ultimately show ?thesis
    using assms(2) by (simp add: py_strip_def dropWhile_all_append)
qed

text \<open>A text without outer whitespace is left unchanged by \<^verbatim>\<open>strip()\<close>.\<close>

lemma py_strip_id:
  assumes "x = [] \<or> \<not> py_isspace (hd x) \<and> \<not> py_isspace (last x)"
  shows "py_strip x = x"
proof -
  have "dropWhile py_isspace x = x"
    using assms by (auto simp: dropWhile_eq_self_iff)
  moreover have "dropWhile py_isspace (rev x) = rev x"
    using assms by (auto simp: dropWhile_eq_self_iff hd_rev)
  ultimately show ?thesis by (simp add: py_strip_def)
qed

text \<open>\<^verbatim>\<open>strip()\<close> is idempotent and keeps only characters of its argument.\<close>

lemma py_strip_idem: "py_strip (py_strip s) = py_strip s"
proof (rule py_strip_id)
  let ?a = "dropWhile py_isspace s"
  let ?b = "dropWhile py_isspace (rev ?a)"
  show "py_strip s = [] \<or> \<not> py_isspace (hd (py_strip s)) \<and> \<not> py_isspace (last (py_strip s))"
  proof (cases "?b = []")
    case True
    then show ?thesis by (simp add: py_strip_def)
  next
    case False
    have pre: "rev ?a = takeWhile py_isspace (rev ?a) @ ?b" by simp
    have a: "?a \<noteq> []" using False by (metis Nil_is_rev_conv dropWhile.simps(1))
    have "last ?b = last (rev ?a)"
      using pre False by (metis last_appendR)
    also have "\<dots> = hd ?a" using a by (simp add: last_rev)
    finally have "\<not> py_isspace (last ?b)"
      using a hd_dropWhile by metis
    moreover have "\<not> py_isspace (hd ?b)"
      using False hd_dropWhile by metis
    ultimately show ?thesis
      using False by (simp add: py_strip_def hd_rev last_rev)
  qed
qed

lemma set_py_strip: "set (py_strip s) \<subseteq> set s"
  by (auto simp: py_strip_def dest!: set_dropWhileD)

lemma hd_split_on_char: "c \<notin> set (hd (split_on [c] s))"
proof
  assume "c \<in> set (hd (split_on [c] s))"
  then obtain u v where "hd (split_on [c] s) = u @ [c] @ v"
    by (metis append_Cons append_Nil in_set_conv_decomp)
  then have "sublist [c] (hd (split_on [c] s))" by (metis sublist_appendI)
  with split_on_pieces [of "[c]" "hd (split_on [c] s)" s] show False by simp
qed

section \<open>Lemmas on integer printing and parsing\<close>

lemma nat_to_str_digits: "list_all is_digit (nat_to_str n) \<and> nat_to_str n \<noteq> []"
proof (induction n rule: nat_to_str.induct)
  case (1 n)
  have d: "is_digit (char_of (48 + k))" if "k < 10" for k :: nat
    using that by (simp add: is_digit_def of_char_of)
  show ?case
    using "1.IH" d [of n] d [of "n mod 10"]
    by (auto simp: nat_to_str.simps [of n])
qed

lemma digit_val_char: "k < 10 \<Longrightarrow> digit_val (char_of (48 + k)) = int k"
  by (simp add: digit_val_def of_char_of)

lemma digits_value_snoc:
  "is_digit c \<Longrightarrow> digits_value (ds @ [c]) = 10 * digits_value ds + digit_val c"
  by (simp add: digits_value_def)

lemma digits_value_nat_to_str: "digits_value (nat_to_str n) = int n"
proof (induction n rule: nat_to_str.induct)
  case (1 n)
  show ?case
  proof (cases "n < 10")
    case True
    then show ?thesis
      by (simp add: nat_to_str.simps [of n] digits_value_def digit_val_char is_digit_def of_char_of)
  next
    case False
    have dig: "is_digit (char_of (48 + n mod 10))"
      by (simp add: is_digit_def of_char_of)
    have "digits_value (nat_to_str n)
        = 10 * digits_value (nat_to_str (n div 10)) + digit_val (char_of (48 + n mod 10))"
      using False dig by (simp add: nat_to_str.simps [of n] digits_value_snoc)
    also have "\<dots> = int n"
      using False "1.IH" by (simp add: digit_val_char, presburger)
    finally show ?thesis .
  qed
qed

lemma valid_int_body_nat_to_str: "valid_int_body (nat_to_str n)"
proof -
  have d: "list_all is_digit (nat_to_str n)" and ne: "nat_to_str n \<noteq> []"
    using nat_to_str_digits by blast+
  have "\<not> sublist ''__'' (nat_to_str n)"
  proof
    assume "sublist ''__'' (nat_to_str n)"
    then have "CHR ''_'' \<in> set (nat_to_str n)" by (auto dest: set_mono_sublist)
    with d show False by (auto simp: list_all_iff is_digit_def)
  qed
  with d ne show ?thesis
    by (auto simp: valid_int_body_def list_all_iff)
qed

lemma py_strip_nat_to_str: "py_strip (nat_to_str n) = nat_to_str n"
proof (rule py_strip_id)
  have d: "list_all is_digit (nat_to_str n)" and ne: "nat_to_str n \<noteq> []"
    using nat_to_str_digits by blast+
  have "\<not> py_isspace c" if "is_digit c" for c
    using that by (auto simp: is_digit_def py_isspace_def)
  with d ne show "nat_to_str n = [] \<or> \<not> py_isspace (hd (nat_to_str n)) \<and> \<not> py_isspace (last (nat_to_str n))"
    by (simp add: list_all_iff)
qed

lemma digit_not_space: "is_digit c \<Longrightarrow> \<not> py_isspace c"
  by (auto simp: is_digit_def py_isspace_def)

lemma nat_to_str_ends:
  "is_digit (hd (nat_to_str n)) \<and> is_digit (last (nat_to_str n))"
  using nat_to_str_digits [of n] by (auto simp: list_all_iff)

text \<open>
  Round trip of the integer literal: \<^verbatim>\<open>int(str(i)) == i\<close> for every
  integer, so the class-file keys the loader accepts include every key \<^verbatim>\<open>str\<close>
  of an index writes.
\<close>

theorem py_int_int_to_str: "py_int (int_to_str i) = Inr i"
proof (cases "i < 0")
  case True
  let ?m = "nat_to_str (nat (- i))"
  have ne: "?m \<noteq> []" using nat_to_str_digits by blast
  have "\<not> py_isspace (last ?m)"
    using nat_to_str_ends digit_not_space by blast
  with ne have "py_strip (CHR ''-'' # ?m) = CHR ''-'' # ?m"
    by (intro py_strip_id) (simp add: py_isspace_def)
  with True show ?thesis
    by (simp add: py_int_def int_to_str_def valid_int_body_nat_to_str digits_value_nat_to_str)
next
  case False
  let ?m = "nat_to_str (nat i)"
  have ne: "?m \<noteq> []" using nat_to_str_digits by blast
  then obtain c r where m: "?m = c # r" by (cases ?m) simp_all
  have "is_digit c"
    using nat_to_str_ends [of "nat i"] m by simp
  then have "c \<noteq> CHR ''-'' \<and> c \<noteq> CHR ''+''"
    by (auto simp: is_digit_def)
  with False m show ?thesis
    using valid_int_body_nat_to_str [of "nat i"] digits_value_nat_to_str [of "nat i"]
      py_strip_nat_to_str [of "nat i"]
    by (simp add: py_int_def int_to_str_def)
qed

end
