(* ===== verification/State.thy ===== *)
theory State
  imports PyStr
begin

text \<open>
  The data of \<^verbatim>\<open>main.py\<close> and the state its handlers share: JSON values as
  \<^verbatim>\<open>json.load\<close> returns them and their Python \<^verbatim>\<open>str()\<close> (used when a label is
  formatted into the advisory prompt); tensors; decoded images of the modes the
  model covers; checkpoint objects as \<^verbatim>\<open>torch.load\<close> returns them; the model
  handle \<^verbatim>\<open>app.state.model\<close>; the record \<open>app_state\<close> of the attributes
  the startup handlers set on \<^verbatim>\<open>app.state\<close>; and the record \<open>world\<close> of the
  external collaborators (files, environment, PyTorch Hub, the network forward pass,
  PIL's decoder and resampler, the generative-text API), read by the handlers as
  parameters. The configuration constants of lines 29-32 and 38 close the theory.
\<close>

section \<open>JSON values\<close>

text \<open>
  A value returned by \<^verbatim>\<open>json.load\<close>: objects keep their keys in file order with
  duplicates already resolved. Numbers with a fraction or an exponent are not
  modelled.
\<close>

datatype json =
    JNull
  | JBool bool
  | JInt int
  | JStr string
  | JArr "json list"
  | JObj "(string \<times> json) list"

text \<open>
  \<^verbatim>\<open>repr()\<close> of a string: single quotes unless the text has a single quote and
  no double quote; backslash, the quote, tab, line feed and carriage return are
  escaped, other non-printable characters (below 0x20, 0x7F to 0xA0, 0xAD) as
  \<^verbatim>\<open>\xNN\<close>.
\<close>

definition hex_digit :: "nat \<Rightarrow> char" where
  "hex_digit d = (if d < 10 then char_of (48 + d) else char_of (87 + d))"

definition py_printable :: "char \<Rightarrow> bool" where
  "py_printable c \<longleftrightarrow>
     (let n = (of_char c :: nat) in (32 \<le> n \<and> n \<le> 126) \<or> (161 \<le> n \<and> n \<noteq> 173))"

definition repr_char :: "char \<Rightarrow> char \<Rightarrow> string" where
  "repr_char q c =
     (if c = CHR 0x5C then [CHR 0x5C, CHR 0x5C]
      else if c = q then [CHR 0x5C, q]
      else if c = CHR 0x09 then [CHR 0x5C, CHR ''t'']
      else if c = CHR 0x0A then [CHR 0x5C, CHR ''n'']
      else if c = CHR 0x0D then [CHR 0x5C, CHR ''r'']
      else if py_printable c then [c]
      else [CHR 0x5C, CHR ''x'', hex_digit (of_char c div 16), hex_digit (of_char c mod 16)])"

definition repr_str :: "string \<Rightarrow> string" where
  "repr_str s =
     (let q = (if CHR 0x27 \<in> set s \<and> CHR 0x22 \<notin> set s then CHR 0x22 else CHR 0x27)
      in q # concat (map (repr_char q) s) @ [q])"

fun py_repr :: "json \<Rightarrow> string" where
  "py_repr JNull = ''None''"
| "py_repr (JBool b) = (if b then ''True'' else ''False'')"
| "py_repr (JInt i) = int_to_str i"
| "py_repr (JStr s) = repr_str s"
| "py_repr (JArr xs) = ''['' @ py_join '', '' (map py_repr xs) @ '']''"
| "py_repr (JObj kvs) =
     ''{'' @ py_join '', '' (map (\<lambda>(k, v). repr_str k @ '': '' @ py_repr v) kvs) @ ''}''"

text \<open>\<^verbatim>\<open>str(v)\<close>, as an f-string formats a value: a string is itself.\<close>

fun py_str :: "json \<Rightarrow> string" where
  "py_str (JStr s) = s"
| "py_str v = py_repr v"

section \<open>Tensors, images, checkpoints\<close>

text \<open>A tensor: its shape and its elements in row-major order.\<close>

record tensor =
  tshape :: "nat list"
  tdata :: "real list"

type_synonym rgb = "8 word \<times> 8 word \<times> 8 word"

text \<open>
  PIL images of the modes the model covers, one constructor per pixel format.
  Other modes (1, I, F, I;16, YCbCr, LAB, HSV) are not modelled.
\<close>

datatype img_mode = ModeL | ModeLA | ModeRGB | ModeRGBA | ModeCMYK | ModeP

datatype pixel =
    PxL "8 word"
  | PxLA "8 word" "8 word"
  | PxRGB "8 word" "8 word" "8 word"
  | PxRGBA "8 word" "8 word" "8 word" "8 word"
  | PxCMYK "8 word" "8 word" "8 word" "8 word"
  | PxP "8 word"

text \<open>
  \<^verbatim>\<open>Image.open\<close> reads the header only (mode, size, palette); the pixel data
  are decoded when first used, and that decoding may fail (\<open>img_load\<close>).
\<close>

record pil_image =
  img_mode :: img_mode
  img_width :: nat
  img_height :: nat
  img_palette :: "8 word \<Rightarrow> rgb"
  img_load :: "pixel list list result"

text \<open>An object returned by \<^verbatim>\<open>torch.load\<close>.\<close>

datatype ckpt =
    CTensor tensor
  | CDict "(string \<times> ckpt) list"
  | COther

section \<open>The model handle and the application state\<close>

datatype device = CPU | CUDA

text \<open>
  \<^verbatim>\<open>VisionTransformer\<close> (lines 42-50): the DeiT network \<^verbatim>\<open>self.vit\<close>, by its
  state dictionary, the number of classes of its head, its device and its mode.
\<close>

record vit_model =
  vit_state :: "(string, tensor) pydict"
  vit_classes :: nat
  vit_device :: device
  vit_training :: bool

text \<open>
  The attributes the startup handlers set on \<^verbatim>\<open>app.state\<close> (\<open>None\<close>: not set
  or set to \<^verbatim>\<open>None\<close>, which every reader of the attribute treats alike), and
  the API key held by the \<^verbatim>\<open>genai\<close> module after \<^verbatim>\<open>genai.configure\<close>.
\<close>

record app_state =
  idx_to_class :: "(int, json) pydict option"
  model :: "vit_model option"
  gemini_model :: "string option"
  genai_key :: "string option"

definition init_state :: app_state where
  "init_state = \<lparr>idx_to_class = None, model = None, gemini_model = None, genai_key = None\<rparr>"

section \<open>The external world\<close>

text \<open>
  What the handlers read from outside the program:
  \<^item> \<open>file_exists\<close>, \<open>dotenv_vars\<close>, \<open>environ\<close>: \<^verbatim>\<open>Path.exists\<close>, the
    variables of a \<^verbatim>\<open>.env\<close> file, \<^verbatim>\<open>os.environ\<close>;
  \<^item> \<open>class_names_file\<close>, \<open>checkpoint_file\<close>: \<^verbatim>\<open>json.load(open(CLASS_NAMES_PATH))\<close>
    and \<^verbatim>\<open>torch.load(MODEL_PATH)\<close>, or the exception they raise;
  \<^item> \<open>cuda_available\<close>: \<^verbatim>\<open>torch.cuda.is_available()\<close>;
  \<^item> \<open>deit_state\<close>, \<open>head_init\<close>: the state dictionary of the DeiT-base model
    \<^verbatim>\<open>torch.hub.load\<close> builds (or the exception it raises), and the random
    initial values of the weight and bias of a fresh \<^verbatim>\<open>nn.Linear(i, n)\<close>;
  \<^item> \<open>vit_forward\<close>: the forward pass of the network on a batch, one row of logits
    per image, or the exception it raises;
  \<^item> \<open>image_open\<close>, \<open>resample\<close>: PIL's \<^verbatim>\<open>Image.open\<close> on the uploaded bytes and
    the value of output pixel \<open>(i, j)\<close> of a resize to \<open>h \<times> w\<close>;
  \<^item> \<open>genai\<close>: \<^verbatim>\<open>generate_content(prompt).text\<close> of the model of a name under an
    API key, or the exception the call or the \<^verbatim>\<open>.text\<close> access raises.
\<close>

record world =
  file_exists :: "string \<Rightarrow> bool"
  dotenv_vars :: "string \<Rightarrow> (string \<times> string) list"
  environ :: "string \<Rightarrow> string option"
  class_names_file :: "json result"
  checkpoint_file :: "ckpt result"
  cuda_available :: bool
  deit_state :: "(string, tensor) pydict result"
  head_init :: "nat \<Rightarrow> nat \<Rightarrow> real list \<times> real list"
  vit_forward :: "vit_model \<Rightarrow> tensor \<Rightarrow> real list list result"
  image_open :: "8 word list \<Rightarrow> pil_image result"
  resample :: "rgb list list \<Rightarrow> nat \<Rightarrow> nat \<Rightarrow> nat \<Rightarrow> nat \<Rightarrow> rgb"
  genai :: "string \<Rightarrow> string \<Rightarrow> string \<Rightarrow> string result"

section \<open>Configuration\<close>

definition MODEL_PATH :: string where
  "MODEL_PATH = ''../ml_models/vit_model_version_one.pth''"

definition CLASS_NAMES_PATH :: string where
  "CLASS_NAMES_PATH = ''../ml_models/class_names.json''"

definition IMG_SIZE :: nat where
  "IMG_SIZE = 224"

definition DEVICE :: "world \<Rightarrow> device" where
  "DEVICE w = (if cuda_available w then CUDA else CPU)"

section \<open>An example world\<close>

text \<open>
  A world in which no file exists, the environment is empty and every external call
  fails; the examples of the development update the fields they need.
\<close>

definition example_world :: world where
  "example_world =
     \<lparr>file_exists = (\<lambda>_. False), dotenv_vars = (\<lambda>_. []), environ = Map.empty,
      class_names_file = Inl (OSError ''No such file or directory''),
      checkpoint_file = Inl (OSError ''No such file or directory''),
      cuda_available = False, deit_state = Inl (OSError ''facebookresearch/deit:main not cached''),
      head_init = (\<lambda>i n. (replicate (n * i) 0, replicate n 0)),
      vit_forward = (\<lambda>m x. Inl (RuntimeError ''forward failed'')),
      image_open = (\<lambda>bs. Inl (ImageError ''cannot identify image file'')),
      resample = (\<lambda>img h w i j. (0, 0, 0)),
      genai = (\<lambda>k name prompt. Inl (GenAIError ''unavailable''))\<rparr>"

end
