(* ===== verification/Advisory.thy ===== *)
theory Advisory
  imports State
begin

text \<open>
  The advisory generator of \<^verbatim>\<open>main.py\<close>: the startup handler
  \<^verbatim>\<open>configure_gemini\<close> (lines 112-166) that finds the API key and binds the first
  backend model that passes a test prompt, the diagnostic endpoint
  \<^verbatim>\<open>test_gemini\<close> (lines 169-199), and \<^verbatim>\<open>generate_gemini_content\<close>
  (lines 237-284) with its prompt and the parser of the three labelled sections.
  The remote API is \<open>genai\<close> of the \<open>world\<close>.
\<close>

section \<open>Configuration of the backend\<close>

definition ENV_PATHS :: "string list" where
  "ENV_PATHS = [''.env.local'', ''../.env.local'']"

definition MODEL_NAMES :: "string list" where
  "MODEL_NAMES =
     [''gemini-1.5-flash-latest'', ''gemini-1.5-pro-latest'', ''gemini-pro'', ''models/gemini-pro'']"

text \<open>
  \<^verbatim>\<open>load_dotenv(dotenv_path=path)\<close>: the variables of the file are added to the
  environment; a variable already set keeps its value (\<^verbatim>\<open>override=False\<close>), and
  of two assignments in the file the later one counts.
\<close>

definition load_dotenv :: "(string \<times> string) list \<Rightarrow> (string \<Rightarrow> string option) \<Rightarrow> (string \<Rightarrow> string option)" where
  "load_dotenv vars env = (\<lambda>k. case env k of Some v \<Rightarrow> Some v | None \<Rightarrow> map_of (rev vars) k)"

text \<open>A call of the library under the key given to \<^verbatim>\<open>genai.configure\<close>; without one it raises.\<close>

definition genai_call :: "world \<Rightarrow> app_state \<Rightarrow> string \<Rightarrow> string \<Rightarrow> string result" where
  "genai_call w st name prompt =
     (case genai_key st of
        None \<Rightarrow> Inl (GenAIError ''no API key'')
      | Some k \<Rightarrow> genai w k name prompt)"

text \<open>The test of lines 151-152: a non-empty answer that contains ``4''.\<close>

definition test_ok :: "string result \<Rightarrow> bool" where
  "test_ok r = (case r of Inl e \<Rightarrow> False | Inr t \<Rightarrow> t \<noteq> [] \<and> sublist ''4'' t)"

text \<open>The loop of lines 147-159: the first model whose test passes; an exception skips it.\<close>

fun try_models :: "(string \<Rightarrow> string \<Rightarrow> string result) \<Rightarrow> string list \<Rightarrow> string option" where
  "try_models call [] = None"
| "try_models call (m # ms) =
     (case call m ''What is 2+2?'' of
        Inr t \<Rightarrow> if t \<noteq> [] \<and> sublist ''4'' t then Some m else try_models call ms
      | Inl e \<Rightarrow> try_models call ms)"

text \<open>
  \<^verbatim>\<open>configure_gemini\<close>: the first existing \<^verbatim>\<open>.env.local\<close> is loaded into the
  environment; a missing or empty key raises, and so does a search that binds no
  model; the handler catches both and leaves \<^verbatim>\<open>gemini_model\<close> at \<^verbatim>\<open>None\<close>.
\<close>

definition configure_gemini :: "world \<Rightarrow> app_state \<Rightarrow> world \<times> app_state" where
  "configure_gemini w st =
     (let w' = (case find (file_exists w) ENV_PATHS of
                  None \<Rightarrow> w
                | Some p \<Rightarrow> w\<lparr>environ := load_dotenv (dotenv_vars w p) (environ w)\<rparr>)
      in case environ w' ''GEMINI_API_KEY'' of
           None \<Rightarrow> (w', st\<lparr>gemini_model := None\<rparr>)
         | Some k \<Rightarrow>
             if k = [] then (w', st\<lparr>gemini_model := None\<rparr>)
             else (w', st\<lparr>genai_key := Some k,
                          gemini_model := try_models (genai w' k) MODEL_NAMES\<rparr>))"

section \<open>The diagnostic endpoint\<close>

text \<open>\<^verbatim>\<open>str(e)\<close> of an exception: its message.\<close>

fun exc_str :: "py_exc \<Rightarrow> string" where
  "exc_str (ValueError s) = s"
| "exc_str (RuntimeError s) = s"
| "exc_str KeyError = ''''"
| "exc_str IndexError = ''list index out of range''"
| "exc_str (AttributeError s) = s"
| "exc_str (TypeError s) = s"
| "exc_str (OSError s) = s"
| "exc_str (ImageError s) = s"
| "exc_str (GenAIError s) = s"
| "exc_str (HTTPException n s) = s"

type_synonym http_json = "nat \<times> json"

definition error_json :: "string \<Rightarrow> json" where
  "error_json msg = JObj [(''status'', JStr ''error''), (''message'', JStr msg)]"

definition test_gemini :: "world \<Rightarrow> app_state \<Rightarrow> http_json" where
  "test_gemini w st =
     (case gemini_model st of
        None \<Rightarrow> (500, error_json ''Gemini not configured'')
      | Some m \<Rightarrow>
          (case genai_call w st m ''What is the capital of France?'' of
             Inl e \<Rightarrow> (500, error_json (exc_str e))
           | Inr t \<Rightarrow>
               if t = [] then (500, error_json ''Empty response from Gemini'')
               else (200, JObj [(''status'', JStr ''success''), (''model'', JStr ''Gemini''),
                                (''prompt'', JStr ''What is the capital of France?''),
                                (''response'', JStr t)])))"

section \<open>The advisory prompt\<close>

definition prompt_line :: "string \<Rightarrow> string" where
  "prompt_line l = ''        '' @ l @ ''\<newline>''"

text \<open>The f-string of lines 241-253, with its indentation and line breaks.\<close>

definition gemini_prompt :: "string \<Rightarrow> string" where
  "gemini_prompt disease_name =
     ''\<newline>''
     @ prompt_line (''You are an expert plant pathologist. For the plant disease ''
                    @ [CHR 0x22] @ disease_name @ [CHR 0x22] @ '', provide:'')
     @ prompt_line ''''
     @ prompt_line ''1. SEVERITY: [Low/Medium/High] - Brief severity assessment''
     @ prompt_line ''2. TREATMENT: Practical treatment recommendations (1 paragraph)''
     @ prompt_line ''3. PREVENTION: Effective prevention tips (1 paragraph)''
     @ prompt_line ''''
     @ prompt_line ''Use concise language suitable for home gardeners. Output exactly in this format:''
     @ prompt_line ''''
     @ prompt_line ''Severity: [your severity assessment]''
     @ prompt_line ''Treatment: [your treatment recommendations]''
     @ prompt_line ''Prevention: [your prevention tips]''
     @ ''        ''"

text \<open>The layout the prompt asks for, with the three answers filled in.\<close>

definition advisory_text :: "string \<Rightarrow> string \<Rightarrow> string \<Rightarrow> string" where
  "advisory_text sev treat prev =
     ''Severity: '' @ sev @ ''\<newline>'' @ ''Treatment: '' @ treat @ ''\<newline>'' @ ''Prevention: '' @ prev"

section \<open>Parsing the answer\<close>

definition PLACEHOLDERS :: "string \<times> string \<times> string" where
  "PLACEHOLDERS =
     (''Failed to generate severity.'', ''Failed to generate treatment advice.'',
      ''Failed to generate prevention tips.'')"

text \<open>\<^verbatim>\<open>text.split(label)[1]\<close> and \<^verbatim>\<open>text.split(stop)[0]\<close>.\<close>

definition section_after :: "string \<Rightarrow> string \<Rightarrow> string result" where
  "section_after text label = bindE (py_split text label) (\<lambda>parts. py_index parts 1)"

definition section_before :: "string \<Rightarrow> string \<Rightarrow> string result" where
  "section_before text stop = bindE (py_split text stop) (\<lambda>parts. py_index parts 0)"

text \<open>
  Lines 264-278: the markdown bold markers are removed, then each section whose label
  occurs replaces its placeholder. Severity runs to the end of its line, treatment to
  the next ``Prevention:'', prevention to the end of the text.
\<close>

definition parse_advisory :: "string \<Rightarrow> (string \<times> string \<times> string) result" where
  "parse_advisory text =
     (let rt = py_replace text ''**'' '''' in
      bindE (if sublist ''Severity:'' rt
             then bindE (section_after rt ''Severity:'')
                    (\<lambda>x. bindE (section_before x ''\<newline>'') (\<lambda>y. Inr (py_strip y)))
             else Inr (fst PLACEHOLDERS)) (\<lambda>severity.
      bindE (if sublist ''Treatment:'' rt
             then bindE (section_after rt ''Treatment:'')
                    (\<lambda>x. bindE (section_before x ''Prevention:'') (\<lambda>y. Inr (py_strip y)))
             else Inr (fst (snd PLACEHOLDERS))) (\<lambda>treatment.
      bindE (if sublist ''Prevention:'' rt
             then bindE (section_after rt ''Prevention:'') (\<lambda>x. Inr (py_strip x))
             else Inr (snd (snd PLACEHOLDERS))) (\<lambda>prevention.
      Inr (severity, treatment, prevention)))))"

text \<open>
  \<^verbatim>\<open>generate_gemini_content\<close>: a failed call, an empty answer or a parse error
  gives the placeholders; the function itself never raises.
\<close>

definition generate_gemini_content :: "world \<Rightarrow> app_state \<Rightarrow> string \<Rightarrow> string \<times> string \<times> string" where
  "generate_gemini_content w st disease_name =
     (let r = bindE (case gemini_model st of
                       None \<Rightarrow> Inl (AttributeError ''generate_content'')
                     | Some m \<Rightarrow> genai_call w st m (gemini_prompt disease_name))
                (\<lambda>t. if t = [] then Inl (ValueError ''Empty response from Gemini'')
                     else parse_advisory t)
      in case r of Inl e \<Rightarrow> PLACEHOLDERS | Inr v \<Rightarrow> v)"

text \<open>
  A well-formed answer field: no bold marker, none of the three labels, no outer
  whitespace.
\<close>

definition plain_field :: "string \<Rightarrow> bool" where
  "plain_field x \<longleftrightarrow>
     \<not> sublist ''**'' x \<and> \<not> sublist ''Severity:'' x \<and> \<not> sublist ''Treatment:'' x
     \<and> \<not> sublist ''Prevention:'' x \<and> py_strip x = x"

section \<open>Lemmas on parsing\<close>

lemma section_after_eq:
  "sep \<noteq> [] \<Longrightarrow> sublist sep t \<Longrightarrow> section_after t sep = Inr (split_on sep t ! 1)"
  using split_on_length_ge2 [of sep t]
  by (simp add: section_after_def py_split_def py_index_1)

lemma section_before_eq:
  "sep \<noteq> [] \<Longrightarrow> section_before t sep = Inr (hd (split_on sep t))"
  by (simp add: section_before_def py_split_def py_index_0)

lemmas section_simps = section_after_eq section_before_eq

text \<open>
  C2: parsing the generated text never raises: every \<^verbatim>\<open>[1]\<close> of lines 272-276
  is guarded by the \<^verbatim>\<open>in\<close> test before it, so each of the three sections is
  either parsed or left at its placeholder.
\<close>

theorem parse_advisory_total: "\<exists>v. parse_advisory t = Inr v"
  by (simp add: parse_advisory_def Let_def section_simps PLACEHOLDERS_def split: if_split)

lemma advisory_text_conv:
  "advisory_text a b c =
     ''Severity:'' @ CHR '' '' # a @ CHR 0x0A # ''Treatment:'' @ CHR '' '' # b
     @ CHR 0x0A # ''Prevention:'' @ CHR '' '' # c"
  by (simp add: advisory_text_def)

lemmas label_decomp = plain_field_def sublist_Cons_right sublist_split_at_char

lemma split_severity_line:
  assumes "CHR 0x0A \<notin> set a"
  shows "hd (split_on ''\<newline>'' (CHR '' '' # a @ CHR 0x0A # rest)) = CHR '' '' # a"
proof -
  have e: "CHR '' '' # a @ CHR 0x0A # rest = (CHR '' '' # a) @ ''\<newline>'' @ rest" by simp
  have "\<not> sublist ''\<newline>'' ((CHR '' '' # a) @ butlast ''\<newline>'')"
    using assms by (auto dest: set_mono_sublist)
  then have "split_on ''\<newline>'' ((CHR '' '' # a) @ ''\<newline>'' @ rest)
      = (CHR '' '' # a) # split_on ''\<newline>'' rest"
    by (intro split_on_append) simp_all
  then show ?thesis by (simp only: e list.sel(1))
qed

lemma split_treatment_section:
  assumes "plain_field b" and "plain_field c"
  shows "hd (split_on ''Prevention:'' (CHR '' '' # b @ CHR 0x0A # ''Prevention:'' @ CHR '' '' # c))
           = CHR '' '' # b @ [CHR 0x0A]"
proof -
  have e: "CHR '' '' # b @ CHR 0x0A # ''Prevention:'' @ CHR '' '' # c
      = (CHR '' '' # b @ [CHR 0x0A]) @ ''Prevention:'' @ CHR '' '' # c" by simp
  have "split_on ''Prevention:'' ((CHR '' '' # b @ [CHR 0x0A]) @ ''Prevention:'' @ CHR '' '' # c)
      = [CHR '' '' # b @ [CHR 0x0A], CHR '' '' # c]"
    using assms by (intro split_on_two) (simp_all add: label_decomp)
  then show ?thesis by (simp only: e list.sel(1))
qed

lemma parse_advisory_layout:
  assumes a: "plain_field a" "CHR 0x0A \<notin> set a"
    and b: "plain_field b" and c: "plain_field c"
  shows "parse_advisory (advisory_text a b c) = Inr (a, b, c)"
proof -
  define t where "t = advisory_text a b c"
  define r1 where "r1 = CHR '' '' # a @ CHR 0x0A # ''Treatment:'' @ CHR '' '' # b
                          @ CHR 0x0A # ''Prevention:'' @ CHR '' '' # c"
  define x2 where "x2 = ''Severity:'' @ CHR '' '' # a @ [CHR 0x0A]"
  define r2 where "r2 = CHR '' '' # b @ CHR 0x0A # ''Prevention:'' @ CHR '' '' # c"
  define x3 where "x3 = ''Severity:'' @ CHR '' '' # a @ CHR 0x0A # ''Treatment:'' @ CHR '' '' # b
                          @ [CHR 0x0A]"
  have t1: "t = [] @ ''Severity:'' @ r1" and t2: "t = x2 @ ''Treatment:'' @ r2"
    and t3: "t = x3 @ ''Prevention:'' @ CHR '' '' # c"
    by (simp_all add: t_def r1_def x2_def r2_def x3_def advisory_text_conv)
  have rt: "py_replace t ''**'' [] = t"
    using a b c by (simp add: py_replace_absent t_def advisory_text_conv label_decomp)
  have s1: "split_on ''Severity:'' t = [[], r1]"
    unfolding t1 using a b c by (intro split_on_two) (simp_all add: r1_def label_decomp)
  have s2: "split_on ''Treatment:'' t = [x2, r2]"
    unfolding t2 using a b c by (intro split_on_two) (simp_all add: x2_def r2_def label_decomp)
  have s3: "split_on ''Prevention:'' t = [x3, CHR '' '' # c]"
    unfolding t3 using a b c by (intro split_on_two) (simp_all add: x3_def label_decomp)
  have h1: "hd (split_on ''\<newline>'' r1) = CHR '' '' # a"
    unfolding r1_def by (rule split_severity_line [OF a(2)])
  have h2: "hd (split_on ''Prevention:'' r2) = CHR '' '' # b @ [CHR 0x0A]"
    unfolding r2_def by (rule split_treatment_section [OF b c])
  have pa: "py_strip (CHR '' '' # a) = a"
    using py_strip_pad [of "[CHR '' '']" "[]" a] a(1)
    by (simp add: plain_field_def py_isspace_def)
  have pb: "py_strip (CHR '' '' # b @ [CHR 0x0A]) = b"
    using py_strip_pad [of "[CHR '' '']" "[CHR 0x0A]" b] b
    by (simp add: plain_field_def py_isspace_def)
  have pc: "py_strip (CHR '' '' # c) = c"
    using py_strip_pad [of "[CHR '' '']" "[]" c] c
    by (simp add: plain_field_def py_isspace_def)
  have occ1: "sublist ''Severity:'' t" unfolding t1 by (rule sublist_appendI)
  have occ2: "sublist ''Treatment:'' t" unfolding t2 by (rule sublist_appendI)
  have occ3: "sublist ''Prevention:'' t" unfolding t3 by (rule sublist_appendI)
  show ?thesis
    unfolding t_def [symmetric]
    by (simp add: parse_advisory_def rt occ1 occ2 occ3 section_simps s1 s2 s3 h1 h2 pa pb pc)
qed

text \<open>
  C1: parsing is the inverse of the layout the prompt asks for: for answers that
  carry no bold marker, no label and no outer whitespace, with the severity on one
  line, the text \<^verbatim>\<open>Severity: A\nTreatment: B\nPrevention: C\<close> is parsed to
  exactly \<open>(A, B, C)\<close>.
\<close>

theorem parse_advisory_text:
  assumes "plain_field a" "CHR 0x0A \<notin> set a"
    and "plain_field b" and "plain_field c"
  shows "parse_advisory (advisory_text a b c) = Inr (a, b, c)"
  using assms by (rule parse_advisory_layout)

theorem parse_advisory_text_witness:
  "plain_field ''High'' \<and> CHR 0x0A \<notin> set ''High'' \<and> plain_field ''Spray copper.''
   \<and> plain_field ''Rotate crops.''
   \<and> parse_advisory (advisory_text ''High'' ''Spray copper.'' ''Rotate crops.'')
       = Inr (''High'', ''Spray copper.'', ''Rotate crops.'')"
proof -
  have h: "plain_field ''High''" "CHR 0x0A \<notin> set ''High''"
    "plain_field ''Spray copper.''" "plain_field ''Rotate crops.''"
    by (simp_all add: plain_field_def sublist_Cons_right py_strip_def py_isspace_def)
  show ?thesis using h parse_advisory_text [OF h] by simp
qed

text \<open>
  C3: the model search of \<^verbatim>\<open>configure_gemini\<close> is a linear search: the loop
  with its \<^verbatim>\<open>try\<close>/\<^verbatim>\<open>break\<close> returns the first model name, in list order, whose
  test prompt answers with a non-empty text containing ``4''.
\<close>

theorem try_models_find:
  "try_models call ms = find (\<lambda>m. test_ok (call m ''What is 2+2?'')) ms"
  by (induction ms) (auto simp: test_ok_def split: sum.split)

lemma try_models_Some:
  assumes "try_models call ms = Some m"
  shows "\<exists>i<length ms. ms ! i = m \<and> test_ok (call m ''What is 2+2?'')
           \<and> (\<forall>j<i. \<not> test_ok (call (ms ! j) ''What is 2+2?''))"
  using assms
proof (induction ms)
  case Nil
  then show ?case by simp
next
  case (Cons x ms)
  show ?case
  proof (cases "test_ok (call x ''What is 2+2?'')")
    case True
    with Cons.prems have "m = x" by (auto simp: test_ok_def split: sum.splits)
    with True show ?thesis by auto
  next
    case False
    with Cons.prems have "try_models call ms = Some m"
      by (auto simp: test_ok_def split: sum.splits if_splits)
    then obtain i where "i < length ms" "ms ! i = m" "test_ok (call m ''What is 2+2?'')"
      "\<forall>j<i. \<not> test_ok (call (ms ! j) ''What is 2+2?'')"
      using Cons.IH by blast
    with False show ?thesis
      by (intro exI [of _ "Suc i"]) (auto simp: less_Suc_eq_0_disj)
  qed
qed

lemma configure_gemini_cases:
  "configure_gemini w st = (w', st') \<Longrightarrow>
     idx_to_class st' = idx_to_class st \<and> model st' = model st"
  by (auto simp: configure_gemini_def Let_def split: option.splits if_splits)

lemma configure_gemini_binding:
  "configure_gemini w st = (w', st') \<Longrightarrow>
     gemini_model st' = None
     \<or> (\<exists>k. environ w' ''GEMINI_API_KEY'' = Some k \<and> k \<noteq> [] \<and> genai_key st' = Some k
            \<and> gemini_model st' = try_models (genai w' k) MODEL_NAMES)"
  by (auto simp: configure_gemini_def Let_def split: option.splits if_splits)

text \<open>
  C4: after \<^verbatim>\<open>configure_gemini\<close>, a bound backend model is one of the four
  candidate names, the API key it is used with is the non-empty
  \<^verbatim>\<open>GEMINI_API_KEY\<close> of the environment, its test passed, and every candidate
  before it failed its test.
\<close>

theorem configure_gemini_binds_first:
  assumes "configure_gemini w st = (w', st')" and "gemini_model st' = Some m"
  shows "\<exists>k i. environ w' ''GEMINI_API_KEY'' = Some k \<and> k \<noteq> [] \<and> genai_key st' = Some k
           \<and> i < length MODEL_NAMES \<and> MODEL_NAMES ! i = m
           \<and> test_ok (genai w' k m ''What is 2+2?'')
           \<and> (\<forall>j<i. \<not> test_ok (genai w' k (MODEL_NAMES ! j) ''What is 2+2?''))"
proof -
  from configure_gemini_binding [OF assms(1)] assms(2) obtain k where
    k: "environ w' ''GEMINI_API_KEY'' = Some k" "k \<noteq> []" "genai_key st' = Some k"
    and m: "try_models (genai w' k) MODEL_NAMES = Some m"
    by auto
  from try_models_Some [OF m] k show ?thesis by blast
qed

theorem configure_gemini_binds_first_witness:
  "let w = example_world\<lparr>environ := [''GEMINI_API_KEY'' \<mapsto> ''secret''],
                         genai := (\<lambda>k name p. if name = ''gemini-pro'' then Inr ''2+2 = 4''
                                               else Inl (GenAIError ''404 model not found''))\<rparr>
   in configure_gemini w init_state = (w, init_state\<lparr>gemini_model := Some ''gemini-pro'',
                                                   genai_key := Some ''secret''\<rparr>)
      \<and> (\<exists>k i. environ w ''GEMINI_API_KEY'' = Some k \<and> k \<noteq> []
               \<and> genai_key (init_state\<lparr>gemini_model := Some ''gemini-pro'', genai_key := Some ''secret''\<rparr>) = Some k
               \<and> i < length MODEL_NAMES \<and> MODEL_NAMES ! i = ''gemini-pro''
               \<and> test_ok (genai w k ''gemini-pro'' ''What is 2+2?'')
               \<and> (\<forall>j<i. \<not> test_ok (genai w k (MODEL_NAMES ! j) ''What is 2+2?'')))"
proof -
  define w where "w = example_world\<lparr>environ := [''GEMINI_API_KEY'' \<mapsto> ''secret''],
                         genai := (\<lambda>k name p. if name = ''gemini-pro'' then Inr ''2+2 = 4''
                                               else Inl (GenAIError ''404 model not found''))\<rparr>"
  define st' where "st' = init_state\<lparr>gemini_model := Some ''gemini-pro'', genai_key := Some ''secret''\<rparr>"
  have run: "configure_gemini w init_state = (w, st')"
    by (simp add: w_def st'_def configure_gemini_def example_world_def ENV_PATHS_def
        MODEL_NAMES_def init_state_def sublist_Cons_right)
  have "gemini_model st' = Some ''gemini-pro''" by (simp add: st'_def)
  from configure_gemini_binds_first [OF run this] run show ?thesis
    by (simp add: w_def [symmetric] st'_def [symmetric])
qed

text \<open>
  C5: with no backend bound, the advisory is the three placeholder strings
  (lines 258-266 and 280-284): the call on \<^verbatim>\<open>None\<close> raises and is caught.
\<close>

theorem generate_unconfigured:
  "gemini_model st = None \<Longrightarrow> generate_gemini_content w st d = PLACEHOLDERS"
  by (simp add: generate_gemini_content_def)

theorem generate_unconfigured_witness:
  "gemini_model init_state = None
   \<and> generate_gemini_content example_world init_state ''Tomato___Late_blight'' = PLACEHOLDERS"
  using generate_unconfigured [of init_state example_world "''Tomato___Late_blight''"]
  by (simp add: init_state_def)

text \<open>
  C6: when the bound backend answers the prompt for a label in the requested layout
  with well-formed fields, \<^verbatim>\<open>generate_gemini_content\<close> returns exactly those
  three fields.
\<close>

theorem generate_gemini_content_format:
  assumes "gemini_model st = Some m"
    and "genai_call w st m (gemini_prompt d) = Inr (advisory_text a b c)"
    and "plain_field a" "CHR 0x0A \<notin> set a" "plain_field b" "plain_field c"
  shows "generate_gemini_content w st d = (a, b, c)"
proof -
  have "advisory_text a b c \<noteq> []" by (simp add: advisory_text_def)
  with assms show ?thesis
    by (simp add: generate_gemini_content_def parse_advisory_layout)
qed

text \<open>
  C7: \<^verbatim>\<open>GET /test-gemini\<close> answers 200 exactly when a backend is bound and its
  answer to the test prompt is a non-empty text; every other case is a 500.
\<close>

theorem test_gemini_status:
  "fst (test_gemini w st) =
     (if \<exists>m t. gemini_model st = Some m
               \<and> genai_call w st m ''What is the capital of France?'' = Inr t \<and> t \<noteq> []
      then 200 else 500)"
  by (auto simp: test_gemini_def split: option.split sum.split)

theorem generate_gemini_content_format_witness:
  "let w = example_world\<lparr>genai := (\<lambda>k name p. Inr (advisory_text ''High'' ''Spray copper.'' ''Rotate crops.''))\<rparr>;
       st = init_state\<lparr>gemini_model := Some ''gemini-pro'', genai_key := Some ''secret''\<rparr>
   in gemini_model st = Some ''gemini-pro''
      \<and> genai_call w st ''gemini-pro'' (gemini_prompt ''Tomato___Late_blight'')
          = Inr (advisory_text ''High'' ''Spray copper.'' ''Rotate crops.'')
      \<and> generate_gemini_content w st ''Tomato___Late_blight'' = (''High'', ''Spray copper.'', ''Rotate crops.'')"
proof -
  define w where "w = example_world\<lparr>genai := (\<lambda>k name p. Inr (advisory_text ''High'' ''Spray copper.'' ''Rotate crops.''))\<rparr>"
  define st where "st = init_state\<lparr>gemini_model := Some ''gemini-pro'', genai_key := Some ''secret''\<rparr>"
  have m: "gemini_model st = Some ''gemini-pro''" by (simp add: st_def)
  have c: "genai_call w st ''gemini-pro'' (gemini_prompt ''Tomato___Late_blight'')
      = Inr (advisory_text ''High'' ''Spray copper.'' ''Rotate crops.'')"
    by (simp add: genai_call_def w_def st_def)
  have h: "plain_field ''High''" "CHR 0x0A \<notin> set ''High''"
    "plain_field ''Spray copper.''" "plain_field ''Rotate crops.''"
    by (simp_all add: plain_field_def sublist_Cons_right py_strip_def py_isspace_def)
  from generate_gemini_content_format [OF m c h] m c show ?thesis
    by (simp add: w_def [symmetric] st_def [symmetric])
qed

lemma parse_advisory_fields:
  assumes "parse_advisory t = Inr (sev, treat, prev)"
  shows "(sev = fst PLACEHOLDERS \<or> (\<exists>x. sev = py_strip (hd (split_on ''\<newline>'' x))))
     \<and> (treat = fst (snd PLACEHOLDERS) \<or> (\<exists>x. treat = py_strip x))
     \<and> (prev = snd (snd PLACEHOLDERS) \<or> (\<exists>x. prev = py_strip x))"
  using assms
  by (auto simp: parse_advisory_def Let_def section_simps PLACEHOLDERS_def split: if_splits)

text \<open>
  C8: the severity section runs to the end of its line and no further: whatever the
  answer, the severity the parser returns holds no line break.
\<close>

theorem parse_severity_one_line:
  assumes "parse_advisory t = Inr (sev, treat, prev)"
  shows "CHR 0x0A \<notin> set sev"
proof -
  have "CHR 0x0A \<notin> set (py_strip (hd (split_on ''\<newline>'' x)))" for x
    using hd_split_on_char [of "CHR 0x0A" x] set_py_strip by blast
  then show ?thesis
    using parse_advisory_fields [OF assms] by (auto simp: PLACEHOLDERS_def)
qed

theorem parse_severity_one_line_witness:
  "parse_advisory ''Severity: High\<newline>Treatment: Prune\<newline>Prevention: Water''
     = Inr (''High'', ''Prune'', ''Water'') \<and> CHR 0x0A \<notin> set ''High''"
proof -
  have h: "parse_advisory ''Severity: High\<newline>Treatment: Prune\<newline>Prevention: Water''
     = Inr (''High'', ''Prune'', ''Water'')"
    by code_simp
  show ?thesis using h parse_severity_one_line [OF h] by simp
qed

text \<open>
  C9: each of the three fields the parser returns is stripped: it has no whitespace at
  either end, whatever the answer, and whether it was parsed or kept at its placeholder.
\<close>

theorem parse_advisory_stripped:
  assumes "parse_advisory t = Inr (sev, treat, prev)"
  shows "py_strip sev = sev \<and> py_strip treat = treat \<and> py_strip prev = prev"
proof -
  have "py_strip (fst PLACEHOLDERS) = fst PLACEHOLDERS"
    "py_strip (fst (snd PLACEHOLDERS)) = fst (snd PLACEHOLDERS)"
    "py_strip (snd (snd PLACEHOLDERS)) = snd (snd PLACEHOLDERS)"
    by (simp_all add: PLACEHOLDERS_def py_strip_def py_isspace_def)
  then show ?thesis
    using parse_advisory_fields [OF assms] py_strip_idem by metis
qed

theorem parse_advisory_stripped_witness:
  "parse_advisory ''**Severity:**  Low \<newline>Treatment:\<newline>Prune.\<newline>\<newline>Prevention: Water. ''
     = Inr (''Low'', ''Prune.'', ''Water.'')
   \<and> py_strip ''Low'' = ''Low'' \<and> py_strip ''Prune.'' = ''Prune.'' \<and> py_strip ''Water.'' = ''Water.''"
proof -
  have h: "parse_advisory ''**Severity:**  Low \<newline>Treatment:\<newline>Prune.\<newline>\<newline>Prevention: Water. ''
     = Inr (''Low'', ''Prune.'', ''Water.'')"
    by code_simp
  show ?thesis using h parse_advisory_stripped [OF h] by simp
qed

end
