(* ===== verification/Inference.thy ===== *)
theory Inference
  imports State
begin

text \<open>
  The inference step \<^verbatim>\<open>predict_image\<close> (\<^verbatim>\<open>main.py\<close> lines 201-223): the network's
  logits for the one image of the batch, their softmax, the three most probable classes
  (\<^verbatim>\<open>torch.topk\<close>), their labels from \<^verbatim>\<open>app.state.idx_to_class\<close>, and the
  probabilities as percentages rounded to two places. Arithmetic is on real numbers:
  the model is the exact computation the float32/float64 code approximates. Among equal
  probabilities \<^verbatim>\<open>torch.topk\<close> fixes no order; the model takes the lower index first.
\<close>

section \<open>Definitions\<close>

definition softmax :: "real list \<Rightarrow> real list" where
  "softmax xs = (let s = sum_list (map exp xs) in map (\<lambda>x. exp x / s) xs)"

text \<open>
  \<^verbatim>\<open>torch.topk(ps, k)\<close>: the \<open>k\<close> largest values in descending order with their
  indices; \<open>k\<close> beyond the length raises.
\<close>

definition topk :: "real list \<Rightarrow> nat \<Rightarrow> (real list \<times> nat list) result" where
  "topk ps k =
     (if length ps < k then Inl (RuntimeError ''selected index k out of range'')
      else let idx = take k (sort_key (\<lambda>i. - (ps ! i)) [0..<length ps])
           in Inr (map ((!) ps) idx, idx))"

text \<open>
  \<^verbatim>\<open>round(x, 2)\<close>: to the nearest multiple of 0.01, a tie to the even multiple.
\<close>

definition round_half_even :: "real \<Rightarrow> int" where
  "round_half_even x =
     (let f = floor x; d = x - of_int f
      in if d < 1/2 then f else if 1/2 < d then f + 1 else if even f then f else f + 1)"

definition py_round2 :: "real \<Rightarrow> real" where
  "py_round2 x = of_int (round_half_even (x * 100)) / 100"

text \<open>One entry of the result: \<^verbatim>\<open>{"class": class_name, "confidence": ...}\<close>.\<close>

record prediction =
  pred_class :: json
  confidence :: real

text \<open>\<^verbatim>\<open>image_tensor.unsqueeze(0)\<close>: a batch of one.\<close>

definition unsqueeze0 :: "tensor \<Rightarrow> tensor" where
  "unsqueeze0 x = x\<lparr>tshape := 1 # tshape x\<rparr>"

text \<open>The loop of lines 211-217 over the three indices.\<close>

definition label_results ::
  "app_state \<Rightarrow> real list \<Rightarrow> nat list \<Rightarrow> prediction list result" where
  "label_results st top3_prob top3_idx =
     mapE (\<lambda>(p, idx).
             case idx_to_class st of
               None \<Rightarrow> Inl (AttributeError ''idx_to_class'')
             | Some table \<Rightarrow>
                 bindE (dict_get table (int idx))
                   (\<lambda>class_name. Inr \<lparr>pred_class = class_name, confidence = py_round2 (p * 100)\<rparr>))
          (zip top3_prob top3_idx)"

text \<open>
  \<^verbatim>\<open>predict_image\<close>: any exception of the forward pass, the indexing, \<^verbatim>\<open>topk\<close> or the
  label lookup is logged and re-raised as \<^verbatim>\<open>RuntimeError("Model inference error")\<close>.
\<close>

definition predict_image :: "world \<Rightarrow> app_state \<Rightarrow> tensor \<Rightarrow> prediction list result" where
  "predict_image w st image_tensor =
     (let r = (case model st of
                 None \<Rightarrow> Inl (AttributeError ''model'')
               | Some m \<Rightarrow>
                   bindE (vit_forward w m (unsqueeze0 image_tensor)) (\<lambda>outputs.
                   bindE (py_index outputs 0) (\<lambda>logits.
                   bindE (topk (softmax logits) 3) (\<lambda>(top3_prob, top3_idx).
                   label_results st top3_prob top3_idx))))
      in case r of Inl e \<Rightarrow> Inl (RuntimeError ''Model inference error'') | Inr v \<Rightarrow> Inr v)"

section \<open>Softmax\<close>

lemma softmax_length [simp]: "length (softmax xs) = length xs"
  by (simp add: softmax_def Let_def)

lemma softmax_nth:
  "i < length xs \<Longrightarrow> softmax xs ! i = exp (xs ! i) / sum_list (map exp xs)"
  by (simp add: softmax_def Let_def)

lemma sum_exp_nonneg:
  fixes xs :: "real list"
  shows "0 \<le> sum_list (map exp xs)"
  by (induction xs) (simp_all add: add_nonneg_nonneg)

lemma exp_le_sum_exp:
  fixes x :: real
  shows "x \<in> set xs \<Longrightarrow> exp x \<le> sum_list (map exp xs)"
proof (induction xs)
  case Nil
  then show ?case by simp
next
  case (Cons a xs)
  have s: "0 \<le> sum_list (map exp xs)"
    by (simp add: sum_exp_nonneg)
  show ?case
  proof (cases "x = a")
    case True
    with s show ?thesis by simp
  next
    case False
    with Cons have "exp x \<le> sum_list (map exp xs)" by simp
    then show ?thesis by (simp add: add_increasing)
  qed
qed

lemma softmax_unit: "p \<in> set (softmax xs) \<Longrightarrow> 0 < p \<and> p \<le> 1"
proof -
  assume "p \<in> set (softmax xs)"
  then obtain x where x: "x \<in> set xs" and p: "p = exp x / sum_list (map exp xs)"
    by (auto simp: softmax_def Let_def)
  have le: "exp x \<le> sum_list (map exp xs)" using x by (rule exp_le_sum_exp)
  then have "0 < sum_list (map exp xs)" using exp_gt_zero [of x] by linarith
  with le p show ?thesis by (simp add: divide_le_eq_1)
qed

text \<open>Softmax keeps the order of the logits.\<close>

lemma softmax_mono:
  assumes "i < length xs" and "j < length xs"
  shows "softmax xs ! i \<le> softmax xs ! j \<longleftrightarrow> xs ! i \<le> xs ! j"
proof -
  have "exp (xs ! j) \<le> sum_list (map exp xs)" using assms(2) by (simp add: exp_le_sum_exp)
  then have s: "0 < sum_list (map exp xs)" using exp_gt_zero [of "xs ! j"] by linarith
  show ?thesis
    using assms s by (simp add: softmax_nth divide_le_cancel)
qed

lemma softmax_sum: "xs \<noteq> [] \<Longrightarrow> sum_list (softmax xs) = 1"
proof -
  assume ne: "xs \<noteq> []"
  then obtain x where "x \<in> set xs" by (cases xs) auto
  then have "exp x \<le> sum_list (map exp xs)" by (rule exp_le_sum_exp)
  then have s: "0 < sum_list (map exp xs)" using exp_gt_zero [of x] by linarith
  have "sum_list (softmax xs) = sum_list (map (\<lambda>x. inverse (sum_list (map exp xs)) * exp x) xs)"
    by (simp add: softmax_def Let_def divide_inverse mult.commute)
  also have "\<dots> = inverse (sum_list (map exp xs)) * sum_list (map exp xs)"
    by (simp add: sum_list_const_mult)
  finally show ?thesis using s by simp
qed

section \<open>Top-k\<close>

abbreviation by_prob :: "real list \<Rightarrow> nat list" where
  "by_prob ps \<equiv> sort_key (\<lambda>i. - (ps ! i)) [0..<length ps]"

lemma by_prob_facts:
  "set (by_prob ps) = {..<length ps}" "distinct (by_prob ps)"
  "sorted (map (\<lambda>i. - (ps ! i)) (by_prob ps))"
proof -
  show "set (by_prob ps) = {..<length ps}"
    by (simp add: set_sort atLeast_upt)
  show "distinct (by_prob ps)"
    by (simp add: distinct_sort)
  show "sorted (map (\<lambda>i. - (ps ! i)) (by_prob ps))" by (rule sorted_sort_key)
qed

lemma topk_Inr_iff:
  "topk ps k = Inr (vals, idx) \<longleftrightarrow>
     k \<le> length ps \<and> idx = take k (by_prob ps) \<and> vals = map ((!) ps) idx"
  by (auto simp: topk_def Let_def)

lemma topk_Inl_iff: "(\<exists>e. topk ps k = Inl e) \<longleftrightarrow> length ps < k"
  by (simp add: topk_def Let_def)

lemma topk_shape:
  assumes "topk ps k = Inr (vals, idx)"
  shows "length vals = k \<and> length idx = k \<and> distinct idx \<and> set idx \<subseteq> {..<length ps}"
proof -
  from assms have k: "k \<le> length ps" and idx: "idx = take k (by_prob ps)"
    and vals: "vals = map ((!) ps) idx"
    by (simp_all add: topk_Inr_iff)
  have "length (by_prob ps) = length ps" by simp
  with k idx vals have "length vals = k \<and> length idx = k" by simp
  moreover have "distinct idx"
    using by_prob_facts(2) [of ps] idx by simp
  moreover have "set idx \<subseteq> {..<length ps}"
    using by_prob_facts(1) [of ps] idx set_take_subset [of k "by_prob ps"] by simp
  ultimately show ?thesis by blast
qed

lemma topk_sorted:
  assumes "topk ps k = Inr (vals, idx)"
  shows "sorted_wrt (\<ge>) vals"
proof -
  from assms have idx: "idx = take k (by_prob ps)" and vals: "vals = map ((!) ps) idx"
    by (simp_all add: topk_Inr_iff)
  have "sorted (take k (map (\<lambda>i. - (ps ! i)) (by_prob ps)))"
    using by_prob_facts(3) [of ps] by (rule sorted_wrt_take)
  then have "sorted (map (\<lambda>i. - (ps ! i)) idx)"
    by (simp add: idx take_map)
  then have "sorted_wrt (\<lambda>a b. - (ps ! a) \<le> - (ps ! b)) idx"
    by (simp add: sorted_wrt_map)
  then show ?thesis
    by (simp add: vals sorted_wrt_map)
qed

text \<open>Every index left out has a probability no larger than any index selected.\<close>

lemma topk_top:
  assumes "topk ps k = Inr (vals, idx)" and "i \<in> set idx" and "j < length ps" and "j \<notin> set idx"
  shows "ps ! j \<le> ps ! i"
proof -
  let ?L = "by_prob ps"
  have idx: "idx = take k ?L" using assms(1) by (simp add: topk_Inr_iff)
  have "j \<in> set ?L" using assms(3) by (simp add: by_prob_facts)
  moreover have "set ?L = set (take k ?L) \<union> set (drop k ?L)"
    by (simp flip: set_append)
  ultimately have j: "j \<in> set (drop k ?L)"
    using assms(4) idx by blast
  have "sorted (map (\<lambda>i. - (ps ! i)) (take k ?L) @ map (\<lambda>i. - (ps ! i)) (drop k ?L))"
    using by_prob_facts(3) [of ps] by (simp flip: map_append)
  then have "\<forall>a\<in>set (take k ?L). \<forall>b\<in>set (drop k ?L). - (ps ! a) \<le> - (ps ! b)"
    by (simp add: sorted_append)
  with assms(2) idx j have "- (ps ! i) \<le> - (ps ! j)" by blast
  then show ?thesis by simp
qed

section \<open>Rounding\<close>

lemma round_half_even_floor: "floor x \<le> round_half_even x \<and> round_half_even x \<le> floor x + 1"
  by (simp add: round_half_even_def Let_def)

lemma round_half_even_mono:
  assumes "x \<le> y"
  shows "round_half_even x \<le> round_half_even y"
proof (cases "floor x = floor y")
  case True
  with assms show ?thesis
    by (auto simp: round_half_even_def Let_def)
next
  case False
  with assms have "floor x + 1 \<le> floor y"
    by (metis floor_mono order_le_less zless_imp_add1_zle)
  then show ?thesis
    using round_half_even_floor [of x] round_half_even_floor [of y] by linarith
qed

lemma round_half_even_of_int [simp]: "round_half_even (of_int n) = n"
  by (simp add: round_half_even_def)

lemma round_half_even_numeral [simp]:
  "round_half_even 0 = 0" "round_half_even (numeral n) = numeral n"
  using round_half_even_of_int [of 0] round_half_even_of_int [of "numeral n"] by simp_all

lemma round_half_even_error: "\<bar>of_int (round_half_even x) - x\<bar> \<le> 1/2"
proof -
  have "of_int (floor x) \<le> x" "x < of_int (floor x) + 1" by linarith+
  then show ?thesis
    by (auto simp: round_half_even_def Let_def)
qed

lemma py_round2_mono: "x \<le> y \<Longrightarrow> py_round2 x \<le> py_round2 y"
  by (simp add: py_round2_def divide_right_mono round_half_even_mono)

lemma py_round2_range:
  assumes "0 \<le> x" and "x \<le> 100"
  shows "0 \<le> py_round2 x \<and> py_round2 x \<le> 100"
proof -
  have "py_round2 0 \<le> py_round2 x" "py_round2 x \<le> py_round2 100"
    using assms by (simp_all add: py_round2_mono)
  moreover have "py_round2 0 = 0" "py_round2 100 = 100"
    by (simp_all add: py_round2_def)
  ultimately show ?thesis by simp
qed

section \<open>The inference step\<close>

lemma label_results_Inr:
  assumes "label_results st vals idx = Inr ps" and "length vals = length idx" and "idx \<noteq> []"
  shows "\<exists>tbl. idx_to_class st = Some tbl \<and> length ps = length idx
     \<and> map confidence ps = map (\<lambda>p. py_round2 (p * 100)) vals
     \<and> (\<forall>n<length idx. map_of tbl (int (idx ! n)) = Some (pred_class (ps ! n)))"
proof (cases "idx_to_class st")
  case None
  from assms(1) have "list_all2 (\<lambda>x y. (case x of (p, i) \<Rightarrow> Inl (AttributeError ''idx_to_class'')) = Inr y)
      (zip vals idx) ps"
    by (simp add: label_results_def mapE_Inr_iff None)
  moreover have "zip vals idx \<noteq> []" using assms(2,3) by (cases vals; cases idx) auto
  ultimately show ?thesis
    by (cases "zip vals idx"; cases ps) auto
next
  case (Some tbl)
  let ?f = "\<lambda>(p, i). bindE (dict_get tbl (int i))
              (\<lambda>c. Inr \<lparr>pred_class = c, confidence = py_round2 (p * 100)\<rparr>)"
  from assms(1) have a: "list_all2 (\<lambda>x y. ?f x = Inr y) (zip vals idx) ps"
    by (simp add: label_results_def mapE_Inr_iff Some)
  then have len: "length ps = length idx"
    using assms(2) by (simp add: list_all2_lengthD [symmetric])
  have each: "map_of tbl (int (idx ! n)) = Some (pred_class (ps ! n))
      \<and> confidence (ps ! n) = py_round2 (vals ! n * 100)" if n: "n < length idx" for n
  proof -
    have "?f (zip vals idx ! n) = Inr (ps ! n)"
      using a n assms(2) by (simp add: list_all2_conv_all_nth)
    then obtain c where "map_of tbl (int (idx ! n)) = Some c"
      and "ps ! n = \<lparr>pred_class = c, confidence = py_round2 (vals ! n * 100)\<rparr>"
      using n assms(2) by (auto simp: bindE_Inr_iff dict_get_Inr_iff)
    then show ?thesis by simp
  qed
  have "map confidence ps = map (\<lambda>p. py_round2 (p * 100)) vals"
    using each len assms(2) by (simp add: list_eq_iff_nth_eq)
  with Some len each show ?thesis by blast
qed

lemma label_results_ok:
  assumes "idx_to_class st = Some tbl" and "\<forall>i\<in>set idx. int i \<in> fst ` set tbl"
  shows "\<exists>ps. label_results st vals idx = Inr ps"
proof -
  have "\<not> isl (bindE (dict_get tbl (int i)) (\<lambda>c. Inr \<lparr>pred_class = c, confidence = py_round2 (p * 100)\<rparr>))"
    if "(p, i) \<in> set (zip vals idx)" for p i
  proof -
    have "i \<in> set idx" using that by (rule set_zip_rightD)
    with assms(2) obtain c where "map_of tbl (int i) = Some c"
      by (metis map_of_eq_None_iff not_None_eq)
    then show ?thesis by (simp add: dict_get_def)
  qed
  then show ?thesis
    by (auto simp: label_results_def mapE_Inr_ex assms(1) list_all_iff)
qed

lemma predict_image_Inr:
  assumes "predict_image w st x = Inr ps"
  shows "\<exists>m logits rest vals idx. model st = Some m
     \<and> vit_forward w m (unsqueeze0 x) = Inr (logits # rest)
     \<and> topk (softmax logits) 3 = Inr (vals, idx) \<and> label_results st vals idx = Inr ps"
proof -
  obtain m where m: "model st = Some m"
    using assms by (cases "model st") (simp_all add: predict_image_def)
  then have "bindE (vit_forward w m (unsqueeze0 x)) (\<lambda>outputs.
        bindE (py_index outputs 0) (\<lambda>logits.
        bindE (topk (softmax logits) 3) (\<lambda>(top3_prob, top3_idx).
        label_results st top3_prob top3_idx))) = Inr ps"
    using assms by (simp add: predict_image_def split: sum.splits)
  then show ?thesis
    using m by (auto simp: bindE_Inr_iff py_index_0 neq_Nil_conv split: if_splits)
qed

lemma predict_image_length:
  assumes "predict_image w st x = Inr ps"
  shows "length ps = 3"
proof -
  obtain logits vals idx where
    tk: "topk (softmax logits) 3 = Inr (vals, idx)" and lr: "label_results st vals idx = Inr ps"
    using predict_image_Inr [OF assms] by blast
  have "length vals = 3 \<and> length idx = 3" using topk_shape [OF tk] by simp
  then show ?thesis using label_results_Inr [OF lr] by fastforce
qed

lemma predict_image_Inl:
  "predict_image w st x = Inl e \<Longrightarrow> e = RuntimeError ''Model inference error''"
  by (simp add: predict_image_def Let_def split: sum.splits)

lemma top3_labels_ok:
  assumes "idx_to_class st = Some tbl" and "3 \<le> length logits"
    and "\<forall>i<length logits. int i \<in> fst ` set tbl"
  shows "\<exists>ps. bindE (topk (softmax logits) 3)
                (\<lambda>(top3_prob, top3_idx). label_results st top3_prob top3_idx) = Inr ps"
proof -
  let ?idx = "take 3 (by_prob (softmax logits))"
  let ?vals = "map ((!) (softmax logits)) ?idx"
  have tk: "topk (softmax logits) 3 = Inr (?vals, ?idx)"
    using assms(2) by (simp add: topk_Inr_iff)
  have "set ?idx \<subseteq> {..<length logits}"
    using topk_shape [OF tk] by simp
  with assms(3) have "\<forall>i\<in>set ?idx. int i \<in> fst ` set tbl" by auto
  then obtain ps where "label_results st ?vals ?idx = Inr ps"
    using label_results_ok [OF assms(1)] by blast
  with tk show ?thesis by simp
qed

text \<open>
  C14: a successful \<^verbatim>\<open>predict_image\<close> returns exactly three entries, their
  confidences in descending order, each a percentage between 0 and 100.
\<close>

theorem predict_image_top3:
  assumes "predict_image w st x = Inr ps"
  shows "length ps = 3 \<and> sorted_wrt (\<ge>) (map confidence ps)
     \<and> (\<forall>r\<in>set ps. 0 \<le> confidence r \<and> confidence r \<le> 100)"
proof -
  obtain logits vals idx where
    tk: "topk (softmax logits) 3 = Inr (vals, idx)" and lr: "label_results st vals idx = Inr ps"
    using predict_image_Inr [OF assms] by blast
  have sh: "length vals = 3 \<and> length idx = 3" using topk_shape [OF tk] by simp
  have len: "length ps = 3" by (rule predict_image_length [OF assms])
  from sh have conf: "map confidence ps = map (\<lambda>p. py_round2 (p * 100)) vals"
    using label_results_Inr [OF lr] by fastforce
  have sv: "sorted_wrt (\<ge>) vals" by (rule topk_sorted [OF tk])
  have "sorted_wrt (\<lambda>x y. py_round2 (y * 100) \<le> py_round2 (x * 100)) vals"
    by (rule sorted_wrt_mono_rel [OF _ sv]) (simp add: py_round2_mono)
  then have "sorted_wrt (\<ge>) (map (\<lambda>p. py_round2 (p * 100)) vals)"
    by (simp add: sorted_wrt_map)
  moreover have "0 \<le> py_round2 (p * 100) \<and> py_round2 (p * 100) \<le> 100" if p: "p \<in> set vals" for p
  proof -
    from tk have vals: "vals = map ((!) (softmax logits)) idx" by (simp add: topk_Inr_iff)
    with p obtain i where i: "i \<in> set idx" and pi: "p = softmax logits ! i" by auto
    from i topk_shape [OF tk] have "i < length (softmax logits)" by auto
    with pi have "p \<in> set (softmax logits)" by simp
    then have "0 < p \<and> p \<le> 1" by (rule softmax_unit)
    then show ?thesis by (intro py_round2_range) simp_all
  qed
  ultimately have "sorted_wrt (\<ge>) (map confidence ps)"
    and "\<forall>c\<in>set (map confidence ps). 0 \<le> c \<and> c \<le> 100"
    by (simp_all add: conf)
  with len show ?thesis by simp
qed

theorem predict_image_top3_witness:
  "let w = example_world\<lparr>vit_forward := (\<lambda>m t. Inr [[0, 0, 0]])\<rparr>;
       st = init_state\<lparr>model := Some \<lparr>vit_state = [], vit_classes = 3, vit_device = CPU, vit_training = False\<rparr>,
                       idx_to_class := Some [(0, JStr ''a''), (1, JStr ''b''), (2, JStr ''c'')]\<rparr>;
       x = \<lparr>tshape = [3, 224, 224], tdata = []\<rparr>;
       ps = [\<lparr>pred_class = JStr ''a'', confidence = 3333/100\<rparr>, \<lparr>pred_class = JStr ''b'', confidence = 3333/100\<rparr>,
             \<lparr>pred_class = JStr ''c'', confidence = 3333/100\<rparr>]
   in predict_image w st x = Inr ps \<and> length ps = 3 \<and> sorted_wrt (\<ge>) (map confidence ps)
      \<and> (\<forall>r\<in>set ps. 0 \<le> confidence r \<and> confidence r \<le> 100)"
proof -
  define w where "w = example_world\<lparr>vit_forward := (\<lambda>m t. Inr [[0, 0, 0]])\<rparr>"
  define st where "st = init_state\<lparr>model := Some \<lparr>vit_state = [], vit_classes = 3, vit_device = CPU, vit_training = False\<rparr>,
                       idx_to_class := Some [(0, JStr ''a''), (1, JStr ''b''), (2, JStr ''c'')]\<rparr>"
  define x where "x = \<lparr>tshape = [3, 224, 224], tdata = []\<rparr>"
  define ps where "ps = [\<lparr>pred_class = JStr ''a'', confidence = 3333/100\<rparr>, \<lparr>pred_class = JStr ''b'', confidence = 3333/100\<rparr>,
             \<lparr>pred_class = JStr ''c'', confidence = (3333/100 :: real)\<rparr>]"
  have run: "predict_image w st x = Inr ps"
    by (simp add: w_def st_def x_def ps_def predict_image_def softmax_def topk_def label_results_def
        py_round2_def round_half_even_def dict_get_def py_index_0 init_state_def example_world_def)
  from predict_image_top3 [OF run] run show ?thesis
    by (simp add: w_def [symmetric] st_def [symmetric] x_def [symmetric] ps_def [symmetric])
qed

text \<open>
  C15: the three classes reported are labels of three distinct indices of the
  network's output, in the order of the reported entries, and every other class has a
  logit no larger than each of them: the top three of the softmax are the top three
  logits.
\<close>

theorem predict_image_top_classes:
  assumes "predict_image w st x = Inr ps"
  shows "\<exists>m logits rest idx tbl. model st = Some m
     \<and> vit_forward w m (unsqueeze0 x) = Inr (logits # rest) \<and> idx_to_class st = Some tbl
     \<and> length idx = 3 \<and> distinct idx
     \<and> (\<forall>n<3. idx ! n < length logits \<and> map_of tbl (int (idx ! n)) = Some (pred_class (ps ! n))
              \<and> (\<forall>j<length logits. j \<notin> set idx \<longrightarrow> logits ! j \<le> logits ! (idx ! n)))"
proof -
  obtain m logits rest vals idx where m: "model st = Some m"
    and f: "vit_forward w m (unsqueeze0 x) = Inr (logits # rest)"
    and tk: "topk (softmax logits) 3 = Inr (vals, idx)" and lr: "label_results st vals idx = Inr ps"
    using predict_image_Inr [OF assms] by blast
  have sh: "length vals = 3" "length idx = 3" "distinct idx" "set idx \<subseteq> {..<length logits}"
    using topk_shape [OF tk] by simp_all
  then obtain tbl where tbl: "idx_to_class st = Some tbl"
    and lab: "\<forall>n<length idx. map_of tbl (int (idx ! n)) = Some (pred_class (ps ! n))"
    using label_results_Inr [OF lr] by fastforce
  have dom: "logits ! j \<le> logits ! (idx ! n)" if n: "n < 3" and j: "j < length logits" "j \<notin> set idx" for n j
  proof -
    have i: "idx ! n \<in> set idx" using n sh(2) by simp
    then have il: "idx ! n < length logits" using sh(4) by auto
    have "softmax logits ! j \<le> softmax logits ! (idx ! n)"
      using topk_top [OF tk i] j by simp
    with il j show ?thesis by (simp add: softmax_mono)
  qed
  have bound: "\<forall>n<3. idx ! n < length logits"
  proof (intro allI impI)
    fix n :: nat
    assume "n < 3"
    then have "idx ! n \<in> set idx" using sh(2) by simp
    with sh(4) show "idx ! n < length logits" by auto
  qed
  have all: "\<forall>n<3. idx ! n < length logits \<and> map_of tbl (int (idx ! n)) = Some (pred_class (ps ! n))
              \<and> (\<forall>j<length logits. j \<notin> set idx \<longrightarrow> logits ! j \<le> logits ! (idx ! n))"
    using bound lab sh(2) dom by simp
  show ?thesis
    by (rule exI [of _ m], rule exI [of _ logits], rule exI [of _ rest], rule exI [of _ idx],
        rule exI [of _ tbl]) (simp add: m f tbl sh(2,3) all)
qed

theorem predict_image_top_classes_witness:
  "let w = example_world\<lparr>vit_forward := (\<lambda>m t. Inr [[0, 0, 0, 0]])\<rparr>;
       st = init_state\<lparr>model := Some \<lparr>vit_state = [], vit_classes = 4, vit_device = CPU, vit_training = False\<rparr>,
                       idx_to_class := Some [(0, JStr ''a''), (1, JStr ''b''), (2, JStr ''c''), (3, JStr ''d'')]\<rparr>;
       x = \<lparr>tshape = [3, 224, 224], tdata = []\<rparr>;
       ps = [\<lparr>pred_class = JStr ''a'', confidence = 25\<rparr>, \<lparr>pred_class = JStr ''b'', confidence = 25\<rparr>,
             \<lparr>pred_class = JStr ''c'', confidence = 25\<rparr>]
   in predict_image w st x = Inr ps
      \<and> (\<exists>m logits rest idx tbl. model st = Some m
             \<and> vit_forward w m (unsqueeze0 x) = Inr (logits # rest) \<and> idx_to_class st = Some tbl
             \<and> length idx = 3 \<and> distinct idx
             \<and> (\<forall>n<3. idx ! n < length logits \<and> map_of tbl (int (idx ! n)) = Some (pred_class (ps ! n))
                      \<and> (\<forall>j<length logits. j \<notin> set idx \<longrightarrow> logits ! j \<le> logits ! (idx ! n))))"
proof -
  define w where "w = example_world\<lparr>vit_forward := (\<lambda>m t. Inr [[0, 0, 0, (0::real)]])\<rparr>"
  define st where "st = init_state\<lparr>model := Some \<lparr>vit_state = [], vit_classes = 4, vit_device = CPU, vit_training = False\<rparr>,
                       idx_to_class := Some [(0, JStr ''a''), (1, JStr ''b''), (2, JStr ''c''), (3, JStr ''d'')]\<rparr>"
  define x where "x = \<lparr>tshape = [3, 224, 224], tdata = []\<rparr>"
  define ps where "ps = [\<lparr>pred_class = JStr ''a'', confidence = 25\<rparr>, \<lparr>pred_class = JStr ''b'', confidence = 25\<rparr>,
             \<lparr>pred_class = JStr ''c'', confidence = (25::real)\<rparr>]"
  have run: "predict_image w st x = Inr ps"
    by (simp add: w_def st_def x_def ps_def predict_image_def softmax_def topk_def label_results_def
        py_round2_def dict_get_def py_index_0 init_state_def example_world_def)
  from predict_image_top_classes [OF run] run show ?thesis
    unfolding Let_def w_def [symmetric] st_def [symmetric] x_def [symmetric] ps_def [symmetric]
    by blast
qed

text \<open>
  C16: \<^verbatim>\<open>predict_image\<close> succeeds when the model and the class table are loaded,
  the forward pass returns a row of at least three logits, and every index of that
  row is a key of the class table.
\<close>

theorem predict_image_succeeds:
  assumes "model st = Some m" and "idx_to_class st = Some tbl"
    and "vit_forward w m (unsqueeze0 x) = Inr (logits # rest)" and "3 \<le> length logits"
    and "\<forall>i<length logits. int i \<in> fst ` set tbl"
  shows "\<exists>ps. predict_image w st x = Inr ps"
proof -
  obtain ps where
    "bindE (topk (softmax logits) 3) (\<lambda>(top3_prob, top3_idx). label_results st top3_prob top3_idx) = Inr ps"
    using top3_labels_ok [OF assms(2,4,5)] by blast
  with assms(1,3) show ?thesis by (simp add: predict_image_def py_index_0)
qed

theorem predict_image_succeeds_witness:
  "let m = \<lparr>vit_state = [], vit_classes = 3, vit_device = CPU, vit_training = False\<rparr>;
       tbl = [(0, JStr ''a''), (1, JStr ''b''), (2, JStr ''c'')];
       w = example_world\<lparr>vit_forward := (\<lambda>m t. Inr [[0, 0, 0]])\<rparr>;
       st = init_state\<lparr>model := Some m, idx_to_class := Some tbl\<rparr>;
       x = \<lparr>tshape = [3, 224, 224], tdata = []\<rparr>
   in model st = Some m \<and> idx_to_class st = Some tbl
      \<and> vit_forward w m (unsqueeze0 x) = Inr ([0, 0, 0] # []) \<and> 3 \<le> length [0, 0, (0::real)]
      \<and> (\<forall>i<length [0, 0, (0::real)]. int i \<in> fst ` set tbl)
      \<and> (\<exists>ps. predict_image w st x = Inr ps)"
proof -
  define m where "m = \<lparr>vit_state = [], vit_classes = 3, vit_device = CPU, vit_training = False\<rparr>"
  define tbl where "tbl = [(0::int, JStr ''a''), (1, JStr ''b''), (2, JStr ''c'')]"
  define w where "w = example_world\<lparr>vit_forward := (\<lambda>m t. Inr [[0, 0, (0::real)]])\<rparr>"
  define st where "st = init_state\<lparr>model := Some m, idx_to_class := Some tbl\<rparr>"
  define x where "x = \<lparr>tshape = [3, 224, 224], tdata = []\<rparr>"
  have h1: "model st = Some m" "idx_to_class st = Some tbl" by (simp_all add: st_def)
  have h2: "vit_forward w m (unsqueeze0 x) = Inr ([0, 0, 0] # [])" by (simp add: w_def)
  have h3: "3 \<le> length [0, 0, (0::real)]" by simp
  have h4: "\<forall>i<length [0, 0, (0::real)]. int i \<in> fst ` set tbl"
    by (auto simp: tbl_def less_Suc_eq numeral_3_eq_3)
  from predict_image_succeeds [OF h1 h2 h3 h4] h1 h2 h3 h4 show ?thesis
    unfolding Let_def m_def [symmetric] tbl_def [symmetric] w_def [symmetric] st_def [symmetric]
      x_def [symmetric]
    by blast
qed

text \<open>
  C17: with fewer than three classes every request fails: \<^verbatim>\<open>torch.topk(p, 3)\<close>
  raises, and \<^verbatim>\<open>predict_image\<close> re-raises it as the inference error.
\<close>

theorem predict_image_too_few_classes:
  assumes "model st = Some m" and "vit_forward w m (unsqueeze0 x) = Inr (logits # rest)"
    and "length logits < 3"
  shows "predict_image w st x = Inl (RuntimeError ''Model inference error'')"
  using assms by (simp add: predict_image_def py_index_0 topk_def)

theorem predict_image_too_few_classes_witness:
  "let m = \<lparr>vit_state = [], vit_classes = 2, vit_device = CPU, vit_training = False\<rparr>;
       w = example_world\<lparr>vit_forward := (\<lambda>m t. Inr [[1, 2]])\<rparr>;
       st = init_state\<lparr>model := Some m, idx_to_class := Some [(0, JStr ''a''), (1, JStr ''b'')]\<rparr>;
       x = \<lparr>tshape = [3, 224, 224], tdata = []\<rparr>
   in model st = Some m \<and> vit_forward w m (unsqueeze0 x) = Inr ([1, 2] # [])
      \<and> length [1, (2::real)] < 3
      \<and> predict_image w st x = Inl (RuntimeError ''Model inference error'')"
proof -
  define m where "m = \<lparr>vit_state = [], vit_classes = 2, vit_device = CPU, vit_training = False\<rparr>"
  define w where "w = example_world\<lparr>vit_forward := (\<lambda>m t. Inr [[1, (2::real)]])\<rparr>"
  define st where "st = init_state\<lparr>model := Some m, idx_to_class := Some [(0, JStr ''a''), (1, JStr ''b'')]\<rparr>"
  define x where "x = \<lparr>tshape = [3, 224, 224], tdata = []\<rparr>"
  have h1: "model st = Some m" by (simp add: st_def)
  have h2: "vit_forward w m (unsqueeze0 x) = Inr ([1, 2] # [])" by (simp add: w_def)
  have h3: "length [1, (2::real)] < 3" by simp
  from predict_image_too_few_classes [OF h1 h2 h3] h1 h2 h3 show ?thesis
    unfolding Let_def m_def [symmetric] w_def [symmetric] st_def [symmetric] x_def [symmetric]
    by blast
qed

text \<open>\<^verbatim>\<open>round(x, 2)\<close> errs by at most half a hundredth.\<close>

lemma py_round2_error: "\<bar>py_round2 x - x\<bar> \<le> 1 / 200"
proof -
  have e: "\<bar>of_int (round_half_even (x * 100)) - x * 100\<bar> \<le> 1 / 2"
    by (rule round_half_even_error)
  have "py_round2 x - x = (of_int (round_half_even (x * 100)) - x * 100) / 100"
    by (simp add: py_round2_def diff_divide_distrib)
  then have "\<bar>py_round2 x - x\<bar> = \<bar>of_int (round_half_even (x * 100)) - x * 100\<bar> / 100"
    by (simp only: abs_divide)
  with divide_right_mono [OF e, of 100] show ?thesis by simp
qed

text \<open>
  C18: each reported confidence is the softmax probability of the class's logit as a
  percentage, off by at most 0.005: the label and the confidence of an entry come from
  the same index of the network's output row.
\<close>

theorem predict_image_confidence:
  assumes "predict_image w st x = Inr ps"
  shows "\<exists>m logits rest idx tbl. model st = Some m
     \<and> vit_forward w m (unsqueeze0 x) = Inr (logits # rest) \<and> idx_to_class st = Some tbl
     \<and> length idx = 3
     \<and> (\<forall>n<3. idx ! n < length logits \<and> map_of tbl (int (idx ! n)) = Some (pred_class (ps ! n))
              \<and> \<bar>confidence (ps ! n) - 100 * softmax logits ! (idx ! n)\<bar> \<le> 1 / 200)"
proof -
  obtain m logits rest vals idx where m: "model st = Some m"
    and f: "vit_forward w m (unsqueeze0 x) = Inr (logits # rest)"
    and tk: "topk (softmax logits) 3 = Inr (vals, idx)" and lr: "label_results st vals idx = Inr ps"
    using predict_image_Inr [OF assms] by blast
  have sh: "length vals = 3" "length idx = 3" "set idx \<subseteq> {..<length logits}"
    using topk_shape [OF tk] by simp_all
  have vals: "vals = map ((!) (softmax logits)) idx"
    using tk by (simp add: topk_Inr_iff)
  obtain tbl where tbl: "idx_to_class st = Some tbl" and len: "length ps = 3"
    and conf: "map confidence ps = map (\<lambda>p. py_round2 (p * 100)) vals"
    and lab: "\<forall>n<3. map_of tbl (int (idx ! n)) = Some (pred_class (ps ! n))"
    using label_results_Inr [OF lr] sh by fastforce
  have "idx ! n < length logits \<and> map_of tbl (int (idx ! n)) = Some (pred_class (ps ! n))
      \<and> \<bar>confidence (ps ! n) - 100 * softmax logits ! (idx ! n)\<bar> \<le> 1 / 200" if n: "n < 3" for n
  proof -
    have "confidence (ps ! n) = py_round2 (softmax logits ! (idx ! n) * 100)"
      using arg_cong [OF conf, of "\<lambda>l. l ! n"] n len sh vals by simp
    then have "\<bar>confidence (ps ! n) - 100 * softmax logits ! (idx ! n)\<bar> \<le> 1 / 200"
      using py_round2_error [of "softmax logits ! (idx ! n) * 100"] by (simp add: mult.commute)
    moreover have "idx ! n < length logits" using n sh by (auto simp: subset_iff)
    ultimately show ?thesis using lab n by blast
  qed
  with m f tbl sh show ?thesis by blast
qed

theorem predict_image_confidence_witness:
  "let w = example_world\<lparr>vit_forward := (\<lambda>m t. Inr [[0, 0, 0]])\<rparr>;
       st = init_state\<lparr>model := Some \<lparr>vit_state = [], vit_classes = 3, vit_device = CPU, vit_training = False\<rparr>,
                       idx_to_class := Some [(0, JStr ''a''), (1, JStr ''b''), (2, JStr ''c'')]\<rparr>;
       x = \<lparr>tshape = [3, 224, 224], tdata = []\<rparr>;
       ps = [\<lparr>pred_class = JStr ''a'', confidence = 3333/100\<rparr>, \<lparr>pred_class = JStr ''b'', confidence = 3333/100\<rparr>,
             \<lparr>pred_class = JStr ''c'', confidence = 3333/100\<rparr>]
   in predict_image w st x = Inr ps
      \<and> (\<exists>m logits rest idx tbl. model st = Some m
             \<and> vit_forward w m (unsqueeze0 x) = Inr (logits # rest) \<and> idx_to_class st = Some tbl
             \<and> length idx = 3
             \<and> (\<forall>n<3. idx ! n < length logits \<and> map_of tbl (int (idx ! n)) = Some (pred_class (ps ! n))
                      \<and> \<bar>confidence (ps ! n) - 100 * softmax logits ! (idx ! n)\<bar> \<le> 1 / 200))"
proof -
  define w where "w = example_world\<lparr>vit_forward := (\<lambda>m t. Inr [[0, 0, (0::real)]])\<rparr>"
  define st where "st = init_state\<lparr>model := Some \<lparr>vit_state = [], vit_classes = 3, vit_device = CPU, vit_training = False\<rparr>,
                       idx_to_class := Some [(0, JStr ''a''), (1, JStr ''b''), (2, JStr ''c'')]\<rparr>"
  define x where "x = \<lparr>tshape = [3, 224, 224], tdata = []\<rparr>"
  define ps where "ps = [\<lparr>pred_class = JStr ''a'', confidence = 3333/100\<rparr>, \<lparr>pred_class = JStr ''b'', confidence = 3333/100\<rparr>,
             \<lparr>pred_class = JStr ''c'', confidence = (3333/100 :: real)\<rparr>]"
  have run: "predict_image w st x = Inr ps"
    by (simp add: w_def st_def x_def ps_def predict_image_def softmax_def topk_def label_results_def
        py_round2_def round_half_even_def dict_get_def py_index_0 init_state_def example_world_def)
  from predict_image_confidence [OF run] run show ?thesis
    unfolding Let_def w_def [symmetric] st_def [symmetric] x_def [symmetric] ps_def [symmetric]
    by blast
qed

end
