(* ===== verification/ClassIndex.thy ===== *)
theory ClassIndex
  imports State
begin

text \<open>
  The class-index loader, the startup handler \<^verbatim>\<open>load_class_mapping\<close>
  (\<^verbatim>\<open>main.py\<close> lines 53-71): the label file is either a list of labels, indexed
  by position, or an object whose keys are integer literals; anything else, and any
  key \<^verbatim>\<open>int()\<close> rejects, makes the handler raise. The lemmas give the table of
  each form: the list form covers exactly the indices \<open>0 .. N-1\<close>; the object form
  holds the parsed keys, later duplicates overwriting earlier ones, with no check
  that they are contiguous.
\<close>

section \<open>Definitions\<close>

text \<open>\<^verbatim>\<open>{i: name for i, name in enumerate(class_data)}\<close>\<close>

definition table_of_list :: "json list \<Rightarrow> (int, json) pydict" where
  "table_of_list names = dict_of_pairs (map (\<lambda>(i, x). (int i, x)) (enumerate 0 names))"

text \<open>\<^verbatim>\<open>{int(k): v for k, v in class_data.items()}\<close>: the first bad key raises.\<close>

definition table_of_object :: "(string \<times> json) list \<Rightarrow> (int, json) pydict result" where
  "table_of_object kvs =
     bindE (mapE (\<lambda>(k, v). bindE (py_int k) (\<lambda>i. Inr (i, v))) kvs) (\<lambda>ps. Inr (dict_of_pairs ps))"

definition class_table_of_json :: "json \<Rightarrow> (int, json) pydict result" where
  "class_table_of_json class_data =
     (case class_data of
        JArr names \<Rightarrow> Inr (table_of_list names)
      | JObj kvs \<Rightarrow> table_of_object kvs
      | _ \<Rightarrow> Inl (ValueError ''Invalid class names format''))"

text \<open>
  The handler: a failure to open or parse the file, a bad shape or a bad key is
  logged and re-raised as \<^verbatim>\<open>RuntimeError\<close>, which aborts the startup.
\<close>

definition load_class_mapping :: "world \<Rightarrow> app_state \<Rightarrow> app_state result" where
  "load_class_mapping w st =
     (case bindE (class_names_file w) class_table_of_json of
        Inl e \<Rightarrow> Inl (RuntimeError ''Could not load class names'')
      | Inr t \<Rightarrow> Inr (st\<lparr>idx_to_class := Some t\<rparr>))"

section \<open>Lemmas\<close>

lemma table_of_list_eq: "table_of_list names = zip (map int [0..<length names]) names"
proof -
  have "map (\<lambda>(i, x). (int i, x)) (enumerate 0 names) = zip (map int [0..<length names]) names"
    by (simp add: enumerate_eq_zip zip_map1)
  moreover have "distinct (map fst (zip (map int [0..<length names]) names))"
    by (simp add: distinct_map inj_on_def)
  ultimately show ?thesis
    by (simp add: table_of_list_def dict_of_pairs_distinct)
qed

text \<open>
  C10: a label file holding a list of \<open>N\<close> labels gives the table with keys exactly
  \<open>0, \<dots>, N-1\<close> in order, label \<open>i\<close> at key \<open>i\<close>; the loader never raises on it.
\<close>

theorem class_table_of_list:
  "class_table_of_json (JArr names) = Inr t \<longleftrightarrow> t = zip (map int [0..<length names]) names"
  by (auto simp: class_table_of_json_def table_of_list_eq)

lemma table_of_object_Inr:
  assumes "table_of_object kvs = Inr t"
  shows "\<exists>ps. list_all2 (\<lambda>(k, v) p. py_int k = Inr (fst p) \<and> snd p = v) kvs ps \<and> t = dict_of_pairs ps"
proof -
  from assms obtain ps where
    m: "mapE (\<lambda>(k, v). bindE (py_int k) (\<lambda>i. Inr (i, v))) kvs = Inr ps" and t: "t = dict_of_pairs ps"
    by (auto simp: table_of_object_def bindE_Inr_iff)
  from m have "list_all2 (\<lambda>(k, v) p. py_int k = Inr (fst p) \<and> snd p = v) kvs ps"
    by (auto simp: mapE_Inr_iff bindE_Inr_iff elim!: list_all2_mono)
  with t show ?thesis by blast
qed

text \<open>
  C11: the table of an object-form label file maps each parsed key to the value of
  the last entry with that key, holds each key once, and has at most as many entries
  as the file.
\<close>

theorem class_table_of_object:
  assumes "class_table_of_json (JObj kvs) = Inr t"
  shows "map_of t = map_of (rev (map (\<lambda>(k, v). (projr (py_int k), v)) kvs))
     \<and> distinct (map fst t) \<and> length t \<le> length kvs"
proof -
  from assms obtain ps where
    a: "list_all2 (\<lambda>(k, v) p. py_int k = Inr (fst p) \<and> snd p = v) kvs ps" and t: "t = dict_of_pairs ps"
    using table_of_object_Inr by (auto simp: class_table_of_json_def)
  from a have ps: "ps = map (\<lambda>(k, v). (projr (py_int k), v)) kvs"
    by (induction rule: list_all2_induct) auto
  have "length t \<le> length ps"
    using card_length [of "map fst ps"] by (simp add: t length_dict_of_pairs)
  with ps t show ?thesis
    by (simp add: map_of_dict_of_pairs)
qed

text \<open>
  C12: an object-form label file is rejected exactly when one of its keys is not an
  integer literal \<^verbatim>\<open>int()\<close> accepts.
\<close>

theorem class_table_of_object_accepts:
  "(\<exists>t. class_table_of_json (JObj kvs) = Inr t) \<longleftrightarrow> list_all (\<lambda>(k, v). \<not> isl (py_int k)) kvs"
proof -
  have "isl (bindE (py_int k) (\<lambda>i. Inr (i, v))) = isl (py_int k)" for k :: string and v :: json
    by (cases "py_int k") simp_all
  then have "(\<exists>ps. mapE (\<lambda>(k, v). bindE (py_int k) (\<lambda>i. Inr (i, v))) kvs = Inr ps)
      \<longleftrightarrow> list_all (\<lambda>(k, v). \<not> isl (py_int k)) kvs"
    by (simp add: mapE_Inr_ex split_def)
  then show ?thesis
    by (auto simp: class_table_of_json_def table_of_object_def bindE_Inr_iff)
qed

theorem class_table_of_object_witness:
  "class_table_of_json (JObj [(''0'', JStr ''Apple___scab''), (''1'', JStr ''Apple___healthy'')])
     = Inr [(0, JStr ''Apple___scab''), (1, JStr ''Apple___healthy'')]
   \<and> map_of [(0::int, JStr ''Apple___scab''), (1, JStr ''Apple___healthy'')]
     = map_of (rev (map (\<lambda>(k, v). (projr (py_int k), v))
                 [(''0'', JStr ''Apple___scab''), (''1'', JStr ''Apple___healthy'')]))
   \<and> distinct (map fst [(0::int, JStr ''Apple___scab''), (1, JStr ''Apple___healthy'')])
   \<and> length [(0::int, JStr ''Apple___scab''), (1, JStr ''Apple___healthy'')]
     \<le> length [(''0'', JStr ''Apple___scab''), (''1'', JStr ''Apple___healthy'')]"
proof -
  have h: "class_table_of_json (JObj [(''0'', JStr ''Apple___scab''), (''1'', JStr ''Apple___healthy'')])
     = Inr [(0, JStr ''Apple___scab''), (1, JStr ''Apple___healthy'')]"
    by code_simp
  show ?thesis using h class_table_of_object [OF h] by simp
qed

text \<open>
  C13: the two forms of the label file agree: an object whose keys are the indices
  written by \<^verbatim>\<open>str\<close> (as \<^verbatim>\<open>json.dump\<close> of a dictionary indexed from 0
  writes them) loads to the same table as the list of its labels.
\<close>

theorem class_table_object_list:
  "class_table_of_json (JObj (map (\<lambda>(i, x). (int_to_str (int i), x)) (enumerate 0 names)))
     = class_table_of_json (JArr names)"
proof -
  have "mapE (\<lambda>(k, v). bindE (py_int k) (\<lambda>i. Inr (i, v)))
          (map (\<lambda>(i, x). (int_to_str (int i), x)) (enumerate 0 names))
        = Inr (map (\<lambda>(i, x). (int i, x)) (enumerate 0 names))"
    by (simp add: mapE_Inr_iff list_all2_map1 list_all2_map2 list_all2_refl split_def py_int_int_to_str)
  then show ?thesis
    by (simp add: class_table_of_json_def table_of_object_def table_of_list_def)
qed

end
