(* ===== verification/ModelLoad.thy ===== *)
theory ModelLoad
  imports ClassIndex
begin

text \<open>
  Classifier loading: the wrapper \<^verbatim>\<open>VisionTransformer\<close> (\<^verbatim>\<open>main.py\<close> lines
  42-50), whose constructor replaces the head of the DeiT network from PyTorch Hub by
  a fresh linear layer with one output per class, and the startup handler
  \<^verbatim>\<open>load_model\<close> (lines 74-109): the checkpoint's state dictionary (nested under
  \<^verbatim>\<open>"model_state_dict"\<close> or not), the \<^verbatim>\<open>vit.\<close> prefix stripped from its keys,
  and the non-strict \<^verbatim>\<open>load_state_dict\<close>, which ignores missing and unexpected
  keys but raises on a value that is not a tensor or whose shape differs from the
  parameter's. A model state is the network's state dictionary, so that loading is a
  function on association lists.
\<close>

section \<open>Definitions\<close>

text \<open>\<^verbatim>\<open>self.vit.head.in_features\<close>: the input width of the hub model's head.\<close>

definition in_features :: "(string, tensor) pydict \<Rightarrow> nat result" where
  "in_features sd =
     (case map_of sd ''head.weight'' of
        None \<Rightarrow> Inl (AttributeError ''head'')
      | Some t \<Rightarrow> (case tshape t of [n, i] \<Rightarrow> Inr i | _ \<Rightarrow> Inl (AttributeError ''in_features'')))"

text \<open>
  \<^verbatim>\<open>VisionTransformer(num_classes)\<close>: the hub model, untrained, with
  \<^verbatim>\<open>head\<close> replaced by \<^verbatim>\<open>nn.Linear(in_features, num_classes)\<close>; the new
  parameters keep the position of the old ones in the state dictionary. A fresh
  module is on the CPU and in training mode.
\<close>

definition VisionTransformer :: "world \<Rightarrow> nat \<Rightarrow> vit_model result" where
  "VisionTransformer w num_classes =
     bindE (deit_state w) (\<lambda>sd. bindE (in_features sd) (\<lambda>i.
       let (wt, b) = head_init w i num_classes;
           sd' = AList.update ''head.bias'' \<lparr>tshape = [num_classes], tdata = b\<rparr>
                   (AList.update ''head.weight'' \<lparr>tshape = [num_classes, i], tdata = wt\<rparr> sd)
       in Inr \<lparr>vit_state = sd', vit_classes = num_classes, vit_device = CPU, vit_training = True\<rparr>))"

text \<open>
  Lines 88-91: \<^verbatim>\<open>"model_state_dict" in checkpoint\<close> on a dictionary looks the key
  up; on a tensor it raises, and on an object that is no container \<^verbatim>\<open>in\<close> raises.
\<close>

definition select_state_dict :: "ckpt \<Rightarrow> ckpt result" where
  "select_state_dict checkpoint =
     (case checkpoint of
        CDict kvs \<Rightarrow> (case map_of kvs ''model_state_dict'' of
                        Some state_dict \<Rightarrow> Inr state_dict
                      | None \<Rightarrow> Inr checkpoint)
      | CTensor t \<Rightarrow> Inl (RuntimeError ''Tensor.__contains__ only supports Tensor or scalar'')
      | COther \<Rightarrow> Inl (TypeError ''argument of type is not iterable''))"

text \<open>\<^verbatim>\<open>state_dict.items()\<close>: only a dictionary has it.\<close>

definition ckpt_items :: "ckpt \<Rightarrow> (string \<times> ckpt) list result" where
  "ckpt_items state_dict =
     (case state_dict of CDict kvs \<Rightarrow> Inr kvs | _ \<Rightarrow> Inl (AttributeError ''items''))"

text \<open>Lines 93-98: \<^verbatim>\<open>k[len('vit.'):]\<close> when \<^verbatim>\<open>k.startswith('vit.')\<close>.\<close>

definition strip_vit :: "string \<Rightarrow> string" where
  "strip_vit k = (if prefix ''vit.'' k then drop (length ''vit.'') k else k)"

definition clean_state_dict :: "(string \<times> ckpt) list \<Rightarrow> (string, ckpt) pydict" where
  "clean_state_dict items = dict_of_pairs (map (\<lambda>(k, v). (strip_vit k, v)) items)"

text \<open>
  \<^verbatim>\<open>load_state_dict(state_dict, strict=False)\<close>, one parameter or buffer of the
  module: a key the dictionary lacks keeps its value; a tensor of the same shape is
  copied in; any other value is an error. PyTorch collects the errors and raises one
  \<^verbatim>\<open>RuntimeError\<close> after the walk, so the first error stands for all of them.
\<close>

definition load_param :: "(string, ckpt) pydict \<Rightarrow> string \<times> tensor \<Rightarrow> (string \<times> tensor) result" where
  "load_param state_dict =
     (\<lambda>(k, param). case map_of state_dict k of
        None \<Rightarrow> Inr (k, param)
      | Some (CTensor input_param) \<Rightarrow>
          if tshape input_param = tshape param then Inr (k, input_param)
          else Inl (RuntimeError ''Error(s) in loading state_dict'')
      | Some _ \<Rightarrow> Inl (RuntimeError ''Error(s) in loading state_dict''))"

definition load_state_dict ::
  "(string, ckpt) pydict \<Rightarrow> (string, tensor) pydict \<Rightarrow> (string, tensor) pydict result" where
  "load_state_dict state_dict own = mapE (load_param state_dict) own"

text \<open>
  The handler: the class table is loaded first if no earlier handler set it; any
  exception is logged and re-raised as \<^verbatim>\<open>RuntimeError\<close>, which aborts the startup
  (the model the handler assigned before the failure is then never used). On success
  the loaded module is moved to \<^verbatim>\<open>DEVICE\<close> and put in evaluation mode.
\<close>

definition load_model :: "world \<Rightarrow> app_state \<Rightarrow> app_state result" where
  "load_model w st =
     (let r = bindE (if idx_to_class st = None then load_class_mapping w st else Inr st) (\<lambda>st.
        case idx_to_class st of
          None \<Rightarrow> Inl (AttributeError ''idx_to_class'')
        | Some table \<Rightarrow>
            bindE (VisionTransformer w (length table)) (\<lambda>m.
            bindE (checkpoint_file w) (\<lambda>checkpoint.
            bindE (select_state_dict checkpoint) (\<lambda>state_dict.
            bindE (ckpt_items state_dict) (\<lambda>items.
            bindE (load_state_dict (clean_state_dict items) (vit_state m)) (\<lambda>loaded.
              Inr (st\<lparr>model := Some (m\<lparr>vit_state := loaded, vit_device := DEVICE w,
                                        vit_training := False\<rparr>)\<rparr>)))))))
      in case r of Inl e \<Rightarrow> Inl (RuntimeError ''Could not initialize model'') | Inr s \<Rightarrow> Inr s)"

text \<open>
  The outcome of \<open>load_param\<close> named for the lemmas: whether the parameter loads,
  and the value it takes.
\<close>

definition param_ok :: "(string, ckpt) pydict \<Rightarrow> string \<times> tensor \<Rightarrow> bool" where
  "param_ok state_dict =
     (\<lambda>(k, param). case map_of state_dict k of
        None \<Rightarrow> True
      | Some (CTensor t) \<Rightarrow> tshape t = tshape param
      | Some _ \<Rightarrow> False)"

definition loaded_param :: "(string, ckpt) pydict \<Rightarrow> string \<times> tensor \<Rightarrow> string \<times> tensor" where
  "loaded_param state_dict =
     (\<lambda>(k, param). case map_of state_dict k of Some (CTensor t) \<Rightarrow> (k, t) | _ \<Rightarrow> (k, param))"

definition shapes :: "(string, tensor) pydict \<Rightarrow> (string \<times> nat list) list" where
  "shapes sd = map (\<lambda>(k, t). (k, tshape t)) sd"

text \<open>
  An example world for the lemmas below: a hub network with a class token and a
  four-way head of width 2, a label file of three labels, and a checkpoint saved from
  the wrapper module under \<^verbatim>\<open>"model_state_dict"\<close>, next to an epoch counter.
\<close>

definition example_deit :: "(string, tensor) pydict" where
  "example_deit =
     [(''cls_token'', \<lparr>tshape = [1, 1, 2], tdata = [0, 0]\<rparr>),
      (''head.weight'', \<lparr>tshape = [4, 2], tdata = replicate 8 0\<rparr>),
      (''head.bias'', \<lparr>tshape = [4], tdata = replicate 4 0\<rparr>)]"

definition example_ckpt :: "string \<Rightarrow> ckpt" where
  "example_ckpt pfx =
     CDict [(''model_state_dict'',
             CDict [(pfx @ ''cls_token'', CTensor \<lparr>tshape = [1, 1, 2], tdata = [1, 2]\<rparr>),
                    (pfx @ ''head.weight'', CTensor \<lparr>tshape = [3, 2], tdata = [1, 2, 3, 4, 5, 6]\<rparr>),
                    (pfx @ ''head.bias'', CTensor \<lparr>tshape = [3], tdata = [7, 8, 9]\<rparr>)]),
            (''epoch'', COther)]"

definition example_load_world :: "json \<Rightarrow> string \<Rightarrow> world" where
  "example_load_world labels pfx =
     example_world\<lparr>class_names_file := Inr labels, deit_state := Inr example_deit,
                   checkpoint_file := Inr (example_ckpt pfx)\<rparr>"

section \<open>Lemmas\<close>

lemma load_param_Inr_iff:
  "load_param sd p = Inr q \<longleftrightarrow> param_ok sd p \<and> q = loaded_param sd p"
  by (cases p) (auto simp: load_param_def param_ok_def loaded_param_def
                     split: option.splits ckpt.splits)

lemma load_state_dict_Inr_iff:
  "load_state_dict sd own = Inr vs \<longleftrightarrow> list_all (param_ok sd) own \<and> vs = map (loaded_param sd) own"
  unfolding load_state_dict_def by (rule mapE_Inr_map) (rule load_param_Inr_iff)

lemma load_state_dict_Inl:
  "load_state_dict sd own = Inl e \<Longrightarrow> e = RuntimeError ''Error(s) in loading state_dict''"
proof (induction own)
  case Nil
  then show ?case by (simp add: load_state_dict_def)
next
  case (Cons p own)
  then show ?case
    by (cases p) (auto simp: load_state_dict_def load_param_def bindE_def
                       split: option.splits ckpt.splits if_splits sum.splits)
qed

lemma loaded_param_shape:
  "param_ok sd p \<Longrightarrow> (\<lambda>(k, t). (k, tshape t)) (loaded_param sd p) = (\<lambda>(k, t). (k, tshape t)) p"
  by (cases p) (auto simp: param_ok_def loaded_param_def split: option.splits ckpt.splits)

lemma load_state_dict_shapes:
  assumes "load_state_dict sd own = Inr vs"
  shows "shapes vs = shapes own"
proof -
  from assms have "list_all (param_ok sd) own" and "vs = map (loaded_param sd) own"
    by (simp_all add: load_state_dict_def mapE_Inr_map [OF load_param_Inr_iff])
  then show ?thesis
    by (simp add: shapes_def list_all_iff loaded_param_shape)
qed

lemma map_of_tensors:
  assumes "distinct (map fst vs)" and "(k, t) \<in> set vs"
  shows "map_of (map (\<lambda>(k, t). (k, CTensor t)) vs) k = Some (CTensor t)"
proof -
  have "distinct (map fst (map (\<lambda>(k, t). (k, CTensor t)) vs))"
    using assms(1) by (simp add: comp_def case_prod_beta)
  moreover have "(k, CTensor t) \<in> set (map (\<lambda>(k, t). (k, CTensor t)) vs)"
    using assms(2) by force
  ultimately show ?thesis by (rule map_of_is_SomeI)
qed

text \<open>
  C20: save/load round trip: the state dictionary of the wrapper module, whose keys
  all carry the prefix \<^verbatim>\<open>vit.\<close>, loads back exactly into a network with the same
  keys and shapes.
\<close>

theorem load_saved_wrapper_state:
  assumes "distinct (map fst vs)" and "shapes vs = shapes own"
  shows "load_state_dict (clean_state_dict (map (\<lambda>(k, t). (''vit.'' @ k, CTensor t)) vs)) own = Inr vs"
proof -
  let ?sd = "map (\<lambda>(k, t). (k, CTensor t)) vs"
  have "map (\<lambda>(k, v). (strip_vit k, v)) (map (\<lambda>(k, t). (''vit.'' @ k, CTensor t)) vs) = ?sd"
    (is "?m = _") by (simp add: case_prod_beta strip_vit_def)
  moreover have "distinct (map fst ?sd)"
    using assms(1) by (simp add: comp_def case_prod_beta)
  ultimately have c: "clean_state_dict (map (\<lambda>(k, t). (''vit.'' @ k, CTensor t)) vs) = ?sd"
    unfolding clean_state_dict_def by (metis dict_of_pairs_distinct)
  have len: "length own = length vs"
    using arg_cong [OF assms(2), of length] by (simp add: shapes_def)
  have "param_ok ?sd (own ! i) \<and> loaded_param ?sd (own ! i) = vs ! i" if i: "i < length own" for i
  proof -
    obtain k t where o: "own ! i = (k, t)" by (cases "own ! i")
    obtain k' t' where v: "vs ! i = (k', t')" by (cases "vs ! i")
    have "shapes vs ! i = shapes own ! i" using assms(2) by simp
    then have kk: "k' = k" and tt: "tshape t' = tshape t"
      using i len o v by (simp_all add: shapes_def)
    have "(k', t') \<in> set vs" using i len v nth_mem by metis
    then have "map_of ?sd k = Some (CTensor t')"
      using map_of_tensors [OF assms(1)] kk by blast
    with o v kk tt show ?thesis by (simp add: param_ok_def loaded_param_def)
  qed
  then have "list_all (param_ok ?sd) own" and "map (loaded_param ?sd) own = vs"
    using len by (auto simp: list_all_length intro: nth_equalityI)
  with c show ?thesis by (simp add: load_state_dict_Inr_iff)
qed

lemma map_of_shapes: "map_of (shapes sd) k = map_option tshape (map_of sd k)"
  by (induction sd) (auto simp: shapes_def)

lemma VisionTransformer_Inr:
  assumes "VisionTransformer w n = Inr m"
  shows "\<exists>i. vit_classes m = n \<and> vit_device m = CPU \<and> vit_training m
           \<and> map_of (shapes (vit_state m)) ''head.weight'' = Some [n, i]
           \<and> map_of (shapes (vit_state m)) ''head.bias'' = Some [n]"
  using assms unfolding VisionTransformer_def
  by (auto simp: bindE_Inr_iff map_of_shapes update_conv' Let_def case_prod_beta)

lemma load_class_mapping_Inr:
  "load_class_mapping w st = Inr st' \<Longrightarrow>
     idx_to_class st' \<noteq> None \<and> gemini_model st' = gemini_model st \<and> model st' = model st"
  by (auto simp: load_class_mapping_def split: sum.splits)

lemma load_state_dict_unmatched:
  "\<forall>k\<in>fst ` set own. map_of sd k = None \<Longrightarrow> load_state_dict sd own = Inr own"
proof -
  assume a: "\<forall>k\<in>fst ` set own. map_of sd k = None"
  have "param_ok sd p \<and> loaded_param sd p = p" if "p \<in> set own" for p
    using a that by (cases p) (force simp: param_ok_def loaded_param_def)
  then show ?thesis
    by (simp add: load_state_dict_Inr_iff list_all_iff map_idI)
qed

lemma load_model_Inr:
  assumes "load_model w st = Inr st'"
  obtains st1 tbl m items loaded where
    "(if idx_to_class st = None then load_class_mapping w st else Inr st) = Inr st1"
    and "idx_to_class st1 = Some tbl" and "VisionTransformer w (length tbl) = Inr m"
    and "load_state_dict (clean_state_dict items) (vit_state m) = Inr loaded"
    and "st' = st1\<lparr>model := Some (m\<lparr>vit_state := loaded, vit_device := DEVICE w,
                                   vit_training := False\<rparr>)\<rparr>"
  using assms by (auto simp: load_model_def bindE_Inr_iff split: sum.splits option.splits)

lemma load_model_Inr_ckpt:
  assumes "load_model w st = Inr st'"
  obtains st1 tbl m ck sd items loaded where
    "(if idx_to_class st = None then load_class_mapping w st else Inr st) = Inr st1"
    and "idx_to_class st1 = Some tbl" and "VisionTransformer w (length tbl) = Inr m"
    and "checkpoint_file w = Inr ck" and "select_state_dict ck = Inr sd" and "ckpt_items sd = Inr items"
    and "load_state_dict (clean_state_dict items) (vit_state m) = Inr loaded"
    and "st' = st1\<lparr>model := Some (m\<lparr>vit_state := loaded, vit_device := DEVICE w,
                                   vit_training := False\<rparr>)\<rparr>"
  using assms by (auto simp: load_model_def bindE_Inr_iff split: sum.splits option.splits)

lemma loaded_param_eq:
  "loaded_param sd = (\<lambda>(k, t). (k, case map_of sd k of Some (CTensor t') \<Rightarrow> t' | _ \<Rightarrow> t))"
  by (auto simp: loaded_param_def fun_eq_iff split: option.split ckpt.split)

lemma load_model_Inr_ready:
  assumes "load_model w st = Inr st'"
  shows "\<exists>tbl m. idx_to_class st' = Some tbl \<and> model st' = Some m \<and> vit_classes m = length tbl
    \<and> \<not> vit_training m \<and> vit_device m = DEVICE w"
proof -
  obtain st1 tbl m items loaded where
    "(if idx_to_class st = None then load_class_mapping w st else Inr st) = Inr st1"
    and tb: "idx_to_class st1 = Some tbl" and vt: "VisionTransformer w (length tbl) = Inr m"
    and "load_state_dict (clean_state_dict items) (vit_state m) = Inr loaded"
    and st': "st' = st1\<lparr>model := Some (m\<lparr>vit_state := loaded, vit_device := DEVICE w,
                                   vit_training := False\<rparr>)\<rparr>"
    by (rule load_model_Inr [OF assms])
  have c: "vit_classes m = length tbl"
    using VisionTransformer_Inr [OF vt] by (elim exE conjE)
  have "idx_to_class st' = Some tbl" using tb st' by simp
  moreover have "model st' = Some (m\<lparr>vit_state := loaded, vit_device := DEVICE w,
                                    vit_training := False\<rparr>)"
    using st' by simp
  ultimately show ?thesis using c by auto
qed

lemma load_class_mapping_list:
  "class_names_file w = Inr (JArr names) \<Longrightarrow>
   load_class_mapping w st = Inr (st\<lparr>idx_to_class := Some (zip (map int [0..<length names]) names)\<rparr>)"
  by (simp add: load_class_mapping_def class_table_of_json_def table_of_list_eq)

lemma load_model_keeps_table:
  assumes "load_model w st = Inr st'" and "idx_to_class st \<noteq> None"
  shows "idx_to_class st' = idx_to_class st"
proof -
  obtain st1 tbl m items loaded where
    s1: "(if idx_to_class st = None then load_class_mapping w st else Inr st) = Inr st1"
    and "idx_to_class st1 = Some tbl" and "VisionTransformer w (length tbl) = Inr m"
    and "load_state_dict (clean_state_dict items) (vit_state m) = Inr loaded"
    and st': "st' = st1\<lparr>model := Some (m\<lparr>vit_state := loaded, vit_device := DEVICE w,
                                   vit_training := False\<rparr>)\<rparr>"
    by (rule load_model_Inr [OF assms(1)])
  from s1 assms(2) have "st1 = st" by simp
  with st' show ?thesis by simp
qed

lemmas example_load_simps = example_load_world_def example_world_def example_ckpt_def
  example_deit_def load_class_mapping_def class_table_of_json_def table_of_list_eq
  VisionTransformer_def in_features_def select_state_dict_def ckpt_items_def
  clean_state_dict_def strip_vit_def dict_of_pairs_def init_state_def DEVICE_def

text \<open>
  C21: after a successful \<^verbatim>\<open>load_model\<close> the class table and the model are set, the
  model has one output per class (its head weight is \<open>N \<times> i\<close> and its bias has
  \<open>N\<close> entries for a table of \<open>N\<close> classes), it is on \<^verbatim>\<open>DEVICE\<close> and in
  evaluation mode, and the generative backend is untouched.
\<close>

theorem load_model_ok:
  assumes "load_model w st = Inr st'"
  shows "\<exists>tbl m i. idx_to_class st' = Some tbl \<and> model st' = Some m \<and> vit_classes m = length tbl
    \<and> vit_device m = DEVICE w \<and> \<not> vit_training m
    \<and> map_of (shapes (vit_state m)) ''head.weight'' = Some [length tbl, i]
    \<and> map_of (shapes (vit_state m)) ''head.bias'' = Some [length tbl]
    \<and> gemini_model st' = gemini_model st"
proof -
  obtain st1 tbl m items loaded where
    s1: "(if idx_to_class st = None then load_class_mapping w st else Inr st) = Inr st1"
    and tb: "idx_to_class st1 = Some tbl" and vt: "VisionTransformer w (length tbl) = Inr m"
    and ld: "load_state_dict (clean_state_dict items) (vit_state m) = Inr loaded"
    and st': "st' = st1\<lparr>model := Some (m\<lparr>vit_state := loaded, vit_device := DEVICE w,
                                   vit_training := False\<rparr>)\<rparr>"
    using load_model_Inr [OF assms] by blast
  have g: "gemini_model st1 = gemini_model st"
    using s1 load_class_mapping_Inr by (auto split: if_splits)
  obtain i where "vit_classes m = length tbl"
    and "map_of (shapes (vit_state m)) ''head.weight'' = Some [length tbl, i]"
    and "map_of (shapes (vit_state m)) ''head.bias'' = Some [length tbl]"
    using VisionTransformer_Inr [OF vt] by blast
  moreover have "shapes loaded = shapes (vit_state m)"
    using ld by (rule load_state_dict_shapes)
  ultimately show ?thesis
    using tb g st' by auto
qed

theorem load_model_ok_witness:
  "load_model (example_load_world (JArr [JStr ''a'', JStr ''b'', JStr ''c'']) ''vit.'') init_state
     = Inr (init_state\<lparr>idx_to_class := Some [(0, JStr ''a''), (1, JStr ''b''), (2, JStr ''c'')],
         model := Some \<lparr>vit_state = [(''cls_token'', \<lparr>tshape = [1, 1, 2], tdata = [1, 2]\<rparr>),
            (''head.weight'', \<lparr>tshape = [3, 2], tdata = [1, 2, 3, 4, 5, 6]\<rparr>),
            (''head.bias'', \<lparr>tshape = [3], tdata = [7, 8, 9]\<rparr>)],
           vit_classes = 3, vit_device = CPU, vit_training = False\<rparr>\<rparr>)
   \<and> (\<exists>tbl m i. idx_to_class (init_state\<lparr>idx_to_class := Some [(0, JStr ''a''), (1, JStr ''b''), (2, JStr ''c'')],
         model := Some \<lparr>vit_state = [(''cls_token'', \<lparr>tshape = [1, 1, 2], tdata = [1, 2]\<rparr>),
            (''head.weight'', \<lparr>tshape = [3, 2], tdata = [1, 2, 3, 4, 5, 6]\<rparr>),
            (''head.bias'', \<lparr>tshape = [3], tdata = [7, 8, 9]\<rparr>)],
           vit_classes = 3, vit_device = CPU, vit_training = False\<rparr>\<rparr>) = Some tbl
       \<and> vit_classes m = length tbl \<and> map_of (shapes (vit_state m)) ''head.weight'' = Some [length tbl, i]
       \<and> m = \<lparr>vit_state = [(''cls_token'', \<lparr>tshape = [1, 1, 2], tdata = [1, 2]\<rparr>),
            (''head.weight'', \<lparr>tshape = [3, 2], tdata = [1, 2, 3, 4, 5, 6]\<rparr>),
            (''head.bias'', \<lparr>tshape = [3], tdata = [7, 8, 9]\<rparr>)],
           vit_classes = 3, vit_device = CPU, vit_training = False\<rparr>)"
  (is "?run \<and> ?concl")
proof -
  have run: ?run
    by (simp add: load_model_def load_state_dict_def load_param_def example_load_simps)
  from load_model_ok [OF run] run show ?thesis by auto
qed

text \<open>
  C19: the model \<^verbatim>\<open>load_model\<close> installs has the architecture of
  \<^verbatim>\<open>VisionTransformer(num_classes=len(idx_to_class))\<close>, the same parameter names
  and shapes, and each parameter holds the checkpoint's tensor stored under its name
  with the prefix \<^verbatim>\<open>vit.\<close> removed, or, when the checkpoint has no such entry, the
  value the fresh network was built with.
\<close>

theorem load_model_parameters:
  assumes "load_model w st = Inr st'"
  shows "\<exists>tbl m0 m ck sd items. idx_to_class st' = Some tbl \<and> VisionTransformer w (length tbl) = Inr m0
     \<and> checkpoint_file w = Inr ck \<and> select_state_dict ck = Inr sd \<and> ckpt_items sd = Inr items
     \<and> model st' = Some m \<and> shapes (vit_state m) = shapes (vit_state m0)
     \<and> vit_state m = map (\<lambda>(k, t). (k, case map_of (clean_state_dict items) k of
                                        Some (CTensor t') \<Rightarrow> t' | _ \<Rightarrow> t)) (vit_state m0)"
proof -
  obtain st1 tbl m ck sd items loaded where
    tb: "idx_to_class st1 = Some tbl" and vt: "VisionTransformer w (length tbl) = Inr m"
    and ck: "checkpoint_file w = Inr ck" "select_state_dict ck = Inr sd" "ckpt_items sd = Inr items"
    and ld: "load_state_dict (clean_state_dict items) (vit_state m) = Inr loaded"
    and st': "st' = st1\<lparr>model := Some (m\<lparr>vit_state := loaded, vit_device := DEVICE w,
                                   vit_training := False\<rparr>)\<rparr>"
    by (rule load_model_Inr_ckpt [OF assms])
  have "shapes loaded = shapes (vit_state m)"
    using ld by (rule load_state_dict_shapes)
  moreover have "loaded = map (\<lambda>(k, t). (k, case map_of (clean_state_dict items) k of
                                        Some (CTensor t') \<Rightarrow> t' | _ \<Rightarrow> t)) (vit_state m)"
    using ld by (simp add: load_state_dict_Inr_iff loaded_param_eq)
  ultimately show ?thesis
    using tb vt ck st' by auto
qed

theorem load_model_parameters_witness:
  "let w = example_load_world (JArr [JStr ''a'', JStr ''b'', JStr ''c'']) ''vit.'';
       st' = init_state\<lparr>idx_to_class := Some [(0, JStr ''a''), (1, JStr ''b''), (2, JStr ''c'')],
         model := Some \<lparr>vit_state = [(''cls_token'', \<lparr>tshape = [1, 1, 2], tdata = [1, 2]\<rparr>),
            (''head.weight'', \<lparr>tshape = [3, 2], tdata = [1, 2, 3, 4, 5, 6]\<rparr>),
            (''head.bias'', \<lparr>tshape = [3], tdata = [7, 8, 9]\<rparr>)],
           vit_classes = 3, vit_device = CPU, vit_training = False\<rparr>\<rparr>
   in load_model w init_state = Inr st'
   \<and> (\<exists>tbl m0 m ck sd items. idx_to_class st' = Some tbl \<and> VisionTransformer w (length tbl) = Inr m0
     \<and> checkpoint_file w = Inr ck \<and> select_state_dict ck = Inr sd \<and> ckpt_items sd = Inr items
     \<and> model st' = Some m \<and> shapes (vit_state m) = shapes (vit_state m0)
     \<and> vit_state m = map (\<lambda>(k, t). (k, case map_of (clean_state_dict items) k of
                                        Some (CTensor t') \<Rightarrow> t' | _ \<Rightarrow> t)) (vit_state m0))"
proof -
  define w where "w = example_load_world (JArr [JStr ''a'', JStr ''b'', JStr ''c'']) ''vit.''"
  define st' where "st' = init_state\<lparr>idx_to_class := Some [(0, JStr ''a''), (1, JStr ''b''), (2, JStr ''c'')],
         model := Some \<lparr>vit_state = [(''cls_token'', \<lparr>tshape = [1, 1, 2], tdata = [1, 2]\<rparr>),
            (''head.weight'', \<lparr>tshape = [3, 2], tdata = [1, 2, 3, 4, 5, 6]\<rparr>),
            (''head.bias'', \<lparr>tshape = [3], tdata = [7, 8, (9::real)]\<rparr>)],
           vit_classes = 3, vit_device = CPU, vit_training = False\<rparr>\<rparr>"
  have run: "load_model w init_state = Inr st'"
    by (simp add: w_def st'_def load_model_def load_state_dict_def load_param_def example_load_simps)
  from load_model_parameters [OF run] run show ?thesis
    unfolding Let_def w_def [symmetric] st'_def [symmetric] by blast
qed

lemma head_weight_in_state:
  assumes "VisionTransformer w n = Inr m"
  obtains p i where "(''head.weight'', p) \<in> set (vit_state m)" and "tshape p = [n, i]"
proof -
  obtain i where "map_of (shapes (vit_state m)) ''head.weight'' = Some [n, i]"
    using VisionTransformer_Inr [OF assms] by blast
  then obtain p where "map_of (vit_state m) ''head.weight'' = Some p" and "tshape p = [n, i]"
    by (auto simp: map_of_shapes)
  then show ?thesis using that map_of_SomeD by metis
qed

text \<open>
  C22: a checkpoint whose head has a number of rows other than the number of classes
  in the label file makes \<^verbatim>\<open>load_model\<close> fail, although the load is non-strict: the
  size mismatch is an error of \<^verbatim>\<open>load_state_dict\<close>, re-raised as
  \<^verbatim>\<open>RuntimeError("Could not initialize model")\<close>.
\<close>

theorem load_model_head_mismatch:
  assumes "idx_to_class st = Some tbl" and "VisionTransformer w (length tbl) = Inr m"
    and "checkpoint_file w = Inr ck" and "select_state_dict ck = Inr sd" and "ckpt_items sd = Inr items"
    and "map_of (clean_state_dict items) ''head.weight'' = Some (CTensor t)"
    and "hd (tshape t) \<noteq> length tbl"
  shows "load_model w st = Inl (RuntimeError ''Could not initialize model'')"
proof -
  obtain p i where p: "(''head.weight'', p) \<in> set (vit_state m)" and sp: "tshape p = [length tbl, i]"
    using head_weight_in_state [OF assms(2)] by blast
  have "\<not> param_ok (clean_state_dict items) (''head.weight'', p)"
    using assms(6,7) sp by (auto simp: param_ok_def)
  with p have "\<not> list_all (param_ok (clean_state_dict items)) (vit_state m)"
    by (auto simp: list_all_iff)
  then obtain e where "load_state_dict (clean_state_dict items) (vit_state m) = Inl e"
    by (cases "load_state_dict (clean_state_dict items) (vit_state m)")
       (auto simp: load_state_dict_Inr_iff)
  with assms(1-5) show ?thesis by (simp add: load_model_def)
qed

theorem load_model_head_mismatch_witness:
  "let w = example_load_world (JArr [JStr ''a'', JStr ''b'']) ''vit.'';
       st = init_state\<lparr>idx_to_class := Some [(0, JStr ''a''), (1, JStr ''b'')]\<rparr>
   in hd (tshape \<lparr>tshape = [3, 2], tdata = [1, 2, 3, 4, 5, (6::real)]\<rparr>) \<noteq> length [(0::int, JStr ''a''), (1, JStr ''b'')]
      \<and> load_model w st = Inl (RuntimeError ''Could not initialize model'')"
proof -
  define w where "w = example_load_world (JArr [JStr ''a'', JStr ''b'']) ''vit.''"
  define st where "st = init_state\<lparr>idx_to_class := Some [(0::int, JStr ''a''), (1, JStr ''b'')]\<rparr>"
  define tbl where "tbl = [(0::int, JStr ''a''), (1, JStr ''b'')]"
  define t where "t = \<lparr>tshape = [3, 2], tdata = [1, 2, 3, 4, 5, (6::real)]\<rparr>"
  define items where "items = [(''vit.cls_token'', CTensor \<lparr>tshape = [1, 1, 2], tdata = [1, 2]\<rparr>),
    (''vit.head.weight'', CTensor t), (''vit.head.bias'', CTensor \<lparr>tshape = [3], tdata = [7, 8, 9]\<rparr>)]"
  have h1: "idx_to_class st = Some tbl" by (simp add: st_def tbl_def)
  have h2: "VisionTransformer w (length tbl) = Inr \<lparr>vit_state = [(''cls_token'', \<lparr>tshape = [1, 1, 2], tdata = [0, 0]\<rparr>),
      (''head.weight'', \<lparr>tshape = [2, 2], tdata = [0, 0, 0, 0]\<rparr>),
      (''head.bias'', \<lparr>tshape = [2], tdata = [0, 0]\<rparr>)], vit_classes = 2, vit_device = CPU, vit_training = True\<rparr>"
    by (simp add: w_def tbl_def example_load_simps eval_nat_numeral)
  have h3: "checkpoint_file w = Inr (example_ckpt ''vit.'')" by (simp add: w_def example_load_world_def)
  have h4: "select_state_dict (example_ckpt ''vit.'') = Inr (CDict items)"
    by (simp add: example_ckpt_def select_state_dict_def items_def t_def)
  have h5: "ckpt_items (CDict items) = Inr items" by (simp add: ckpt_items_def)
  have h6: "map_of (clean_state_dict items) ''head.weight'' = Some (CTensor t)"
    by (simp add: items_def clean_state_dict_def strip_vit_def dict_of_pairs_def)
  have h7: "hd (tshape t) \<noteq> length tbl" by (simp add: t_def tbl_def)
  from load_model_head_mismatch [OF h1 h2 h3 h4 h5 h6 h7] h7 show ?thesis
    unfolding Let_def w_def st_def t_def tbl_def by blast
qed

text \<open>
  C23: a checkpoint none of whose keys, after the \<^verbatim>\<open>vit.\<close> prefix is stripped,
  names a parameter of the network (for instance one saved from a
  \<^verbatim>\<open>DataParallel\<close> wrapper, keys \<^verbatim>\<open>module.vit.*\<close>) loads without error and
  leaves the network with its untrained weights.
\<close>

theorem load_model_ignores_foreign_keys:
  assumes "idx_to_class st = Some tbl" and "VisionTransformer w (length tbl) = Inr m"
    and "checkpoint_file w = Inr ck" and "select_state_dict ck = Inr sd" and "ckpt_items sd = Inr items"
    and "\<forall>k\<in>fst ` set (vit_state m). map_of (clean_state_dict items) k = None"
  shows "load_model w st = Inr (st\<lparr>model := Some (m\<lparr>vit_device := DEVICE w, vit_training := False\<rparr>)\<rparr>)"
  using assms by (simp add: load_model_def load_state_dict_unmatched)

theorem load_model_ignores_foreign_keys_witness:
  "let w = example_load_world (JArr [JStr ''a'', JStr ''b'', JStr ''c'']) ''module.vit.'';
       st = init_state\<lparr>idx_to_class := Some [(0, JStr ''a''), (1, JStr ''b''), (2, JStr ''c'')]\<rparr>;
       m = \<lparr>vit_state = [(''cls_token'', \<lparr>tshape = [1, 1, 2], tdata = [0, 0]\<rparr>),
              (''head.weight'', \<lparr>tshape = [3, 2], tdata = replicate 6 0\<rparr>),
              (''head.bias'', \<lparr>tshape = [3], tdata = replicate 3 0\<rparr>)],
            vit_classes = 3, vit_device = CPU, vit_training = True\<rparr>
   in load_model w st = Inr (st\<lparr>model := Some (m\<lparr>vit_device := CPU, vit_training := False\<rparr>)\<rparr>)"
proof -
  define w where "w = example_load_world (JArr [JStr ''a'', JStr ''b'', JStr ''c'']) ''module.vit.''"
  define tbl where "tbl = [(0::int, JStr ''a''), (1, JStr ''b''), (2, JStr ''c'')]"
  define st where "st = init_state\<lparr>idx_to_class := Some tbl\<rparr>"
  define m where "m = \<lparr>vit_state = [(''cls_token'', \<lparr>tshape = [1, 1, 2], tdata = [0, 0::real]\<rparr>),
              (''head.weight'', \<lparr>tshape = [3, 2], tdata = replicate 6 0\<rparr>),
              (''head.bias'', \<lparr>tshape = [3], tdata = replicate 3 0\<rparr>)],
            vit_classes = 3, vit_device = CPU, vit_training = True\<rparr>"
  define items where "items = [(''module.vit.cls_token'', CTensor \<lparr>tshape = [1, 1, 2], tdata = [1, 2]\<rparr>),
    (''module.vit.head.weight'', CTensor \<lparr>tshape = [3, 2], tdata = [1, 2, 3, 4, 5, 6]\<rparr>),
    (''module.vit.head.bias'', CTensor \<lparr>tshape = [3], tdata = [7, 8, 9]\<rparr>)]"
  have h1: "idx_to_class st = Some tbl" by (simp add: st_def)
  have h2: "VisionTransformer w (length tbl) = Inr m"
    by (simp add: w_def tbl_def m_def example_load_simps eval_nat_numeral)
  have h3: "checkpoint_file w = Inr (example_ckpt ''module.vit.'')"
    by (simp add: w_def example_load_world_def)
  have h4: "select_state_dict (example_ckpt ''module.vit.'') = Inr (CDict items)"
    by (simp add: example_ckpt_def select_state_dict_def items_def)
  have h5: "ckpt_items (CDict items) = Inr items" by (simp add: ckpt_items_def)
  have h6: "\<forall>k\<in>fst ` set (vit_state m). map_of (clean_state_dict items) k = None"
    by (simp add: items_def m_def clean_state_dict_def strip_vit_def dict_of_pairs_def)
  have "DEVICE w = CPU" by (simp add: w_def example_load_simps)
  with load_model_ignores_foreign_keys [OF h1 h2 h3 h4 h5 h6] show ?thesis
    unfolding Let_def w_def st_def m_def tbl_def by simp
qed

theorem load_saved_wrapper_state_witness:
  "distinct (map fst [(''cls_token'', \<lparr>tshape = [2], tdata = [1, 2::real]\<rparr>), (''head.bias'', \<lparr>tshape = [1], tdata = [3]\<rparr>)])
   \<and> shapes [(''cls_token'', \<lparr>tshape = [2], tdata = [1, 2::real]\<rparr>), (''head.bias'', \<lparr>tshape = [1], tdata = [3]\<rparr>)]
     = shapes [(''cls_token'', \<lparr>tshape = [2], tdata = [0, 0::real]\<rparr>), (''head.bias'', \<lparr>tshape = [1], tdata = [0]\<rparr>)]
   \<and> load_state_dict
       (clean_state_dict [(''vit.cls_token'', CTensor \<lparr>tshape = [2], tdata = [1, 2]\<rparr>),
                          (''vit.head.bias'', CTensor \<lparr>tshape = [1], tdata = [3]\<rparr>)])
       [(''cls_token'', \<lparr>tshape = [2], tdata = [0, 0]\<rparr>), (''head.bias'', \<lparr>tshape = [1], tdata = [0]\<rparr>)]
     = Inr [(''cls_token'', \<lparr>tshape = [2], tdata = [1, 2]\<rparr>), (''head.bias'', \<lparr>tshape = [1], tdata = [3]\<rparr>)]"
proof -
  have d: "distinct (map fst [(''cls_token'', \<lparr>tshape = [2], tdata = [1, 2::real]\<rparr>), (''head.bias'', \<lparr>tshape = [1], tdata = [3]\<rparr>)])"
    by simp
  have s: "shapes [(''cls_token'', \<lparr>tshape = [2], tdata = [1, 2::real]\<rparr>), (''head.bias'', \<lparr>tshape = [1], tdata = [3]\<rparr>)]
     = shapes [(''cls_token'', \<lparr>tshape = [2], tdata = [0, 0::real]\<rparr>), (''head.bias'', \<lparr>tshape = [1], tdata = [0]\<rparr>)]"
    by (simp add: shapes_def)
  from load_saved_wrapper_state [OF d s] d s show ?thesis by simp
qed

end
