(* ===== verification/Preprocess.thy ===== *)
theory Preprocess
  imports State
begin

text \<open>
  The image preprocessor \<^verbatim>\<open>preprocess_image\<close> (\<^verbatim>\<open>main.py\<close> lines 225-234) and
  the transform of lines 35-39: conversion to RGB (Pillow's converters of each mode),
  \<^verbatim>\<open>Resize((224, 224))\<close> (the resampling filter is a function of the world; an
  image of the target size is copied), \<^verbatim>\<open>ToTensor\<close> (bytes scaled to
  \<open>[0, 1]\<close>, channel-major, the shape read from the size of the picture it is
  given) and \<^verbatim>\<open>Normalize\<close>. Pixels are \<open>8 word\<close>s and Pillow's integer
  arithmetic is kept at that width. The lemmas give the shape of the result and the
  size of the resized picture, each element as a function of the resized pixels, its
  bounds, and the error path.
\<close>

section \<open>Conversion to RGB\<close>

text \<open>
  \<^verbatim>\<open>MULDIV255(a, b)\<close> of Pillow's \<^verbatim>\<open>Convert.c\<close>: \<open>a * b / 255\<close> rounded, computed
  with two shifts: \<open>t = a * b + 128; ((t >> 8) + t) >> 8\<close>.
\<close>

definition muldiv255 :: "nat \<Rightarrow> nat \<Rightarrow> nat" where
  "muldiv255 a b = (let t = a * b + 128 in (t div 256 + t) div 256)"

text \<open>\<^verbatim>\<open>cmyk2rgb\<close>: each channel is \<open>nk - MULDIV255(c, nk)\<close> with \<open>nk = 255 - k\<close>.\<close>

definition cmyk_channel :: "8 word \<Rightarrow> 8 word \<Rightarrow> 8 word" where
  "cmyk_channel c k =
     (let nk = 255 - unat k in word_of_nat (nk - muldiv255 (unat c) nk))"

text \<open>
  One pixel of \<^verbatim>\<open>image.convert('RGB')\<close>: grey is copied to the three channels,
  alpha is dropped, a palette index is looked up in the image's palette.
\<close>

definition to_rgb :: "(8 word \<Rightarrow> rgb) \<Rightarrow> pixel \<Rightarrow> rgb" where
  "to_rgb palette px =
     (case px of
        PxL l \<Rightarrow> (l, l, l)
      | PxLA l a \<Rightarrow> (l, l, l)
      | PxRGB r g b \<Rightarrow> (r, g, b)
      | PxRGBA r g b a \<Rightarrow> (r, g, b)
      | PxCMYK c m y k \<Rightarrow> (cmyk_channel c k, cmyk_channel m k, cmyk_channel y k)
      | PxP i \<Rightarrow> palette i)"

definition rgb_pixel :: "rgb \<Rightarrow> pixel" where
  "rgb_pixel p = (case p of (r, g, b) \<Rightarrow> PxRGB r g b)"

text \<open>\<^verbatim>\<open>image.convert('RGB')\<close> decodes the pixels (which may fail) into a new image.\<close>

definition convert_rgb :: "pil_image \<Rightarrow> pil_image result" where
  "convert_rgb img =
     bindE (img_load img) (\<lambda>rows.
       Inr (img\<lparr>img_mode := ModeRGB,
                  img_load := Inr (map (map (rgb_pixel \<circ> to_rgb (img_palette img))) rows)\<rparr>))"

section \<open>The transform\<close>

text \<open>
  An RGB image as the transform's steps see it: its size (\<^verbatim>\<open>img.size\<close>, as
  height and width) and its rows of pixels.
\<close>

record rgb_image =
  rgb_height :: nat
  rgb_width :: nat
  rgb_rows :: "rgb list list"

definition rgb_of :: "pil_image \<Rightarrow> pixel list list \<Rightarrow> rgb_image" where
  "rgb_of img rows =
     \<lparr>rgb_height = img_height img, rgb_width = img_width img,
      rgb_rows = map (map (to_rgb (img_palette img))) rows\<rparr>"

text \<open>
  \<^verbatim>\<open>transforms.Resize((h, w))\<close> on a PIL image: \<^verbatim>\<open>Image.resize\<close> returns a copy when
  the size is already \<open>(w, h)\<close> and otherwise a new image of size \<open>(w, h)\<close>, each
  output pixel computed by the bilinear filter.
\<close>

definition resize :: "world \<Rightarrow> nat \<Rightarrow> nat \<Rightarrow> rgb_image \<Rightarrow> rgb_image" where
  "resize w h w1 im =
     (if rgb_height im = h \<and> rgb_width im = w1 then im
      else \<lparr>rgb_height = h, rgb_width = w1,
            rgb_rows = map (\<lambda>i. map (\<lambda>j. resample w (rgb_rows im) h w1 i j) [0..<w1]) [0..<h]\<rparr>)"

definition channel :: "nat \<Rightarrow> rgb \<Rightarrow> 8 word" where
  "channel c p = (case p of (r, g, b) \<Rightarrow> if c = 0 then r else if c = 1 then g else b)"

text \<open>
  \<^verbatim>\<open>ToTensor\<close>: the bytes of the picture viewed as \<open>h \<times> w \<times> 3\<close>, with \<open>(w, h)\<close>
  the picture's own size, permuted to \<open>3 \<times> h \<times> w\<close> and divided by 255.
\<close>

definition to_tensor :: "rgb_image \<Rightarrow> tensor" where
  "to_tensor pic =
     (let h = rgb_height pic; w = rgb_width pic; px = rgb_rows pic
      in \<lparr>tshape = [3, h, w],
          tdata = concat (map (\<lambda>c. concat (map (\<lambda>i. map (\<lambda>j. real (unat (channel c (px ! i ! j))) / 255)
                                                    [0..<w]) [0..<h])) [0..<3])\<rparr>)"

text \<open>\<^verbatim>\<open>Normalize(mean, std)\<close>: element \<open>k\<close> lies in channel \<open>k div (h * w)\<close>.\<close>

definition normalize :: "real list \<Rightarrow> real list \<Rightarrow> tensor \<Rightarrow> tensor" where
  "normalize mean std t =
     (let n = tshape t ! 1 * tshape t ! 2
      in t\<lparr>tdata := map (\<lambda>(k, x). (x - mean ! (k div n)) / std ! (k div n)) (enumerate 0 (tdata t))\<rparr>)"

definition MEAN :: "real list" where
  "MEAN = [0.485, 0.456, 0.406]"

definition STD :: "real list" where
  "STD = [0.229, 0.224, 0.225]"

text \<open>\<^verbatim>\<open>transform(image)\<close> on an RGB image; reading its pixels may fail.\<close>

definition transform :: "world \<Rightarrow> pil_image \<Rightarrow> tensor result" where
  "transform w img =
     bindE (img_load img) (\<lambda>rows.
       Inr (normalize MEAN STD (to_tensor (resize w IMG_SIZE IMG_SIZE (rgb_of img rows)))))"

text \<open>\<^verbatim>\<open>preprocess_image\<close>: every exception becomes a 422.\<close>

definition preprocess_image :: "world \<Rightarrow> pil_image \<Rightarrow> tensor result" where
  "preprocess_image w img =
     (let r = bindE (if img_mode img \<noteq> ModeRGB then convert_rgb img else Inr img)
                    (transform w)
      in case r of Inl e \<Rightarrow> Inl (HTTPException 422 ''Invalid image format'') | Inr t \<Rightarrow> Inr t)"

text \<open>
  A decoded Pillow image holds as many rows as its height, each as long as its width;
  its pixel buffer is allocated from its size.
\<close>

definition wf_image :: "pil_image \<Rightarrow> bool" where
  "wf_image img =
     (case img_load img of
        Inl e \<Rightarrow> True
      | Inr rows \<Rightarrow> length rows = img_height img \<and> list_all (\<lambda>r. length r = img_width img) rows)"

definition wf_rgb :: "rgb_image \<Rightarrow> bool" where
  "wf_rgb im = (length (rgb_rows im) = rgb_height im \<and> list_all (\<lambda>r. length r = rgb_width im) (rgb_rows im))"

text \<open>An upload for the lemmas below: a \<open>2 \<times> 2\<close> grey image.\<close>

definition example_upload :: pil_image where
  "example_upload = \<lparr>img_mode = ModeL, img_width = 2, img_height = 2, img_palette = (\<lambda>_. (0, 0, 0)),
     img_load = Inr [[PxL 0, PxL 255], [PxL 128, PxL 7]]\<rparr>"

section \<open>Lemmas\<close>

lemma nth_concat_uniform:
  assumes "\<forall>x\<in>set xs. length (f x) = n" and "i < length xs" and "j < n"
  shows "concat (map f xs) ! (i * n + j) = f (xs ! i) ! j"
  using assms
proof (induction xs arbitrary: i)
  case Nil
  then show ?case by simp
next
  case (Cons x xs)
  then show ?case
    by (cases i) (auto simp: nth_append add.assoc)
qed

lemma length_concat_uniform:
  "\<forall>x\<in>set xs. length (f x) = n \<Longrightarrow> length (concat (map f xs)) = length xs * n"
  by (induction xs) auto

lemma length_tensor_channel:
  "length (concat (map (\<lambda>i. map (g i) [0..<w]) [0..<h])) = h * w"
  by (subst length_concat_uniform [where n = w]) auto

lemma to_tensor_length:
  "length (tdata (to_tensor pic)) = 3 * rgb_height pic * rgb_width pic"
  unfolding to_tensor_def Let_def tensor.select_convs
  by (subst length_concat_uniform [where n = "rgb_height pic * rgb_width pic"])
     (auto simp: length_tensor_channel)

lemma to_tensor_nth:
  assumes "c < 3" and "i < rgb_height pic" and "j < rgb_width pic"
  shows "tdata (to_tensor pic) ! (c * (rgb_height pic * rgb_width pic) + (i * rgb_width pic + j))
       = real (unat (channel c (rgb_rows pic ! i ! j))) / 255"
proof -
  define h where "h = rgb_height pic"
  define w where "w = rgb_width pic"
  have "i * w + j < Suc i * w" using assms(3) by (simp add: w_def)
  also have "\<dots> \<le> h * w" using assms(2) by (intro mult_le_mono1) (simp add: h_def)
  finally have k: "i * w + j < h * w" .
  have "tdata (to_tensor pic) ! (c * (h * w) + (i * w + j))
      = concat (map (\<lambda>i. map (\<lambda>j. real (unat (channel c (rgb_rows pic ! i ! j))) / 255) [0..<w]) [0..<h])
          ! (i * w + j)"
    unfolding to_tensor_def Let_def tensor.select_convs h_def [symmetric] w_def [symmetric]
    using assms(1) k
    by (subst nth_concat_uniform [where n = "h * w"]) (auto simp: length_tensor_channel)
  also have "\<dots> = real (unat (channel c (rgb_rows pic ! i ! j))) / 255"
    using assms(2,3) by (subst nth_concat_uniform [where n = w]) (auto simp: h_def w_def)
  finally show ?thesis by (simp add: h_def w_def)
qed

lemma to_tensor_range:
  "x \<in> set (tdata (to_tensor pic)) \<Longrightarrow> 0 \<le> x \<and> x \<le> 1"
  by (auto simp: to_tensor_def Let_def)

lemma to_tensor_shape [simp]: "tshape (to_tensor pic) = [3, rgb_height pic, rgb_width pic]"
  by (simp add: to_tensor_def Let_def)

lemma normalize_shape [simp]: "tshape (normalize m s t) = tshape t"
  by (simp add: normalize_def Let_def)

lemma normalize_length [simp]: "length (tdata (normalize m s t)) = length (tdata t)"
  by (simp add: normalize_def Let_def)

lemma normalize_nth:
  "k < length (tdata t) \<Longrightarrow>
     tdata (normalize m s t) ! k
       = (tdata t ! k - m ! (k div (tshape t ! 1 * tshape t ! 2))) / s ! (k div (tshape t ! 1 * tshape t ! 2))"
  by (simp add: normalize_def Let_def nth_enumerate_eq)

lemma to_rgb_rgb_pixel [simp]: "to_rgb pal (rgb_pixel p) = p"
  by (cases p) (simp add: to_rgb_def rgb_pixel_def)

lemma resize_size [simp]:
  "rgb_height (resize w h w1 im) = h" "rgb_width (resize w h w1 im) = w1"
  by (simp_all add: resize_def)

text \<open>Resizing keeps an image well formed, and makes every image the target size.\<close>

lemma resize_wf: "wf_rgb im \<Longrightarrow> wf_rgb (resize w h w1 im)"
  by (auto simp: resize_def wf_rgb_def list_all_iff)

lemma rgb_of_wf: "wf_image img \<Longrightarrow> img_load img = Inr rows \<Longrightarrow> wf_rgb (rgb_of img rows)"
  by (simp add: wf_image_def wf_rgb_def rgb_of_def list_all_iff)

text \<open>
  Whatever the mode, preprocessing is the pipeline on the pixels read through the
  per-pixel conversion; it fails exactly when the pixel data cannot be decoded.
\<close>

lemma preprocess_image_Inr_iff:
  "preprocess_image w img = Inr t \<longleftrightarrow>
     (\<exists>rows. img_load img = Inr rows
        \<and> t = normalize MEAN STD (to_tensor (resize w IMG_SIZE IMG_SIZE (rgb_of img rows))))"
  by (cases "img_load img")
     (auto simp: preprocess_image_def convert_rgb_def transform_def rgb_of_def Let_def comp_def)

lemma channel_index: "r < n \<Longrightarrow> (c * n + r) div n = (c::nat)"
  by simp

lemma normalized_range:
  assumes "0 \<le> v" and "v \<le> 1" and "c < 3"
  shows "- (485 / 229) \<le> (v - MEAN ! c) / STD ! c \<and> (v - MEAN ! c) / STD ! c \<le> 66 / 25"
proof -
  have "c = 0 \<or> c = 1 \<or> c = 2" using assms(3) by auto
  then show ?thesis
    using assms(1,2) by (auto simp: MEAN_def STD_def field_simps)
qed

lemma preprocess_image_Inl:
  "preprocess_image w img = Inl e \<Longrightarrow> e = HTTPException 422 ''Invalid image format''"
  by (simp add: preprocess_image_def Let_def split: sum.splits)

text \<open>
  C24: an upload whose pixels decode is preprocessed into a tensor of shape
  \<open>3 \<times> 224 \<times> 224\<close> holding \<open>3 \<cdot> 224 \<cdot> 224\<close> values, whatever its mode and size:
  \<^verbatim>\<open>Resize((224, 224))\<close> makes the picture \<^verbatim>\<open>ToTensor\<close> reads a grid of 224 rows
  of 224 pixels.
\<close>

theorem preprocess_shape:
  assumes "wf_image img" and "img_load img = Inr rows"
  shows "\<exists>t. preprocess_image w img = Inr t \<and> tshape t = [3, IMG_SIZE, IMG_SIZE]
     \<and> length (tdata t) = 3 * IMG_SIZE * IMG_SIZE
     \<and> wf_rgb (resize w IMG_SIZE IMG_SIZE (rgb_of img rows))"
proof -
  let ?t = "normalize MEAN STD (to_tensor (resize w IMG_SIZE IMG_SIZE (rgb_of img rows)))"
  have "preprocess_image w img = Inr ?t"
    using assms(2) by (auto simp: preprocess_image_Inr_iff)
  moreover have "wf_rgb (resize w IMG_SIZE IMG_SIZE (rgb_of img rows))"
    using rgb_of_wf [OF assms] by (rule resize_wf)
  ultimately show ?thesis
    by (auto simp: to_tensor_length)
qed

text \<open>
  C25: element \<open>(c, i, j)\<close> of the result is the byte of channel \<open>c\<close> of pixel
  \<open>(i, j)\<close> of the resized RGB image, scaled to \<open>[0, 1]\<close> and normalised with the
  mean and standard deviation of channel \<open>c\<close>; the RGB image is the decoded one
  read through Pillow's per-mode conversion.
\<close>

theorem preprocess_elements:
  assumes "preprocess_image w img = Inr t" and "c < 3" and "i < IMG_SIZE" and "j < IMG_SIZE"
  shows "\<exists>rows. img_load img = Inr rows
    \<and> tdata t ! (c * (IMG_SIZE * IMG_SIZE) + (i * IMG_SIZE + j))
      = (real (unat (channel c (rgb_rows (resize w IMG_SIZE IMG_SIZE (rgb_of img rows)) ! i ! j))) / 255
         - MEAN ! c) / STD ! c"
proof -
  obtain rows where r: "img_load img = Inr rows"
    and t: "t = normalize MEAN STD (to_tensor (resize w IMG_SIZE IMG_SIZE (rgb_of img rows)))"
    using assms(1) by (auto simp: preprocess_image_Inr_iff)
  have "i * IMG_SIZE + j < Suc i * IMG_SIZE" using assms(4) by simp
  also have "\<dots> \<le> IMG_SIZE * IMG_SIZE" using assms(3) by (intro mult_le_mono1) simp
  finally have k: "i * IMG_SIZE + j < IMG_SIZE * IMG_SIZE" .
  have "c * (IMG_SIZE * IMG_SIZE) + (i * IMG_SIZE + j) < 3 * (IMG_SIZE * IMG_SIZE)"
    using k assms(2) by (simp add: IMG_SIZE_def)
  with k assms(2-4) show ?thesis
    using to_tensor_nth [of c i "resize w IMG_SIZE IMG_SIZE (rgb_of img rows)" j]
    by (simp add: r t normalize_nth to_tensor_length channel_index)
qed

text \<open>
  C26: every value of a preprocessed image lies between \<open>-0.485/0.229\<close> (a zero
  red byte) and \<open>(1 - 0.406)/0.225 = 2.64\<close> (a full blue byte).
\<close>

theorem preprocess_bounds:
  assumes "preprocess_image w img = Inr t"
  shows "\<forall>x\<in>set (tdata t). - (485 / 229) \<le> x \<and> x \<le> 66 / 25"
proof
  fix x assume "x \<in> set (tdata t)"
  then obtain k where k: "k < length (tdata t)" and x: "x = tdata t ! k"
    by (auto simp: in_set_conv_nth)
  obtain pic where t: "t = normalize MEAN STD (to_tensor pic)"
    and sz: "rgb_height pic = IMG_SIZE" "rgb_width pic = IMG_SIZE"
    using assms by (auto simp: preprocess_image_Inr_iff)
  define tt where "tt = to_tensor pic"
  have sh: "tshape tt = [3, IMG_SIZE, IMG_SIZE]" and len: "length (tdata tt) = 3 * (IMG_SIZE * IMG_SIZE)"
    by (simp_all add: tt_def to_tensor_length sz)
  have kt: "k < length (tdata tt)" using k t tt_def by simp
  have c: "k div (IMG_SIZE * IMG_SIZE) < 3"
    using kt len by (simp add: less_mult_imp_div_less)
  have "tdata tt ! k \<in> set (tdata tt)" using kt by simp
  then have "0 \<le> tdata tt ! k \<and> tdata tt ! k \<le> 1"
    unfolding tt_def by (rule to_tensor_range)
  with c show "- (485 / 229) \<le> x \<and> x \<le> 66 / 25"
    using normalized_range [of "tdata tt ! k" "k div (IMG_SIZE * IMG_SIZE)"]
    by (simp add: x t tt_def [symmetric] normalize_nth kt sh)
qed

theorem preprocess_shape_witness:
  "wf_image example_upload \<and> img_load example_upload = Inr [[PxL 0, PxL 255], [PxL 128, PxL 7]]
   \<and> (\<exists>t. preprocess_image example_world example_upload = Inr t
     \<and> tshape t = [3, IMG_SIZE, IMG_SIZE] \<and> length (tdata t) = 3 * IMG_SIZE * IMG_SIZE
     \<and> wf_rgb (resize example_world IMG_SIZE IMG_SIZE (rgb_of example_upload [[PxL 0, PxL 255], [PxL 128, PxL 7]])))"
proof -
  have h: "wf_image example_upload" "img_load example_upload = Inr [[PxL 0, PxL 255], [PxL 128, PxL 7]]"
    by (simp_all add: example_upload_def wf_image_def)
  from preprocess_shape [OF h] h show ?thesis by blast
qed

theorem preprocess_elements_witness:
  "\<exists>t. preprocess_image example_world example_upload = Inr t
     \<and> (0::nat) < 3 \<and> (0::nat) < IMG_SIZE \<and> tdata t ! 0 = - (485 / 229)"
proof -
  obtain t where h: "preprocess_image example_world example_upload = Inr t"
    by (simp add: preprocess_image_Inr_iff example_upload_def)
  have z: "(0::nat) < 3" "(0::nat) < IMG_SIZE" by (simp_all add: IMG_SIZE_def)
  from preprocess_elements [OF h z(1) z(2) z(2)] obtain rows where
    "img_load example_upload = Inr rows"
    "tdata t ! 0 = (real (unat (channel 0 (rgb_rows (resize example_world IMG_SIZE IMG_SIZE
        (rgb_of example_upload rows)) ! 0 ! 0))) / 255 - MEAN ! 0) / STD ! 0"
    by auto
  then have "tdata t ! 0 = - (485 / 229)"
    by (simp add: example_upload_def rgb_of_def resize_def IMG_SIZE_def example_world_def
        channel_def MEAN_def STD_def)
  with h z show ?thesis by auto
qed

theorem preprocess_bounds_witness:
  "\<exists>t. preprocess_image example_world example_upload = Inr t
     \<and> (\<forall>x\<in>set (tdata t). - (485 / 229) \<le> x \<and> x \<le> 66 / 25)"
proof -
  obtain t where h: "preprocess_image example_world example_upload = Inr t"
    by (simp add: preprocess_image_Inr_iff example_upload_def)
  from preprocess_bounds [OF h] h show ?thesis by auto
qed

text \<open>
  C27: preprocessing fails exactly when the pixel data of the opened image cannot be
  decoded, and then with the client error 422 ``Invalid image format''.
\<close>

theorem preprocess_error:
  "preprocess_image w img = Inl e \<longleftrightarrow>
     e = HTTPException 422 ''Invalid image format'' \<and> isl (img_load img)"
  by (cases "img_load img")
     (auto simp: preprocess_image_def convert_rgb_def transform_def Let_def)

end
