(* ===== verification/Endpoint.thy ===== *)
theory Endpoint
  imports Advisory Inference ModelLoad Preprocess
begin

text \<open>
  The service as a whole: the startup sequence (the three handlers registered with
  \<^verbatim>\<open>@app.on_event("startup")\<close>, run in registration order, an exception of
  any aborting the start), the handler of \<^verbatim>\<open>POST /predict\<close> (\<^verbatim>\<open>main.py\<close>
  lines 286-329) with each of its error paths, and the lemmas that compose the
  handlers: what a successful startup leaves, when it aborts, and a request answered
  against that state.
\<close>

section \<open>Startup\<close>

definition startup :: "world \<Rightarrow> app_state \<Rightarrow> (world \<times> app_state) result" where
  "startup w st =
     bindE (load_class_mapping w st) (\<lambda>st1.
     bindE (load_model w st1) (\<lambda>st2.
       Inr (configure_gemini w st2)))"

section \<open>The prediction endpoint\<close>

text \<open>The JSON object the handler returns.\<close>

record predict_response =
  resp_filename :: string
  resp_predictions :: "prediction list"
  resp_model :: string
  resp_input_size :: nat
  gemini_severity :: string
  gemini_treatment :: string
  gemini_prevention :: string

text \<open>
  \<^verbatim>\<open>predict(file)\<close> on the uploaded bytes: an \<^verbatim>\<open>HTTPException\<close> raised inside
  is passed on; any other exception becomes a 500. The advisory is asked for only
  when a backend is bound, about the label of the top prediction (as an f-string
  formats it); \<^verbatim>\<open>generate_gemini_content\<close> catches its own errors.
\<close>

definition predict :: "world \<Rightarrow> app_state \<Rightarrow> string \<Rightarrow> 8 word list \<Rightarrow> predict_response result" where
  "predict w st filename contents =
     (let r = (if contents = [] then Inl (HTTPException 400 ''Empty file uploaded'')
               else
                 bindE (image_open w contents) (\<lambda>image.
                 bindE (preprocess_image w image) (\<lambda>processed_tensor.
                 bindE (predict_image w st processed_tensor) (\<lambda>predictions.
                   let top_prediction = (if predictions = [] then ''Unknown disease''
                                         else py_str (pred_class (hd predictions)));
                       defaults = (''Failed to generate severity.'',
                                   ''Failed to generate treatment advice.'',
                                   ''Failed to generate prevention tips.'');
                       (severity, treatment, prevention) =
                         (if gemini_model st \<noteq> None
                          then generate_gemini_content w st top_prediction else defaults)
                   in Inr \<lparr>resp_filename = filename, resp_predictions = predictions,
                           resp_model = ''Vision Transformer'', resp_input_size = IMG_SIZE,
                           gemini_severity = severity, gemini_treatment = treatment,
                           gemini_prevention = prevention\<rparr>))))
      in case r of
           Inl (HTTPException code detail) \<Rightarrow> Inl (HTTPException code detail)
         | Inl e \<Rightarrow> Inl (HTTPException 500 ''Internal server error'')
         | Inr v \<Rightarrow> Inr v)"

fun is_http_exc :: "py_exc \<Rightarrow> bool" where
  "is_http_exc (HTTPException code detail) = True"
| "is_http_exc e = False"

text \<open>
  An example of a serving service for the lemmas below: uploads decode to a
  \<open>2 \<times> 2\<close> grey image, the network gives equal logits to three classes, and no
  advisory backend is bound.
\<close>

definition example_img :: pil_image where
  "example_img =
     \<lparr>img_mode = ModeL, img_width = 2, img_height = 2, img_palette = (\<lambda>_. (0, 0, 0)),
      img_load = Inr [[PxL 0, PxL 255], [PxL 128, PxL 7]]\<rparr>"

definition example_serve_world :: world where
  "example_serve_world =
     example_world\<lparr>image_open := (\<lambda>bs. Inr example_img), vit_forward := (\<lambda>m x. Inr [[0, 0, 0]])\<rparr>"

definition example_serve_state :: app_state where
  "example_serve_state =
     init_state\<lparr>idx_to_class := Some [(0, JStr ''a''), (1, JStr ''b''), (2, JStr ''c'')],
                model := Some \<lparr>vit_state = [], vit_classes = 3, vit_device = CPU,
                               vit_training = False\<rparr>\<rparr>"

section \<open>Lemmas\<close>

lemma example_predict:
  "predict example_serve_world example_serve_state ''leaf.jpg'' [1, 2, 3] = Inr
     \<lparr>resp_filename = ''leaf.jpg'',
      resp_predictions = [\<lparr>pred_class = JStr ''a'', confidence = 3333 / 100\<rparr>,
                          \<lparr>pred_class = JStr ''b'', confidence = 3333 / 100\<rparr>,
                          \<lparr>pred_class = JStr ''c'', confidence = 3333 / 100\<rparr>],
      resp_model = ''Vision Transformer'', resp_input_size = 224,
      gemini_severity = ''Failed to generate severity.'',
      gemini_treatment = ''Failed to generate treatment advice.'',
      gemini_prevention = ''Failed to generate prevention tips.''\<rparr>"
proof -
  obtain t where h: "preprocess_image example_serve_world example_img = Inr t"
    by (simp add: preprocess_image_Inr_iff example_img_def)
  have p: "predict_image example_serve_world example_serve_state t = Inr
     [\<lparr>pred_class = JStr ''a'', confidence = 3333 / 100\<rparr>,
      \<lparr>pred_class = JStr ''b'', confidence = 3333 / 100\<rparr>,
      \<lparr>pred_class = JStr ''c'', confidence = 3333 / 100\<rparr>]"
    by (simp add: predict_image_def example_serve_world_def example_serve_state_def py_index_0
        topk_def softmax_def label_results_def dict_get_def py_round2_def round_half_even_def Let_def)
  have o: "image_open example_serve_world [1, 2, 3] = Inr example_img"
    by (simp add: example_serve_world_def)
  show ?thesis
    using h p o by (simp add: predict_def example_serve_world_def [symmetric] IMG_SIZE_def
                             example_serve_state_def init_state_def)
qed

text \<open>
  C28: an empty upload is answered with the client error 400 ``Empty file uploaded'',
  before anything else is tried.
\<close>

theorem predict_empty_file:
  "predict w st filename [] = Inl (HTTPException 400 ''Empty file uploaded'')"
  by (simp add: predict_def)

text \<open>
  C29: bytes that Pillow cannot identify as an image are answered with the server
  error 500: \<^verbatim>\<open>Image.open\<close> runs outside \<^verbatim>\<open>preprocess_image\<close>, so its
  \<^verbatim>\<open>UnidentifiedImageError\<close> reaches the handler's generic \<^verbatim>\<open>except\<close>.
\<close>

theorem predict_undecodable_image:
  assumes "contents \<noteq> []" and "image_open w contents = Inl (ImageError msg)"
  shows "predict w st filename contents = Inl (HTTPException 500 ''Internal server error'')"
  using assms by (simp add: predict_def)

theorem predict_undecodable_image_witness:
  "[1] \<noteq> ([] :: 8 word list)
   \<and> image_open example_world [1] = Inl (ImageError ''cannot identify image file'')
   \<and> predict example_world init_state ''notes.txt'' [1] = Inl (HTTPException 500 ''Internal server error'')"
proof -
  have h: "image_open example_world [1] = Inl (ImageError ''cannot identify image file'')"
    by (simp add: example_world_def)
  have n: "[1] \<noteq> ([] :: 8 word list)" by simp
  from predict_undecodable_image [OF n h] n h show ?thesis by blast
qed

text \<open>
  C30: an upload whose header Pillow reads but whose pixel data it cannot decode (a
  truncated file) is answered with the client error 422 ``Invalid image format''.
\<close>

theorem predict_bad_pixels:
  assumes "contents \<noteq> []" and "image_open w contents = Inr img" and "isl (img_load img)"
  shows "predict w st filename contents = Inl (HTTPException 422 ''Invalid image format'')"
  using assms
  by (cases "img_load img")
     (simp_all add: predict_def preprocess_image_def convert_rgb_def transform_def Let_def)

theorem predict_bad_pixels_witness:
  "let img = example_img\<lparr>img_load := Inl (OSError ''image file is truncated'')\<rparr>;
       w = example_world\<lparr>image_open := (\<lambda>bs. Inr img)\<rparr>
   in [1] \<noteq> ([] :: 8 word list) \<and> image_open w [1] = Inr img \<and> isl (img_load img)
      \<and> predict w init_state ''leaf.jpg'' [1] = Inl (HTTPException 422 ''Invalid image format'')"
proof -
  define img where "img = example_img\<lparr>img_load := Inl (OSError ''image file is truncated'')\<rparr>"
  define w where "w = example_world\<lparr>image_open := (\<lambda>bs. Inr img)\<rparr>"
  have n: "[1] \<noteq> ([] :: 8 word list)" by simp
  have o: "image_open w [1] = Inr img" by (simp add: w_def)
  have l: "isl (img_load img)" by (simp add: img_def)
  from predict_bad_pixels [OF n o l] n o l show ?thesis
    unfolding Let_def img_def [symmetric] w_def [symmetric] by blast
qed

text \<open>
  C31: when the image decoder raises no HTTP exception of its own, every error of the
  endpoint is one of three: 400 for an empty upload, 422 for undecodable pixel data,
  500 for everything else (a file that is no image, an inference failure).
\<close>

theorem predict_error_codes:
  assumes "\<forall>e. image_open w contents = Inl e \<longrightarrow> \<not> is_http_exc e"
    and "predict w st filename contents = Inl e"
  shows "e = HTTPException 400 ''Empty file uploaded'' \<or> e = HTTPException 422 ''Invalid image format''
         \<or> e = HTTPException 500 ''Internal server error''"
proof (cases "contents = []")
  case True
  with assms(2) show ?thesis by (simp add: predict_def)
next
  case False
  show ?thesis
  proof (cases "image_open w contents")
    case (Inl e0)
    with assms(1) have "\<not> is_http_exc e0" by simp
    with Inl False assms(2) show ?thesis by (cases e0) (auto simp: predict_def)
  next
    case (Inr img)
    show ?thesis
    proof (cases "preprocess_image w img")
      case (Inl e1)
      with preprocess_image_Inl have "e1 = HTTPException 422 ''Invalid image format''" .
      with Inl Inr False assms(2) show ?thesis by (simp add: predict_def)
    next
      case (Inr t)
      show ?thesis
      proof (cases "predict_image w st t")
        case (Inl e2)
        with predict_image_Inl have "e2 = RuntimeError ''Model inference error''" .
        with Inl Inr \<open>image_open w contents = Inr img\<close> False assms(2) show ?thesis
          by (simp add: predict_def)
      next
        case (Inr ps)
        with \<open>preprocess_image w img = Inr t\<close> \<open>image_open w contents = Inr img\<close> False assms(2)
        show ?thesis by (simp add: predict_def Let_def split: prod.splits)
      qed
    qed
  qed
qed

theorem predict_error_codes_witness:
  "image_open example_world [1] = Inl (ImageError ''cannot identify image file'')
   \<and> \<not> is_http_exc (ImageError ''cannot identify image file'')
   \<and> predict example_world init_state ''notes.txt'' [1] = Inl (HTTPException 500 ''Internal server error'')
   \<and> (HTTPException 500 ''Internal server error'' = HTTPException 400 ''Empty file uploaded''
      \<or> HTTPException 500 ''Internal server error'' = HTTPException 422 ''Invalid image format''
      \<or> HTTPException 500 ''Internal server error'' = HTTPException 500 ''Internal server error'')"
proof -
  have o: "image_open example_world [1] = Inl (ImageError ''cannot identify image file'')"
    by (simp add: example_world_def)
  then have h: "\<forall>e. image_open example_world [1] = Inl e \<longrightarrow> \<not> is_http_exc e" by simp
  have p: "predict example_world init_state ''notes.txt'' [1] = Inl (HTTPException 500 ''Internal server error'')"
    by (simp add: predict_def example_world_def)
  from predict_error_codes [OF h p] o p show ?thesis by simp
qed

lemma predict_Inr:
  assumes "predict w st filename contents = Inr r"
  obtains img t where "contents \<noteq> []" and "image_open w contents = Inr img"
    and "preprocess_image w img = Inr t" and "predict_image w st t = Inr (resp_predictions r)"
    and "resp_filename r = filename" and "resp_model r = ''Vision Transformer''"
    and "resp_input_size r = IMG_SIZE"
    and "(gemini_severity r, gemini_treatment r, gemini_prevention r) =
           (if gemini_model st \<noteq> None
            then generate_gemini_content w st
                   (if resp_predictions r = [] then ''Unknown disease''
                    else py_str (pred_class (hd (resp_predictions r))))
            else PLACEHOLDERS)"
proof -
  have c: "contents \<noteq> []" using assms by (auto simp: predict_def)
  obtain img where o: "image_open w contents = Inr img"
    using assms c by (cases "image_open w contents") (auto simp: predict_def split: py_exc.splits)
  obtain t where p: "preprocess_image w img = Inr t"
    using assms c o by (cases "preprocess_image w img") (auto simp: predict_def split: py_exc.splits)
  obtain ps where i: "predict_image w st t = Inr ps"
    using assms c o p by (cases "predict_image w st t") (auto simp: predict_def split: py_exc.splits)
  have req: "r = \<lparr>resp_filename = filename, resp_predictions = ps,
             resp_model = ''Vision Transformer'', resp_input_size = IMG_SIZE,
             gemini_severity = fst (if gemini_model st \<noteq> None
                 then generate_gemini_content w st
                        (if ps = [] then ''Unknown disease'' else py_str (pred_class (hd ps)))
                 else PLACEHOLDERS),
             gemini_treatment = fst (snd (if gemini_model st \<noteq> None
                 then generate_gemini_content w st
                        (if ps = [] then ''Unknown disease'' else py_str (pred_class (hd ps)))
                 else PLACEHOLDERS)),
             gemini_prevention = snd (snd (if gemini_model st \<noteq> None
                 then generate_gemini_content w st
                        (if ps = [] then ''Unknown disease'' else py_str (pred_class (hd ps)))
                 else PLACEHOLDERS))\<rparr>"
    using assms c o p i by (auto simp: predict_def Let_def PLACEHOLDERS_def case_prod_beta)
  show ?thesis
    by (rule that [OF c o p]) (simp_all add: req i)
qed

text \<open>
  C32: a successful response carries the upload's file name, exactly the three
  predictions of \<^verbatim>\<open>predict_image\<close> on the preprocessed upload, the model name and
  input size, and as advisory the generated text about the top label when a backend is
  bound, the three placeholders otherwise (the ``Unknown disease'' branch is dead).
\<close>

theorem predict_response:
  assumes "predict w st filename contents = Inr r"
  shows "\<exists>img t. image_open w contents = Inr img \<and> preprocess_image w img = Inr t
           \<and> predict_image w st t = Inr (resp_predictions r)
           \<and> length (resp_predictions r) = 3 \<and> resp_filename r = filename
           \<and> resp_model r = ''Vision Transformer'' \<and> resp_input_size r = 224
           \<and> (gemini_severity r, gemini_treatment r, gemini_prevention r) =
               (case gemini_model st of
                  None \<Rightarrow> PLACEHOLDERS
                | Some m \<Rightarrow> generate_gemini_content w st (py_str (pred_class (hd (resp_predictions r)))))"
proof -
  obtain img t where o: "image_open w contents = Inr img" and p: "preprocess_image w img = Inr t"
    and i: "predict_image w st t = Inr (resp_predictions r)"
    and f: "resp_filename r = filename" "resp_model r = ''Vision Transformer''"
           "resp_input_size r = IMG_SIZE"
    and g: "(gemini_severity r, gemini_treatment r, gemini_prevention r) =
           (if gemini_model st \<noteq> None
            then generate_gemini_content w st
                   (if resp_predictions r = [] then ''Unknown disease''
                    else py_str (pred_class (hd (resp_predictions r))))
            else PLACEHOLDERS)"
    using predict_Inr [OF assms] by blast
  have l: "length (resp_predictions r) = 3" by (rule predict_image_length [OF i])
  then have "resp_predictions r \<noteq> []" by auto
  with g have "(gemini_severity r, gemini_treatment r, gemini_prevention r) =
               (case gemini_model st of
                  None \<Rightarrow> PLACEHOLDERS
                | Some m \<Rightarrow> generate_gemini_content w st (py_str (pred_class (hd (resp_predictions r)))))"
    by (simp split: option.split)
  with o p i f l show ?thesis by (auto simp: IMG_SIZE_def)
qed

theorem predict_response_witness:
  "\<exists>r. predict example_serve_world example_serve_state ''leaf.jpg'' [1, 2, 3] = Inr r
     \<and> length (resp_predictions r) = 3 \<and> resp_filename r = ''leaf.jpg''
     \<and> (gemini_severity r, gemini_treatment r, gemini_prevention r) = PLACEHOLDERS"
proof -
  obtain r where h: "predict example_serve_world example_serve_state ''leaf.jpg'' [1, 2, 3] = Inr r"
    using example_predict by blast
  have "gemini_model example_serve_state = None"
    by (simp add: example_serve_state_def init_state_def)
  with predict_response [OF h] h show ?thesis by auto
qed

lemma label_results_ignores_advisory:
  "label_results (st\<lparr>gemini_model := gm, genai_key := k\<rparr>) = label_results st"
  by (intro ext) (simp add: label_results_def)

lemma predict_image_ignores_advisory:
  "predict_image (w\<lparr>genai := g\<rparr>) (st\<lparr>gemini_model := gm, genai_key := k\<rparr>) = predict_image w st"
  by (intro ext) (simp add: predict_image_def label_results_ignores_advisory split: option.split)

lemma transform_ignores_advisory: "transform (w\<lparr>genai := g\<rparr>) = transform w"
proof -
  have "resize (w\<lparr>genai := g\<rparr>) = resize w" by (intro ext) (simp add: resize_def)
  then show ?thesis by (intro ext) (simp add: transform_def)
qed

lemma preprocess_image_ignores_advisory:
  "preprocess_image (w\<lparr>genai := g\<rparr>) = preprocess_image w"
  by (intro ext) (simp add: preprocess_image_def transform_ignores_advisory)

text \<open>
  C33: the advisory never taints the classification: whatever backend is bound and
  whatever it answers, the endpoint fails or succeeds alike and returns the same
  predictions.
\<close>

theorem predict_advisory_independent:
  "map_sum id resp_predictions (predict (w\<lparr>genai := g\<rparr>) (st\<lparr>gemini_model := gm, genai_key := k\<rparr>) f c)
   = map_sum id resp_predictions (predict w st f c)"
  by (simp add: predict_def predict_image_ignores_advisory preprocess_image_ignores_advisory
                Let_def bindE_def case_prod_beta split: sum.split py_exc.split)

lemma configure_gemini_world:
  "configure_gemini w st = (w', st') \<Longrightarrow> w' = w\<lparr>environ := environ w'\<rparr>"
  by (auto simp: configure_gemini_def Let_def split: option.splits if_splits)

lemma startup_Inr:
  assumes "startup w st = Inr (w', st')"
  obtains st1 st2 where "load_class_mapping w st = Inr st1" and "load_model w st1 = Inr st2"
    and "configure_gemini w st2 = (w', st')"
  using assms by (auto simp: startup_def bindE_Inr_iff)

lemma startup_Inr_state:
  assumes "startup w st = Inr (w', st')"
  shows "\<exists>tbl m. idx_to_class st' = Some tbl \<and> model st' = Some m \<and> vit_classes m = length tbl
    \<and> \<not> vit_training m \<and> vit_device m = DEVICE w"
proof -
  obtain st1 st2 where "load_model w st1 = Inr st2" and c: "configure_gemini w st2 = (w', st')"
    using assms by (rule startup_Inr)
  then have "\<exists>tbl m. idx_to_class st2 = Some tbl \<and> model st2 = Some m \<and> vit_classes m = length tbl
    \<and> \<not> vit_training m \<and> vit_device m = DEVICE w"
    by (intro load_model_Inr_ready)
  with configure_gemini_cases [OF c] show ?thesis by simp
qed

lemma example_startup:
  "startup (example_load_world (JArr [JStr ''a'', JStr ''b'', JStr ''c'']) ''vit.'') init_state
     = Inr (example_load_world (JArr [JStr ''a'', JStr ''b'', JStr ''c'']) ''vit.'',
            init_state\<lparr>idx_to_class := Some [(0, JStr ''a''), (1, JStr ''b''), (2, JStr ''c'')],
              model := Some \<lparr>vit_state = [(''cls_token'', \<lparr>tshape = [1, 1, 2], tdata = [1, 2]\<rparr>),
                 (''head.weight'', \<lparr>tshape = [3, 2], tdata = [1, 2, 3, 4, 5, 6]\<rparr>),
                 (''head.bias'', \<lparr>tshape = [3], tdata = [7, 8, 9]\<rparr>)],
                vit_classes = 3, vit_device = CPU, vit_training = False\<rparr>\<rparr>)"
  by (simp add: startup_def load_model_def load_state_dict_def load_param_def example_load_simps
                configure_gemini_def ENV_PATHS_def)

text \<open>
  C34: after a successful startup the class table and the model are loaded, the model
  has one output per class, is in evaluation mode on \<^verbatim>\<open>DEVICE\<close>, and the only
  change to the world is the environment the \<^verbatim>\<open>.env.local\<close> file extends.
\<close>

theorem startup_ready:
  assumes "startup w st = Inr (w', st')"
  shows "\<exists>tbl m. idx_to_class st' = Some tbl \<and> model st' = Some m \<and> vit_classes m = length tbl
    \<and> \<not> vit_training m \<and> vit_device m = DEVICE w \<and> w' = w\<lparr>environ := environ w'\<rparr>"
proof -
  obtain st1 st2 where "configure_gemini w st2 = (w', st')"
    using assms by (rule startup_Inr)
  then have "w' = w\<lparr>environ := environ w'\<rparr>" by (rule configure_gemini_world)
  with startup_Inr_state [OF assms] show ?thesis by blast
qed

theorem startup_ready_witness:
  "let w = example_load_world (JArr [JStr ''a'', JStr ''b'', JStr ''c'']) ''vit.''
   in \<exists>st'. startup w init_state = Inr (w, st')
        \<and> (\<exists>tbl m. idx_to_class st' = Some tbl \<and> model st' = Some m \<and> vit_classes m = length tbl
             \<and> \<not> vit_training m \<and> vit_device m = DEVICE w \<and> w = w\<lparr>environ := environ w\<rparr>)"
  unfolding Let_def using example_startup startup_ready [OF example_startup] by blast


end
