(* ===== verification/Spec2Isabelle.thy ===== *)
theory Spec2Isabelle
  imports Endpoint
begin

text \<open>
  \<^bold>\<open>A verification model of the CropCare plant-disease service.\<close>

  The program is one FastAPI module, \<^verbatim>\<open>src/backend-api/main.py\<close>. At startup three
  handlers run in registration order: \<^verbatim>\<open>load_class_mapping\<close> reads the class-label
  file into \<^verbatim>\<open>app.state.idx_to_class\<close>, \<^verbatim>\<open>load_model\<close> builds the DeiT classifier
  with a head of that many classes and loads the checkpoint into it, and
  \<^verbatim>\<open>configure_gemini\<close> finds the generative-API key and binds the first backend model
  that passes a test prompt. An exception of the first two aborts the start; the third
  catches its own. Per request, \<^verbatim>\<open>POST /predict\<close> opens the upload with Pillow,
  preprocesses it (\<^verbatim>\<open>preprocess_image\<close>), classifies it (\<^verbatim>\<open>predict_image\<close>:
  softmax, top 3, labels, percentages rounded to two places) and asks the backend for
  advisory text about the top label (\<^verbatim>\<open>generate_gemini_content\<close>), parsed into
  three sections. \<^verbatim>\<open>GET /test-gemini\<close> probes the backend.

  \<^bold>\<open>Library.\<close> Python's semantics are kept: exceptions are values of
  \<open>py_exc\<close>, a fallible computation returns \<open>py_exc + 'a\<close>, every
  \<^verbatim>\<open>raise\<close>, \<^verbatim>\<open>try\<close> and early return is a branch of the model.
  \<^item> \<open>Prelude\<close>: exceptions and \<open>bindE\<close>; indexing that raises (\<open>py_index\<close>);
    dictionaries as association lists with insertion order (\<open>dict_get\<close>,
    \<open>dict_of_pairs\<close> for a comprehension); \<open>mapE\<close>, a loop stopping at the
    first exception; bounds of bytes.
  \<^item> \<open>PyStr\<close>: the string built-ins the code calls: \<^verbatim>\<open>split\<close>, \<^verbatim>\<open>join\<close>,
    \<^verbatim>\<open>replace\<close>, \<^verbatim>\<open>strip\<close>, \<^verbatim>\<open>int()\<close> and \<^verbatim>\<open>str()\<close> of an integer.
  \<^item> \<open>State\<close>: JSON values and their \<^verbatim>\<open>str()\<close>; tensors, PIL images, checkpoint
    objects; the model handle \<open>vit_model\<close>; \<open>app_state\<close>, the attributes of
    \<^verbatim>\<open>app.state\<close>; \<open>world\<close>, the external collaborators (files, environment,
    PyTorch Hub, the forward pass, Pillow's decoder and resampler, the generative API)
    as values and functions the handlers read; the constants of lines 29-32.
  \<^item> \<open>Advisory\<close>: \<^verbatim>\<open>configure_gemini\<close> (\<open>load_dotenv\<close>, the model search
    \<open>try_models\<close>), \<^verbatim>\<open>test_gemini\<close>, the prompt, the parser \<open>parse_advisory\<close>
    and \<open>generate_gemini_content\<close> (lines 112-284).
  \<^item> \<open>ClassIndex\<close>: \<^verbatim>\<open>load_class_mapping\<close> (lines 53-71), both file shapes.
  \<^item> \<open>ModelLoad\<close>: \<^verbatim>\<open>VisionTransformer\<close> and \<^verbatim>\<open>load_model\<close> (lines 42-109):
    head replacement, checkpoint selection, \<^verbatim>\<open>vit.\<close> prefix stripping and the
    non-strict \<^verbatim>\<open>load_state_dict\<close> on state dictionaries.
  \<^item> \<open>Preprocess\<close>: \<^verbatim>\<open>preprocess_image\<close> and \<^verbatim>\<open>transform\<close> (lines 35-39,
    225-234): Pillow's RGB conversion per mode with its byte arithmetic on
    \<open>8 word\<close>, resize to a picture of the target size (\<open>rgb_image\<close> carries the
    size), \<^verbatim>\<open>ToTensor\<close> reading the size of the picture it is given,
    \<^verbatim>\<open>Normalize\<close>. A decoded image holds as many rows as its height, each as long
    as its width (\<open>wf_image\<close>).
  \<^item> \<open>Inference\<close>: \<^verbatim>\<open>predict_image\<close> (lines 201-223) over the reals, with
    \<^verbatim>\<open>torch.topk\<close> as a stable sort by probability and \<^verbatim>\<open>round\<close> as
    round-half-even.
  \<^item> \<open>Endpoint\<close>: the startup sequence (\<open>startup\<close>, the three handlers in
    registration order) and \<^verbatim>\<open>POST /predict\<close> (\<open>predict\<close>, lines 286-329).

  \<^bold>\<open>Results.\<close> Claims C1-C9 (Advisory): parsing the generated text is total,
  inverts the requested layout, returns a one-line severity and three stripped fields
  for every answer; the model search is a linear search binding the first candidate
  that passes; without a backend the advisory is the placeholders; the diagnostic
  endpoint's status. C10-C13 (ClassIndex): the table of each file shape, which keys are
  accepted, and the agreement of the object form written with \<^verbatim>\<open>str\<close> keys with
  the list form. C14-C18 (Inference): three sorted percentages in \<open>[0, 100]\<close>, the
  top three logits, success and the failure with fewer than three classes, and each
  confidence within 0.005 of the softmax percentage of its class. C19-C23 (ModelLoad):
  the architecture and parameters of the installed model, the save/load round trip
  through the \<^verbatim>\<open>vit.\<close> prefix, the state after loading, the failure on a head of
  the wrong size, and the silent acceptance of a checkpoint none of whose keys match.
  C24-C27 (Preprocess): success and shape for every decodable upload, each element as
  a function of the resized pixel, bounds, the 422 path. C28-C35 (Endpoint): the
  status code of every error path (an unidentifiable image is a 500, not the 422 the
  spec asks), the response, the independence of the predictions from the advisory
  backend, the state after startup, and exactly which failures abort the startup. C36
  (here): startup followed by a request, end to end.

  \<^bold>\<open>Bounds and loops.\<close> Every loop of the program runs over a finite list (the
  candidate models, the label-file entries, the checkpoint entries, the parameters, the
  top three), so each is structural recursion or \<open>mapE\<close>/\<open>fold\<close> and terminates;
  no fuel is needed. The HTTP server's request loop belongs to uvicorn and is not
  modelled: each request is one call of its handler on the state the startup left,
  which no handler writes.

  \<^bold>\<open>Not modelled.\<close> The network's arithmetic (the forward pass is a function of
  the world, stated by its output shape where a theorem needs it), Pillow's decoders
  and resampling filter (functions of the world), the generative API's answers,
  logging, the CORS middleware and the uvicorn entry point (lines 331-340: framework
  configuration, no logic of the program), float32 rounding (the model computes over
  the reals).
\<close>

text \<open>
  C36: end to end: when the service starts from a list-form label file of at least
  three labels and the network answers with one logit per class, every non-empty
  upload Pillow decodes is answered with three predictions.
\<close>

theorem end_to_end:
  assumes s: "startup w init_state = Inr (w', st)"
    and n: "class_names_file w = Inr (JArr names)" and n3: "3 \<le> length names"
    and fw: "\<forall>m x. \<exists>logits. vit_forward w m x = Inr [logits] \<and> length logits = vit_classes m"
    and c: "contents \<noteq> []" and o: "image_open w contents = Inr img" and l: "\<not> isl (img_load img)"
  shows "\<exists>r. predict w' st filename contents = Inr r \<and> length (resp_predictions r) = 3"
proof -
  define tbl0 where "tbl0 = zip (map int [0..<length names]) names"
  obtain st1 st2 where l1: "load_class_mapping w init_state = Inr st1"
    and l2: "load_model w st1 = Inr st2" and cg: "configure_gemini w st2 = (w', st)"
    using s by (rule startup_Inr)
  have "st1 = init_state\<lparr>idx_to_class := Some tbl0\<rparr>"
    using l1 load_class_mapping_list [OF n, of init_state] by (simp add: tbl0_def)
  then have t1: "idx_to_class st1 = Some tbl0" by simp
  then have "idx_to_class st2 = Some tbl0"
    using load_model_keeps_table [OF l2] by simp
  then have t: "idx_to_class st = Some tbl0"
    using configure_gemini_cases [OF cg] by simp
  obtain tbl m where tm: "idx_to_class st = Some tbl" "model st = Some m" "vit_classes m = length tbl"
    using startup_Inr_state [OF s] by blast
  with t have m: "model st = Some m" and cls: "vit_classes m = length names"
    by (simp_all add: tbl0_def)
  have w': "w' = w\<lparr>environ := environ w'\<rparr>" by (rule configure_gemini_world [OF cg])
  obtain rows where "img_load img = Inr rows" using l by (cases "img_load img") simp_all
  then obtain t where p: "preprocess_image w' img = Inr t"
    by (simp add: preprocess_image_Inr_iff)
  obtain logits where f: "vit_forward w m (unsqueeze0 t) = Inr [logits]"
    and fl: "length logits = length names"
    using fw cls by metis
  have "map fst tbl0 = map int [0..<length names]" by (simp add: tbl0_def)
  then have "fst ` set tbl0 = int ` {0..<length names}" by (metis set_map set_upt)
  then have keys: "\<forall>i<length logits. int i \<in> fst ` set tbl0" by (simp add: fl)
  obtain ps where "bindE (topk (softmax logits) 3)
                (\<lambda>(top3_prob, top3_idx). label_results st top3_prob top3_idx) = Inr ps"
    using top3_labels_ok [OF t _ keys] n3 fl by auto
  then have pi: "predict_image w' st t = Inr ps"
    using m f arg_cong [OF w', of vit_forward] by (simp add: predict_image_def py_index_0)
  have "length ps = 3" by (rule predict_image_length [OF pi])
  moreover have "image_open w' contents = Inr img"
    using o arg_cong [OF w', of image_open] by simp
  ultimately show ?thesis
    using c p pi by (simp add: predict_def Let_def case_prod_beta)
qed

theorem end_to_end_witness:
  "let w = (example_load_world (JArr [JStr ''a'', JStr ''b'', JStr ''c'']) ''vit.'')
             \<lparr>vit_forward := (\<lambda>m x. Inr [replicate (vit_classes m) 0]),
              image_open := (\<lambda>bs. Inr example_img)\<rparr>
   in \<exists>st. startup w init_state = Inr (w, st)
        \<and> class_names_file w = Inr (JArr [JStr ''a'', JStr ''b'', JStr ''c''])
        \<and> 3 \<le> length [JStr ''a'', JStr ''b'', JStr ''c'']
        \<and> (\<forall>m x. \<exists>logits. vit_forward w m x = Inr [logits] \<and> length logits = vit_classes m)
        \<and> [1] \<noteq> ([] :: 8 word list) \<and> image_open w [1] = Inr example_img
        \<and> \<not> isl (img_load example_img)
        \<and> (\<exists>r. predict w st ''leaf.jpg'' [1] = Inr r \<and> length (resp_predictions r) = 3)"
proof -
  define w where "w = (example_load_world (JArr [JStr ''a'', JStr ''b'', JStr ''c'']) ''vit.'')
             \<lparr>vit_forward := (\<lambda>m x. Inr [replicate (vit_classes m) (0::real)]),
              image_open := (\<lambda>bs. Inr example_img)\<rparr>"
  define st where "st = init_state\<lparr>idx_to_class := Some [(0::int, JStr ''a''), (1, JStr ''b''), (2, JStr ''c'')],
              model := Some \<lparr>vit_state = [(''cls_token'', \<lparr>tshape = [1, 1, 2], tdata = [1, 2::real]\<rparr>),
                 (''head.weight'', \<lparr>tshape = [3, 2], tdata = [1, 2, 3, 4, 5, 6]\<rparr>),
                 (''head.bias'', \<lparr>tshape = [3], tdata = [7, 8, 9]\<rparr>)],
                vit_classes = 3, vit_device = CPU, vit_training = False\<rparr>\<rparr>"
  have s: "startup w init_state = Inr (w, st)"
    by (simp add: w_def st_def startup_def load_model_def load_state_dict_def load_param_def
                  example_load_simps configure_gemini_def ENV_PATHS_def)
  have n: "class_names_file w = Inr (JArr [JStr ''a'', JStr ''b'', JStr ''c''])"
    by (simp add: w_def example_load_world_def)
  have n3: "3 \<le> length [JStr ''a'', JStr ''b'', JStr ''c'']" by simp
  have fw: "\<forall>m x. \<exists>logits. vit_forward w m x = Inr [logits] \<and> length logits = vit_classes m"
    by (simp add: w_def)
  have c: "[1] \<noteq> ([] :: 8 word list)" by simp
  have o: "image_open w [1] = Inr example_img" by (simp add: w_def)
  have l: "\<not> isl (img_load example_img)" by (simp add: example_img_def)
  from end_to_end [OF s n n3 fw c o l] s n n3 fw c o l show ?thesis
    unfolding Let_def w_def [symmetric] by blast
qed

end
